theory Spec2Isabelle
  imports Complex_Main "HOL-Library.AList" "HOL-Library.Multiset" "HOL-Library.Log_Nat"
begin

section \<open>Project Hub: the in-memory store, the timeline and the budget figures\<close>

text \<open>
  A shallow embedding of the TypeScript sources:
  \<^item> the storage class \<^verbatim>\<open>MemStorage\<close> (the module the routes import as
    \<^verbatim>\<open>./storage\<close>);
  \<^item> the tables, the insert and update schemas and the template table
    (shared/schema.ts);
  \<^item> the PATCH handlers of \<^verbatim>\<open>registerRoutes\<close>;
  \<^item> the aggregation (\<^verbatim>\<open>getAllEventsForDate\<close>) and the day view of the
    \<^verbatim>\<open>Calendar\<close> page;
  \<^item> the figures of the budget tracker (client/src/components/budget-tracker.tsx).
\<close>

subsection \<open>JavaScript values, objects and Maps\<close>

text \<open>
  The values a record field or a JSON request body holds. Numbers are the integers (the
  schema has integer columns only); arrays and nested objects do not occur in a record
  and are left out. \<open>JInvalidDate\<close> is the Date that \<^verbatim>\<open>new Date(x)\<close> builds from
  text it cannot read.
\<close>

datatype jsval = JUndefined | JNull | JBool bool | JNum int | JStr string | JDate int | JInvalidDate

text \<open>
  An object is its own properties: \<open>None\<close> for a key the object does not have,
  \<open>Some JUndefined\<close> for a key it has with the value \<^verbatim>\<open>undefined\<close>. The two read
  the same (\<open>getProp\<close>) and differ under a spread.
\<close>

type_synonym obj = "string \<rightharpoonup> jsval"

definition getProp :: "obj \<Rightarrow> string \<Rightarrow> jsval" where
  "getProp ob k = (case ob k of None \<Rightarrow> JUndefined | Some v \<Rightarrow> v)"

fun truthy :: "jsval \<Rightarrow> bool" where
  "truthy JUndefined = False"
| "truthy JNull = False"
| "truthy (JBool b) = b"
| "truthy (JNum n) = (n \<noteq> 0)"
| "truthy (JStr s) = (s \<noteq> [])"
| "truthy (JDate t) = True"
| "truthy JInvalidDate = True"

text \<open>
  \<^verbatim>\<open>{ ...a, ...b }\<close> copies every own key of \<open>a\<close>, then every own key of \<open>b\<close>, a
  key of \<open>b\<close> with the value \<^verbatim>\<open>undefined\<close> included.
\<close>

definition spread :: "obj \<Rightarrow> obj \<Rightarrow> obj" where
  "spread a b = a ++ b"

text \<open>
  A JavaScript \<^verbatim>\<open>Map<string, T>\<close> keeps its entries in insertion order: \<^verbatim>\<open>set\<close>
  replaces the value of a key in place or appends a new entry, \<^verbatim>\<open>delete\<close> reports
  whether the key was there, \<^verbatim>\<open>values()\<close> lists the values in order.
\<close>

type_synonym 'v jsmap = "(string \<times> 'v) list"

definition Map_get :: "'v jsmap \<Rightarrow> string \<Rightarrow> 'v option" where
  "Map_get m k = map_of m k"

definition Map_set :: "'v jsmap \<Rightarrow> string \<Rightarrow> 'v \<Rightarrow> 'v jsmap" where
  "Map_set m k v = AList.update k v m"

definition Map_has :: "'v jsmap \<Rightarrow> string \<Rightarrow> bool" where
  "Map_has m k = (k \<in> set (map fst m))"

definition Map_delete :: "'v jsmap \<Rightarrow> string \<Rightarrow> bool \<times> 'v jsmap" where
  "Map_delete m k = (Map_has m k, AList.delete k m)"

definition Map_values :: "'v jsmap \<Rightarrow> 'v list" where
  "Map_values m = map snd m"

text \<open>
  \<^verbatim>\<open>map.delete(t.id)\<close> with the value of a property as the key: the keys are strings,
  so a value that is not a string matches no entry.
\<close>

definition Map_delete_value :: "'v jsmap \<Rightarrow> jsval \<Rightarrow> 'v jsmap" where
  "Map_delete_value m v = (case v of JStr k \<Rightarrow> snd (Map_delete m k) | _ \<Rightarrow> m)"

subsection \<open>The runtime and the store (MemStorage)\<close>

text \<open>
  The two effects the store reads from the runtime: \<^verbatim>\<open>randomUUID()\<close> and
  \<^verbatim>\<open>new Date()\<close>. \<open>randomUUID rt k\<close> is what the \<open>k\<close>-th call of the process
  returns, \<open>currentTime rt k\<close> the epoch milliseconds of the \<open>k\<close>-th \<^verbatim>\<open>new Date()\<close>;
  \<open>dateOf rt v\<close> is \<^verbatim>\<open>new Date(v)\<close>, which the handlers apply to date fields.
\<close>

record runtime =
  randomUUID :: "nat \<Rightarrow> string"
  currentTime :: "nat \<Rightarrow> int"
  dateOf :: "jsval \<Rightarrow> jsval"

text \<open>
  The five Maps of \<^verbatim>\<open>MemStorage\<close>, and the number of calls made so far to
  \<^verbatim>\<open>randomUUID()\<close> and \<^verbatim>\<open>new Date()\<close>.
\<close>

record MemStorage =
  projects :: "obj jsmap"
  tasks :: "obj jsmap"
  contacts :: "obj jsmap"
  budgetItems :: "obj jsmap"
  calendarEvents :: "obj jsmap"
  uuidCalls :: nat
  dateCalls :: nat

text \<open>The constructor: five empty Maps.\<close>

definition newMemStorage :: MemStorage where
  "newMemStorage =
     \<lparr>projects = [], tasks = [], contacts = [], budgetItems = [], calendarEvents = [],
      uuidCalls = 0, dateCalls = 0\<rparr>"

subsubsection \<open>Templates (projectTemplates, shared/schema.ts)\<close>

record taskTemplate =
  tmplTitle :: string
  tmplSection :: string

definition T :: "string \<Rightarrow> string \<Rightarrow> taskTemplate" where
  "T t s = \<lparr>tmplTitle = t, tmplSection = s\<rparr>"

definition weddingTemplate :: "taskTemplate list" where
  "weddingTemplate =
     [T ''Book venue'' ''Pre-Production'',
      T ''Create shot list'' ''Pre-Production'',
      T ''Send questionnaire to couple'' ''Pre-Production'',
      T ''Scout location'' ''Pre-Production'',
      T ''Confirm timeline with couple'' ''Pre-Production'',
      T ''Charge batteries'' ''Shoot Day'',
      T ''Pack equipment'' ''Shoot Day'',
      T ''Conduct ceremony shots'' ''Shoot Day'',
      T ''Capture reception moments'' ''Shoot Day'',
      T ''Import and backup photos'' ''Post-Production'',
      T ''Cull images'' ''Post-Production'',
      T ''Edit selected photos'' ''Post-Production'',
      T ''Deliver final gallery'' ''Post-Production'']"

definition portraitTemplate :: "taskTemplate list" where
  "portraitTemplate =
     [T ''Discuss vision with client'' ''Pre-Production'',
      T ''Choose location or studio'' ''Pre-Production'',
      T ''Plan wardrobe and props'' ''Pre-Production'',
      T ''Book makeup artist (if needed)'' ''Pre-Production'',
      T ''Set up lighting'' ''Shoot Day'',
      T ''Conduct portrait session'' ''Shoot Day'',
      T ''Review shots with client'' ''Shoot Day'',
      T ''Import and backup photos'' ''Post-Production'',
      T ''Retouch selected images'' ''Post-Production'',
      T ''Deliver finals to client'' ''Post-Production'']"

definition commercialTemplate :: "taskTemplate list" where
  "commercialTemplate =
     [T ''Review creative brief'' ''Pre-Production'',
      T ''Create shot list'' ''Pre-Production'',
      T ''Secure permits if needed'' ''Pre-Production'',
      T ''Hire crew/assistants'' ''Pre-Production'',
      T ''Scout and prepare location'' ''Pre-Production'',
      T ''Conduct product/brand shoot'' ''Shoot Day'',
      T ''Review shots with client'' ''Shoot Day'',
      T ''Import and organize files'' ''Post-Production'',
      T ''Edit to brand guidelines'' ''Post-Production'',
      T ''Submit for client approval'' ''Post-Production'',
      T ''Deliver final assets'' ''Post-Production'']"

definition eventTemplate :: "taskTemplate list" where
  "eventTemplate =
     [T ''Discuss event details with client'' ''Pre-Production'',
      T ''Create shot list'' ''Pre-Production'',
      T ''Scout venue'' ''Pre-Production'',
      T ''Plan equipment needs'' ''Pre-Production'',
      T ''Arrive early for setup'' ''Shoot Day'',
      T ''Capture key moments'' ''Shoot Day'',
      T ''Photograph attendees'' ''Shoot Day'',
      T ''Import and backup photos'' ''Post-Production'',
      T ''Cull and organize images'' ''Post-Production'',
      T ''Edit selected photos'' ''Post-Production'',
      T ''Deliver event gallery'' ''Post-Production'']"

definition projectTemplates :: "(string \<times> taskTemplate list) list" where
  "projectTemplates =
     [(''Wedding'', weddingTemplate), (''Portrait'', portraitTemplate),
      (''Commercial'', commercialTemplate), (''Event'', eventTemplate), (''Blank'', [])]"

text \<open>
  \<^verbatim>\<open>projectTemplates[type]\<close> is a property read on an object literal, so it also finds
  what every object inherits from \<^verbatim>\<open>Object.prototype\<close>: for these names the read
  gives a function (or, for \<^verbatim>\<open>__proto__\<close>, the prototype), which is truthy and is not
  iterable.
\<close>

definition objectPrototypeKeys :: "string list" where
  "objectPrototypeKeys =
     [''constructor'', ''__defineGetter__'', ''__defineSetter__'', ''hasOwnProperty'',
      ''__lookupGetter__'', ''__lookupSetter__'', ''isPrototypeOf'', ''propertyIsEnumerable'',
      ''toString'', ''valueOf'', ''__proto__'', ''toLocaleString'']"

datatype templateLookup = NoTemplate | Inherited | Template "taskTemplate list"

text \<open>
  The key is \<^verbatim>\<open>insertProject.type\<close>, a string by its schema. A value that is not a
  string is turned into one (digits, \<^verbatim>\<open>true\<close>, a date's text) that names no property.
\<close>

definition lookupTemplate :: "jsval \<Rightarrow> templateLookup" where
  "lookupTemplate ty =
     (case ty of
        JStr k \<Rightarrow>
          (case map_of projectTemplates k of
             Some template \<Rightarrow> Template template
           | None \<Rightarrow> if k \<in> set objectPrototypeKeys then Inherited else NoTemplate)
      | _ \<Rightarrow> NoTemplate)"

subsubsection \<open>Projects\<close>

datatype error = TypeError

definition getProjects :: "MemStorage \<Rightarrow> obj list" where
  "getProjects s = Map_values (projects s)"

definition getProject :: "MemStorage \<Rightarrow> string \<Rightarrow> obj option" where
  "getProject s id' = Map_get (projects s) id'"

definition createTask :: "runtime \<Rightarrow> MemStorage \<Rightarrow> obj \<Rightarrow> MemStorage \<times> obj" where
  "createTask rt s insertTask =
     (let id' = randomUUID rt (uuidCalls s);
          task = insertTask(''id'' \<mapsto> JStr id', ''createdAt'' \<mapsto> JDate (currentTime rt (dateCalls s)))
      in (s\<lparr>tasks := Map_set (tasks s) id' task,
            uuidCalls := Suc (uuidCalls s), dateCalls := Suc (dateCalls s)\<rparr>, task))"

text \<open>The object literal that \<^verbatim>\<open>createProject\<close> hands to \<^verbatim>\<open>createTask\<close> for a template entry.\<close>

definition templateTask :: "string \<Rightarrow> taskTemplate \<Rightarrow> obj" where
  "templateTask id' taskTemplate =
     [''projectId'' \<mapsto> JStr id', ''title'' \<mapsto> JStr (tmplTitle taskTemplate),
      ''section'' \<mapsto> JStr (tmplSection taskTemplate), ''status'' \<mapsto> JStr ''To Do'',
      ''assignee'' \<mapsto> JStr []]"

text \<open>The loop \<^verbatim>\<open>for (const taskTemplate of template) await this.createTask({...})\<close>.\<close>

fun createTemplateTasks :: "runtime \<Rightarrow> MemStorage \<Rightarrow> string \<Rightarrow> taskTemplate list \<Rightarrow> MemStorage" where
  "createTemplateTasks rt s id' [] = s"
| "createTemplateTasks rt s id' (taskTemplate # rest) =
     createTemplateTasks rt (fst (createTask rt s (templateTask id' taskTemplate))) id' rest"

text \<open>
  \<^verbatim>\<open>createProject\<close>. The project is stored before the template is read; when the read
  gives an inherited member, \<^verbatim>\<open>for ... of\<close> throws a TypeError and the project stays
  stored.
\<close>

definition createProject :: "runtime \<Rightarrow> MemStorage \<Rightarrow> obj \<Rightarrow> MemStorage \<times> (error + obj)" where
  "createProject rt s insertProject =
     (let id' = randomUUID rt (uuidCalls s);
          project = insertProject(''id'' \<mapsto> JStr id',
                                   ''createdAt'' \<mapsto> JDate (currentTime rt (dateCalls s)));
          s1 = s\<lparr>projects := Map_set (projects s) id' project,
                 uuidCalls := Suc (uuidCalls s), dateCalls := Suc (dateCalls s)\<rparr>
      in if truthy (getProp insertProject ''type'') \<and> getProp insertProject ''type'' \<noteq> JStr ''Blank''
         then (case lookupTemplate (getProp insertProject ''type'') of
                 NoTemplate \<Rightarrow> (s1, Inr project)
               | Inherited \<Rightarrow> (s1, Inl TypeError)
               | Template template \<Rightarrow> (createTemplateTasks rt s1 id' template, Inr project))
         else (s1, Inr project))"

definition updateProject :: "MemStorage \<Rightarrow> string \<Rightarrow> obj \<Rightarrow> MemStorage \<times> obj option" where
  "updateProject s id' data =
     (case Map_get (projects s) id' of
        None \<Rightarrow> (s, None)
      | Some project \<Rightarrow>
          (let updated = spread project data
           in (s\<lparr>projects := Map_set (projects s) id' updated\<rparr>, Some updated)))"

text \<open>
  \<^verbatim>\<open>deleteProject\<close>: each sweep first collects the values whose \<^verbatim>\<open>projectId\<close> is the
  given id, then deletes the key \<^verbatim>\<open>t.id\<close> of each.
\<close>

definition sweep :: "obj jsmap \<Rightarrow> string \<Rightarrow> obj jsmap" where
  "sweep m id' =
     (let owned = filter (\<lambda>t. getProp t ''projectId'' = JStr id') (Map_values m)
      in foldl (\<lambda>m' t. Map_delete_value m' (getProp t ''id'')) m owned)"

definition deleteProject :: "MemStorage \<Rightarrow> string \<Rightarrow> MemStorage \<times> bool" where
  "deleteProject s id' =
     (let (deleted, ps) = Map_delete (projects s) id';
          s1 = s\<lparr>projects := ps\<rparr>
      in if deleted
         then (s1\<lparr>tasks := sweep (tasks s1) id',
                  contacts := sweep (contacts s1) id',
                  budgetItems := sweep (budgetItems s1) id',
                  calendarEvents := sweep (calendarEvents s1) id'\<rparr>, True)
         else (s1, False))"

subsubsection \<open>Tasks\<close>

definition getTasks :: "MemStorage \<Rightarrow> obj list" where
  "getTasks s = Map_values (tasks s)"

definition getTask :: "MemStorage \<Rightarrow> string \<Rightarrow> obj option" where
  "getTask s id' = Map_get (tasks s) id'"


definition updateTask :: "MemStorage \<Rightarrow> string \<Rightarrow> obj \<Rightarrow> MemStorage \<times> obj option" where
  "updateTask s id' data =
     (case Map_get (tasks s) id' of
        None \<Rightarrow> (s, None)
      | Some task \<Rightarrow>
          (let updated = spread task data
           in (s\<lparr>tasks := Map_set (tasks s) id' updated\<rparr>, Some updated)))"

definition deleteTask :: "MemStorage \<Rightarrow> string \<Rightarrow> MemStorage \<times> bool" where
  "deleteTask s id' =
     (let (deleted, ts) = Map_delete (tasks s) id' in (s\<lparr>tasks := ts\<rparr>, deleted))"

subsubsection \<open>Contacts\<close>

definition getContacts :: "MemStorage \<Rightarrow> obj list" where
  "getContacts s = Map_values (contacts s)"

definition getContact :: "MemStorage \<Rightarrow> string \<Rightarrow> obj option" where
  "getContact s id' = Map_get (contacts s) id'"


definition createContact :: "runtime \<Rightarrow> MemStorage \<Rightarrow> obj \<Rightarrow> MemStorage \<times> obj" where
  "createContact rt s insertContact =
     (let id' = randomUUID rt (uuidCalls s);
          contact = insertContact(''id'' \<mapsto> JStr id')
      in (s\<lparr>contacts := Map_set (contacts s) id' contact, uuidCalls := Suc (uuidCalls s)\<rparr>,
          contact))"

definition updateContact :: "MemStorage \<Rightarrow> string \<Rightarrow> obj \<Rightarrow> MemStorage \<times> obj option" where
  "updateContact s id' data =
     (case Map_get (contacts s) id' of
        None \<Rightarrow> (s, None)
      | Some contact \<Rightarrow>
          (let updated = spread contact data
           in (s\<lparr>contacts := Map_set (contacts s) id' updated\<rparr>, Some updated)))"

definition deleteContact :: "MemStorage \<Rightarrow> string \<Rightarrow> MemStorage \<times> bool" where
  "deleteContact s id' =
     (let (deleted, cs) = Map_delete (contacts s) id' in (s\<lparr>contacts := cs\<rparr>, deleted))"

subsubsection \<open>Budget items\<close>

definition getBudgetItems :: "MemStorage \<Rightarrow> obj list" where
  "getBudgetItems s = Map_values (budgetItems s)"

definition getBudgetItem :: "MemStorage \<Rightarrow> string \<Rightarrow> obj option" where
  "getBudgetItem s id' = Map_get (budgetItems s) id'"


definition createBudgetItem :: "runtime \<Rightarrow> MemStorage \<Rightarrow> obj \<Rightarrow> MemStorage \<times> obj" where
  "createBudgetItem rt s insertItem =
     (let id' = randomUUID rt (uuidCalls s);
          item = insertItem(''id'' \<mapsto> JStr id')
      in (s\<lparr>budgetItems := Map_set (budgetItems s) id' item, uuidCalls := Suc (uuidCalls s)\<rparr>,
          item))"

definition updateBudgetItem :: "MemStorage \<Rightarrow> string \<Rightarrow> obj \<Rightarrow> MemStorage \<times> obj option" where
  "updateBudgetItem s id' data =
     (case Map_get (budgetItems s) id' of
        None \<Rightarrow> (s, None)
      | Some item \<Rightarrow>
          (let updated = spread item data
           in (s\<lparr>budgetItems := Map_set (budgetItems s) id' updated\<rparr>, Some updated)))"

definition deleteBudgetItem :: "MemStorage \<Rightarrow> string \<Rightarrow> MemStorage \<times> bool" where
  "deleteBudgetItem s id' =
     (let (deleted, bs) = Map_delete (budgetItems s) id' in (s\<lparr>budgetItems := bs\<rparr>, deleted))"

subsubsection \<open>Calendar events\<close>

definition getCalendarEvents :: "MemStorage \<Rightarrow> obj list" where
  "getCalendarEvents s = Map_values (calendarEvents s)"

definition getCalendarEvent :: "MemStorage \<Rightarrow> string \<Rightarrow> obj option" where
  "getCalendarEvent s id' = Map_get (calendarEvents s) id'"


definition createCalendarEvent :: "runtime \<Rightarrow> MemStorage \<Rightarrow> obj \<Rightarrow> MemStorage \<times> obj" where
  "createCalendarEvent rt s insertEvent =
     (let id' = randomUUID rt (uuidCalls s);
          event = insertEvent(''id'' \<mapsto> JStr id')
      in (s\<lparr>calendarEvents := Map_set (calendarEvents s) id' event,
            uuidCalls := Suc (uuidCalls s)\<rparr>, event))"

definition updateCalendarEvent :: "MemStorage \<Rightarrow> string \<Rightarrow> obj \<Rightarrow> MemStorage \<times> obj option" where
  "updateCalendarEvent s id' data =
     (case Map_get (calendarEvents s) id' of
        None \<Rightarrow> (s, None)
      | Some event \<Rightarrow>
          (let updated = spread event data
           in (s\<lparr>calendarEvents := Map_set (calendarEvents s) id' updated\<rparr>, Some updated)))"

definition deleteCalendarEvent :: "MemStorage \<Rightarrow> string \<Rightarrow> MemStorage \<times> bool" where
  "deleteCalendarEvent s id' =
     (let (deleted, es) = Map_delete (calendarEvents s) id'
      in (s\<lparr>calendarEvents := es\<rparr>, deleted))"

subsection \<open>Tables and validation schemas (shared/schema.ts)\<close>

text \<open>
  A table is its list of columns. \<^verbatim>\<open>createInsertSchema\<close> (drizzle-zod) gives one
  field per column: a column that may be null is nullable and optional, a column that
  is not null is optional when it has a default. \<^verbatim>\<open>omit\<close> drops fields,
  \<^verbatim>\<open>partial\<close> makes every field optional.
\<close>

datatype ztype = ZString | ZNumber | ZDate

record column =
  colName :: string
  colType :: ztype
  notNull :: bool
  hasDefault :: bool

definition col :: "string \<Rightarrow> ztype \<Rightarrow> bool \<Rightarrow> bool \<Rightarrow> column" where
  "col n t nn d = \<lparr>colName = n, colType = t, notNull = nn, hasDefault = d\<rparr>"

record zfield =
  fieldKey :: string
  fieldType :: ztype
  nullable :: bool
  optional :: bool

type_synonym zschema = "zfield list"

definition projectsTable :: "column list" where
  "projectsTable =
     [col ''id'' ZString True True, col ''name'' ZString True False,
      col ''type'' ZString True False, col ''status'' ZString True True,
      col ''clientName'' ZString False False, col ''shootDate'' ZDate False False,
      col ''budget'' ZNumber False True, col ''description'' ZString False False,
      col ''createdAt'' ZDate True True]"

definition tasksTable :: "column list" where
  "tasksTable =
     [col ''id'' ZString True True, col ''projectId'' ZString True False,
      col ''title'' ZString True False, col ''section'' ZString True True,
      col ''status'' ZString True True, col ''assignee'' ZString False False,
      col ''dueDate'' ZDate False False, col ''createdAt'' ZDate True True]"

definition contactsTable :: "column list" where
  "contactsTable =
     [col ''id'' ZString True True, col ''projectId'' ZString True False,
      col ''name'' ZString True False, col ''role'' ZString True False,
      col ''email'' ZString False False, col ''phone'' ZString False False,
      col ''notes'' ZString False False]"

definition budgetItemsTable :: "column list" where
  "budgetItemsTable =
     [col ''id'' ZString True True, col ''projectId'' ZString True False,
      col ''description'' ZString True False, col ''plannedCost'' ZNumber True True,
      col ''actualCost'' ZNumber True True, col ''paymentStatus'' ZString True True,
      col ''category'' ZString False False]"

definition calendarEventsTable :: "column list" where
  "calendarEventsTable =
     [col ''id'' ZString True True, col ''projectId'' ZString True False,
      col ''title'' ZString True False, col ''type'' ZString True False,
      col ''startDate'' ZDate True False, col ''endDate'' ZDate False False,
      col ''description'' ZString False False, col ''location'' ZString False False]"

definition createInsertSchema :: "column list \<Rightarrow> zschema" where
  "createInsertSchema table =
     map (\<lambda>c. \<lparr>fieldKey = colName c, fieldType = colType c, nullable = (\<not> notNull c),
               optional = (\<not> notNull c \<or> hasDefault c)\<rparr>) table"

definition omit :: "string list \<Rightarrow> zschema \<Rightarrow> zschema" where
  "omit keys schema = filter (\<lambda>f. fieldKey f \<notin> set keys) schema"

definition partial :: "zschema \<Rightarrow> zschema" where
  "partial schema = map (\<lambda>f. f\<lparr>optional := True\<rparr>) schema"

definition insertProjectSchema :: zschema where
  "insertProjectSchema = omit [''id'', ''createdAt''] (createInsertSchema projectsTable)"

definition updateProjectSchema :: zschema where
  "updateProjectSchema = partial insertProjectSchema"

definition insertTaskSchema :: zschema where
  "insertTaskSchema = omit [''id'', ''createdAt''] (createInsertSchema tasksTable)"

definition updateTaskSchema :: zschema where
  "updateTaskSchema = omit [''projectId''] (partial insertTaskSchema)"

definition insertContactSchema :: zschema where
  "insertContactSchema = omit [''id''] (createInsertSchema contactsTable)"

definition updateContactSchema :: zschema where
  "updateContactSchema = omit [''projectId''] (partial insertContactSchema)"

definition insertBudgetItemSchema :: zschema where
  "insertBudgetItemSchema = omit [''id''] (createInsertSchema budgetItemsTable)"

definition updateBudgetItemSchema :: zschema where
  "updateBudgetItemSchema = omit [''projectId''] (partial insertBudgetItemSchema)"

definition insertCalendarEventSchema :: zschema where
  "insertCalendarEventSchema = omit [''id''] (createInsertSchema calendarEventsTable)"

definition updateCalendarEventSchema :: zschema where
  "updateCalendarEventSchema = omit [''projectId''] (partial insertCalendarEventSchema)"

text \<open>
  \<^verbatim>\<open>schema.parse(input)\<close> of the zod library, for an object schema in its default
  mode: every field of the schema is checked against the input's value for its key
  (\<^verbatim>\<open>undefined\<close> passes an optional field, \<^verbatim>\<open>null\<close> a nullable one, an invalid Date
  passes nothing); a failure throws. The result has the schema's keys that the input
  has, a key whose value is \<^verbatim>\<open>undefined\<close> included, and no other key.
\<close>

definition accepts :: "zfield \<Rightarrow> jsval \<Rightarrow> bool" where
  "accepts f v =
     (case v of
        JUndefined \<Rightarrow> optional f
      | JNull \<Rightarrow> nullable f
      | JBool b \<Rightarrow> False
      | JNum n \<Rightarrow> fieldType f = ZNumber
      | JStr s \<Rightarrow> fieldType f = ZString
      | JDate t \<Rightarrow> fieldType f = ZDate
      | JInvalidDate \<Rightarrow> False)"

definition parse :: "zschema \<Rightarrow> obj \<Rightarrow> obj option" where
  "parse schema input =
     (if list_all (\<lambda>f. accepts f (getProp input (fieldKey f))) schema
      then Some (input |` set (map fieldKey schema))
      else None)"

subsection \<open>The PATCH handlers (registerRoutes)\<close>

text \<open>
  Each handler validates the body with the update schema and calls the store; a throw
  in the \<^verbatim>\<open>try\<close> block answers 400, an absent record 404. The handlers of records
  with date fields first rebuild the body with
  \<^verbatim>\<open>shootDate: req.body.shootDate ? new Date(req.body.shootDate) : undefined\<close> (and
  likewise \<^verbatim>\<open>dueDate\<close>, \<^verbatim>\<open>startDate\<close>, \<^verbatim>\<open>endDate\<close>), which puts the key in the
  body whether or not the request had it.
\<close>

datatype response = Json obj | Status404 | Status400

definition coerceDate :: "runtime \<Rightarrow> obj \<Rightarrow> string \<Rightarrow> jsval" where
  "coerceDate rt body k =
     (if truthy (getProp body k) then dateOf rt (getProp body k) else JUndefined)"

definition respond :: "MemStorage \<times> obj option \<Rightarrow> MemStorage \<times> response" where
  "respond r = (case snd r of None \<Rightarrow> (fst r, Status404) | Some record \<Rightarrow> (fst r, Json record))"

definition patchProject :: "runtime \<Rightarrow> MemStorage \<Rightarrow> string \<Rightarrow> obj \<Rightarrow> MemStorage \<times> response" where
  "patchProject rt s id' reqBody =
     (let body = reqBody(''shootDate'' \<mapsto> coerceDate rt reqBody ''shootDate'')
      in case parse updateProjectSchema body of
           None \<Rightarrow> (s, Status400)
         | Some validatedData \<Rightarrow> respond (updateProject s id' validatedData))"

definition patchTask :: "runtime \<Rightarrow> MemStorage \<Rightarrow> string \<Rightarrow> obj \<Rightarrow> MemStorage \<times> response" where
  "patchTask rt s id' reqBody =
     (let body = reqBody(''dueDate'' \<mapsto> coerceDate rt reqBody ''dueDate'')
      in case parse updateTaskSchema body of
           None \<Rightarrow> (s, Status400)
         | Some validatedData \<Rightarrow> respond (updateTask s id' validatedData))"

definition patchContact :: "MemStorage \<Rightarrow> string \<Rightarrow> obj \<Rightarrow> MemStorage \<times> response" where
  "patchContact s id' reqBody =
     (case parse updateContactSchema reqBody of
        None \<Rightarrow> (s, Status400)
      | Some validatedData \<Rightarrow> respond (updateContact s id' validatedData))"

definition patchBudgetItem :: "MemStorage \<Rightarrow> string \<Rightarrow> obj \<Rightarrow> MemStorage \<times> response" where
  "patchBudgetItem s id' reqBody =
     (case parse updateBudgetItemSchema reqBody of
        None \<Rightarrow> (s, Status400)
      | Some validatedData \<Rightarrow> respond (updateBudgetItem s id' validatedData))"

definition patchCalendarEvent :: "runtime \<Rightarrow> MemStorage \<Rightarrow> string \<Rightarrow> obj \<Rightarrow> MemStorage \<times> response" where
  "patchCalendarEvent rt s id' reqBody =
     (let body = reqBody(''startDate'' \<mapsto> coerceDate rt reqBody ''startDate'',
                         ''endDate'' \<mapsto> coerceDate rt reqBody ''endDate'')
      in case parse updateCalendarEventSchema body of
           None \<Rightarrow> (s, Status400)
         | Some validatedData \<Rightarrow> respond (updateCalendarEvent s id' validatedData))"

subsection \<open>Writing requests, and the states the server reaches\<close>

datatype kind = KProject | KTask | KContact | KBudgetItem | KCalendarEvent

text \<open>
  A request that writes. \<open>Post k data\<close> is a POST whose body the insert schema of the
  kind accepted, \<open>data\<close> being the validated body that the handler hands to the store's
  create method (a body the schema refuses is answered 400 before the store is called).
  \<open>Patch k id' body\<close> is a PATCH with the raw request body, \<open>Delete k id'\<close> a DELETE.
\<close>

datatype request = Post kind obj | Patch kind string obj | Delete kind string

text \<open>The store after the handler of the request has run.\<close>

fun handle :: "runtime \<Rightarrow> MemStorage \<Rightarrow> request \<Rightarrow> MemStorage" where
  "handle rt s (Post KProject data) = fst (createProject rt s data)"
| "handle rt s (Post KTask data) = fst (createTask rt s data)"
| "handle rt s (Post KContact data) = fst (createContact rt s data)"
| "handle rt s (Post KBudgetItem data) = fst (createBudgetItem rt s data)"
| "handle rt s (Post KCalendarEvent data) = fst (createCalendarEvent rt s data)"
| "handle rt s (Patch KProject id' body) = fst (patchProject rt s id' body)"
| "handle rt s (Patch KTask id' body) = fst (patchTask rt s id' body)"
| "handle rt s (Patch KContact id' body) = fst (patchContact s id' body)"
| "handle rt s (Patch KBudgetItem id' body) = fst (patchBudgetItem s id' body)"
| "handle rt s (Patch KCalendarEvent id' body) = fst (patchCalendarEvent rt s id' body)"
| "handle rt s (Delete KProject id') = fst (deleteProject s id')"
| "handle rt s (Delete KTask id') = fst (deleteTask s id')"
| "handle rt s (Delete KContact id') = fst (deleteContact s id')"
| "handle rt s (Delete KBudgetItem id') = fst (deleteBudgetItem s id')"
| "handle rt s (Delete KCalendarEvent id') = fst (deleteCalendarEvent s id')"

text \<open>The Map of an entity kind, the records it lists, and their \<^verbatim>\<open>id\<close> properties.\<close>

definition collection :: "kind \<Rightarrow> MemStorage \<Rightarrow> obj jsmap" where
  "collection k s =
     (case k of KProject \<Rightarrow> projects s | KTask \<Rightarrow> tasks s | KContact \<Rightarrow> contacts s
      | KBudgetItem \<Rightarrow> budgetItems s | KCalendarEvent \<Rightarrow> calendarEvents s)"

definition stored :: "kind \<Rightarrow> MemStorage \<Rightarrow> obj list" where
  "stored k s =
     (case k of KProject \<Rightarrow> getProjects s | KTask \<Rightarrow> getTasks s | KContact \<Rightarrow> getContacts s
      | KBudgetItem \<Rightarrow> getBudgetItems s | KCalendarEvent \<Rightarrow> getCalendarEvents s)"

definition storedIds :: "kind \<Rightarrow> MemStorage \<Rightarrow> jsval list" where
  "storedIds k s = map (\<lambda>r. getProp r ''id'') (stored k s)"

text \<open>
  The ids that a sequence of requests brings into an entity kind: after each request,
  the ids of the records listed then and not listed before it, in listing order.
\<close>

fun created :: "runtime \<Rightarrow> kind \<Rightarrow> MemStorage \<Rightarrow> request list \<Rightarrow> jsval list" where
  "created rt k s [] = []"
| "created rt k s (r # rs) =
     filter (\<lambda>i. i \<notin> set (storedIds k s)) (storedIds k (handle rt s r))
     @ created rt k (handle rt s r) rs"

text \<open>
  The states the server reaches: the store starts empty, and its methods are called by
  the route handlers only. Creation and deletion hand the validated body, or the id, to
  the store; an update goes through the PATCH handler of its kind.
\<close>

inductive reachable :: "runtime \<Rightarrow> MemStorage \<Rightarrow> bool" for rt :: runtime where
  init: "reachable rt newMemStorage"
| createP: "reachable rt s \<Longrightarrow> reachable rt (fst (createProject rt s p))"
| createT: "reachable rt s \<Longrightarrow> reachable rt (fst (createTask rt s t))"
| createC: "reachable rt s \<Longrightarrow> reachable rt (fst (createContact rt s c))"
| createB: "reachable rt s \<Longrightarrow> reachable rt (fst (createBudgetItem rt s b))"
| createE: "reachable rt s \<Longrightarrow> reachable rt (fst (createCalendarEvent rt s e))"
| deleteP: "reachable rt s \<Longrightarrow> reachable rt (fst (deleteProject s i))"
| deleteT: "reachable rt s \<Longrightarrow> reachable rt (fst (deleteTask s i))"
| deleteC: "reachable rt s \<Longrightarrow> reachable rt (fst (deleteContact s i))"
| deleteB: "reachable rt s \<Longrightarrow> reachable rt (fst (deleteBudgetItem s i))"
| deleteE: "reachable rt s \<Longrightarrow> reachable rt (fst (deleteCalendarEvent s i))"
| patchP: "reachable rt s \<Longrightarrow> reachable rt (fst (patchProject rt s i body))"
| patchT: "reachable rt s \<Longrightarrow> reachable rt (fst (patchTask rt s i body))"
| patchC: "reachable rt s \<Longrightarrow> reachable rt (fst (patchContact s i body))"
| patchB: "reachable rt s \<Longrightarrow> reachable rt (fst (patchBudgetItem s i body))"
| patchE: "reachable rt s \<Longrightarrow> reachable rt (fst (patchCalendarEvent rt s i body))"

text \<open>Every record of a Map is stored under the string in its own \<^verbatim>\<open>id\<close> property.\<close>

definition keyedById :: "obj jsmap \<Rightarrow> bool" where
  "keyedById m = (distinct (map fst m) \<and> list_all (\<lambda>(k, r). r ''id'' = Some (JStr k)) m)"

definition wellKeyed :: "MemStorage \<Rightarrow> bool" where
  "wellKeyed s =
     (keyedById (projects s) \<and> keyedById (tasks s) \<and> keyedById (contacts s)
      \<and> keyedById (budgetItems s) \<and> keyedById (calendarEvents s))"

subsection \<open>A concrete runtime and store for the examples\<close>

text \<open>
  A runtime whose \<open>k\<close>-th UUID is \<open>k + 1\<close> letters \<open>u\<close>, whose clock ticks once per
  reading, and whose \<^verbatim>\<open>new Date(v)\<close> reads a number as epoch milliseconds.
\<close>

definition exampleRuntime :: runtime where
  "exampleRuntime =
     \<lparr>randomUUID = (\<lambda>k. replicate (Suc k) CHR ''u''),
      currentTime = (\<lambda>k. int k),
      dateOf = (\<lambda>v. case v of JNum n \<Rightarrow> JDate n | _ \<Rightarrow> JInvalidDate)\<rparr>"

text \<open>
  Two blank projects (ids \<open>u\<close> and \<open>uu\<close>), then one task for each (ids \<open>uuu\<close> and
  \<open>uuuu\<close>).
\<close>

definition exampleStore :: MemStorage where
  "exampleStore =
     (let s1 = fst (createProject exampleRuntime newMemStorage
                     [''name'' \<mapsto> JStr ''Anna'', ''type'' \<mapsto> JStr ''Blank'']);
          s2 = fst (createProject exampleRuntime s1
                     [''name'' \<mapsto> JStr ''Ben'', ''type'' \<mapsto> JStr ''Blank'',
                      ''shootDate'' \<mapsto> JDate 86400000]);
          s3 = fst (createTask exampleRuntime s2
                     [''projectId'' \<mapsto> JStr ''u'', ''title'' \<mapsto> JStr ''Scout'']);
          s4 = fst (createTask exampleRuntime s3
                     [''projectId'' \<mapsto> JStr ''uu'', ''title'' \<mapsto> JStr ''Edit''])
      in s4)"

text \<open>
  The same store with a contact, a budget item and a calendar event of project \<open>u\<close>
  (ids of five, six and seven letters).
\<close>

definition exampleStoreFull :: MemStorage where
  "exampleStoreFull =
     (let s5 = fst (createContact exampleRuntime exampleStore
                     [''projectId'' \<mapsto> JStr ''u'', ''name'' \<mapsto> JStr ''Cleo'',
                      ''role'' \<mapsto> JStr ''Client'']);
          s6 = fst (createBudgetItem exampleRuntime s5
                     [''projectId'' \<mapsto> JStr ''u'', ''description'' \<mapsto> JStr ''Studio'',
                      ''plannedCost'' \<mapsto> JNum 1000, ''actualCost'' \<mapsto> JNum 1200]);
          s7 = fst (createCalendarEvent exampleRuntime s6
                     [''projectId'' \<mapsto> JStr ''u'', ''title'' \<mapsto> JStr ''Call'',
                      ''type'' \<mapsto> JStr ''Meeting'', ''startDate'' \<mapsto> JDate 3600000])
      in s7)"

text \<open>A runtime whose \<^verbatim>\<open>randomUUID()\<close> returns the same value at every call.\<close>

definition repeatingRuntime :: runtime where
  "repeatingRuntime = exampleRuntime\<lparr>randomUUID := (\<lambda>k. ''x'')\<rparr>"

text \<open>
  A templated project is created, a task is deleted, a task is patched with a body that
  names an \<^verbatim>\<open>id\<close>, and a task is created.
\<close>

definition exampleRequests :: "request list" where
  "exampleRequests =
     [Post KProject [''name'' \<mapsto> JStr ''Smith wedding'', ''type'' \<mapsto> JStr ''Wedding''],
      Delete KTask ''uuu'',
      Patch KTask ''uuuu'' [''id'' \<mapsto> JStr ''u'', ''title'' \<mapsto> JStr ''Edited''],
      Post KTask [''projectId'' \<mapsto> JStr ''uu'', ''title'' \<mapsto> JStr ''Deliver'']]"

subsection \<open>The update contract, in the specification's words\<close>

text \<open>
  A shallow merge of the supplied fields onto the existing record: a field the payload
  supplies takes the payload's value, an omitted field keeps its prior value.
\<close>

definition merged :: "obj \<Rightarrow> obj \<Rightarrow> obj" where
  "merged existing partialFields =
     (\<lambda>k. case partialFields k of None \<Rightarrow> existing k | Some v \<Rightarrow> Some v)"

text \<open>
  \<open>update(id, partialFields)\<close> on one collection of the store: not-found and an
  unchanged store for an absent id; for a present id the merged record, returned and put
  in the collection under the id, nothing else of the store changed.
\<close>

definition updateMerges ::
  "(MemStorage \<Rightarrow> obj jsmap) \<Rightarrow> (obj jsmap \<Rightarrow> MemStorage \<Rightarrow> MemStorage)
    \<Rightarrow> (MemStorage \<Rightarrow> string \<Rightarrow> obj \<Rightarrow> MemStorage \<times> obj option) \<Rightarrow> bool" where
  "updateMerges coll setColl update =
     (\<forall>s i d. case Map_get (coll s) i of
               None \<Rightarrow> update s i d = (s, None)
             | Some r \<Rightarrow>
                 update s i d
                   = (setColl (Map_set (coll s) i (merged r d)) s, Some (merged r d)))"

text \<open>The fields an update must not change.\<close>

definition protectedKeys :: "string list" where
  "protectedKeys = [''id'', ''createdAt'', ''projectId'']"

subsection \<open>Template instantiation, in the specification's words\<close>

text \<open>
  The tasks a template is expected to give, one per entry and in the entries' order:
  the \<open>j\<close>-th is stored under the \<open>j\<close>-th UUID drawn after \<open>u\<close> and carries the
  \<open>j\<close>-th clock reading after \<open>d\<close>.
\<close>

fun expectedTasks :: "runtime \<Rightarrow> nat \<Rightarrow> nat \<Rightarrow> string \<Rightarrow> taskTemplate list \<Rightarrow> obj jsmap" where
  "expectedTasks rt u d pid [] = []"
| "expectedTasks rt u d pid (entry # rest) =
     (randomUUID rt u,
      (templateTask pid entry)(''id'' \<mapsto> JStr (randomUUID rt u),
                               ''createdAt'' \<mapsto> JDate (currentTime rt d)))
     # expectedTasks rt (Suc u) (Suc d) pid rest"

text \<open>
  The UUIDs that the calls number \<open>u\<close> to \<open>u + n - 1\<close> return are pairwise distinct
  and none is the key of a stored task.
\<close>

definition freshTaskIds :: "runtime \<Rightarrow> MemStorage \<Rightarrow> nat \<Rightarrow> nat \<Rightarrow> bool" where
  "freshTaskIds rt s u n =
     (distinct (map (randomUUID rt) [u ..< u + n])
      \<and> list_all (\<lambda>k. k \<notin> set (map fst (tasks s))) (map (randomUUID rt) [u ..< u + n]))"

subsection \<open>The calendar page (Calendar)\<close>

text \<open>
  The page works on the records as the API's JSON gives them, typed by the schema's
  select types. A date field is read through \<^verbatim>\<open>new Date(...)\<close> wherever it is used;
  here it is the epoch milliseconds of that Date. An absent or null optional field is
  \<open>None\<close>.
\<close>

record CalendarEvent =
  ev_id :: string
  ev_projectId :: string
  ev_title :: string
  ev_type :: string
  ev_startDate :: int
  ev_endDate :: "int option"
  ev_description :: "string option"
  ev_location :: "string option"

record Task =
  task_id :: string
  task_projectId :: string
  task_title :: string
  task_section :: string
  task_status :: string
  task_assignee :: "string option"
  task_dueDate :: "int option"
  task_createdAt :: int

record Project =
  project_id :: string
  project_name :: string
  project_type :: string
  project_status :: string
  project_clientName :: "string option"
  project_shootDate :: "int option"
  project_budget :: "int option"
  project_description :: "string option"
  project_createdAt :: int

text \<open>
  What \<^verbatim>\<open>getAllEventsForDate\<close> returns: a calendar event as it is, or the five-field
  object built for a task or a project (the three optional fields are then absent).
\<close>

record TimelineItem =
  item_id :: string
  item_type :: string
  item_title :: string
  item_startDate :: int
  item_projectId :: string
  item_endDate :: "int option"
  item_description :: "string option"
  item_location :: "string option"

text \<open>
  date-fns compares local calendar days: \<^verbatim>\<open>isSameDay(a, b)\<close> holds when the two dates
  have the same \<^verbatim>\<open>startOfDay\<close>. The browser's \<^verbatim>\<open>startOfDay\<close> (its time zone) is the
  parameter \<open>sod\<close>.
\<close>

definition isSameDay :: "(int \<Rightarrow> int) \<Rightarrow> int \<Rightarrow> int \<Rightarrow> bool" where
  "isSameDay sod a b = (sod a = sod b)"

definition eventItem :: "CalendarEvent \<Rightarrow> TimelineItem" where
  "eventItem event =
     \<lparr>item_id = ev_id event, item_type = ev_type event, item_title = ev_title event,
      item_startDate = ev_startDate event, item_projectId = ev_projectId event,
      item_endDate = ev_endDate event, item_description = ev_description event,
      item_location = ev_location event\<rparr>"

text \<open>
  \<^verbatim>\<open>allTasks.filter(task => task.dueDate && isSameDay(new Date(task.dueDate), date)).map(...)\<close>:
  the filter and the map of one task, together.
\<close>

definition taskDeadline :: "(int \<Rightarrow> int) \<Rightarrow> int \<Rightarrow> Task \<Rightarrow> TimelineItem option" where
  "taskDeadline sod date task =
     (case task_dueDate task of
        None \<Rightarrow> None
      | Some dueDate \<Rightarrow>
          if isSameDay sod dueDate date
          then Some \<lparr>item_id = task_id task, item_type = ''Deadline'', item_title = task_title task,
                     item_startDate = dueDate, item_projectId = task_projectId task,
                     item_endDate = None, item_description = None, item_location = None\<rparr>
          else None)"

definition photoShoot :: "(int \<Rightarrow> int) \<Rightarrow> int \<Rightarrow> Project \<Rightarrow> TimelineItem option" where
  "photoShoot sod date project =
     (case project_shootDate project of
        None \<Rightarrow> None
      | Some shootDate \<Rightarrow>
          if isSameDay sod shootDate date
          then Some \<lparr>item_id = project_id project, item_type = ''Photoshoot'',
                     item_title = project_name project, item_startDate = shootDate,
                     item_projectId = project_id project,
                     item_endDate = None, item_description = None, item_location = None\<rparr>
          else None)"

definition getAllEventsForDate ::
  "(int \<Rightarrow> int) \<Rightarrow> CalendarEvent list \<Rightarrow> Task list \<Rightarrow> Project list \<Rightarrow> int \<Rightarrow> TimelineItem list" where
  "getAllEventsForDate sod allEvents allTasks allProjects date =
     (let calendarEvents' = filter (\<lambda>event. isSameDay sod (ev_startDate event) date) allEvents;
          taskDeadlines = List.map_filter (taskDeadline sod date) allTasks;
          photoShoots = List.map_filter (photoShoot sod date) allProjects
      in map eventItem calendarEvents' @ taskDeadlines @ photoShoots)"

text \<open>
  The day view: \<^verbatim>\<open>events.sort((a, b) => new Date(a.startDate).getTime() - new Date(b.startDate).getTime())\<close>.
  \<^verbatim>\<open>Array.prototype.sort\<close> is stable, and so is \<open>sort_key\<close>.
\<close>

definition renderDayView ::
  "(int \<Rightarrow> int) \<Rightarrow> CalendarEvent list \<Rightarrow> Task list \<Rightarrow> Project list \<Rightarrow> int \<Rightarrow> TimelineItem list" where
  "renderDayView sod allEvents allTasks allProjects currentDate =
     sort_key item_startDate (getAllEventsForDate sod allEvents allTasks allProjects currentDate)"

subsection \<open>Budget tracker (client/src/components/budget-tracker.tsx)\<close>

text \<open>
  The component receives the project's budget items and \<^verbatim>\<open>projectBudget\<close>, which the
  project page passes as \<^verbatim>\<open>project.budget || 0\<close>. Costs are integer columns; a JavaScript
  number holds every integer below \<open>2^53\<close> exactly, so the sums are sums of integers.
\<close>

record BudgetItem =
  bi_id :: string
  bi_projectId :: string
  bi_description :: string
  plannedCost :: int
  actualCost :: int
  paymentStatus :: string
  category :: "string option"

text \<open>\<^verbatim>\<open>project.budget || 0\<close>: a null budget and a zero budget both give 0.\<close>

definition projectBudgetProp :: "int option \<Rightarrow> int" where
  "projectBudgetProp budget = (case budget of None \<Rightarrow> 0 | Some b \<Rightarrow> if b \<noteq> 0 then b else 0)"

text \<open>\<^verbatim>\<open>budgetItems.reduce((sum, item) => sum + item.plannedCost, 0)\<close> is a left fold.\<close>

definition totalPlanned :: "BudgetItem list \<Rightarrow> int" where
  "totalPlanned items = foldl (\<lambda>sum item. sum + plannedCost item) 0 items"

definition totalActual :: "BudgetItem list \<Rightarrow> int" where
  "totalActual items = foldl (\<lambda>sum item. sum + actualCost item) 0 items"

definition profitLoss :: "int \<Rightarrow> BudgetItem list \<Rightarrow> int" where
  "profitLoss projectBudget items = projectBudget - totalActual items"

text \<open>Decimal digits of a natural number, as \<^verbatim>\<open>Number.prototype.toFixed\<close> prints them.\<close>

definition digit :: "nat \<Rightarrow> char" where
  "digit d = char_of (48 + d)"

fun digits :: "nat \<Rightarrow> string" where
  "digits n = (if n < 10 then [digit n] else digits (n div 10) @ [digit (n mod 10)])"

declare digits.simps [simp del]

text \<open>
  JavaScript numbers are IEEE 754 doubles. A finite double is a rational number, and
  \<^verbatim>\<open>/\<close> and \<^verbatim>\<open>*\<close> give the exact result rounded to the nearest double, ties to the
  even significand. \<open>toDouble\<close> is that rounding for a result that is 0 or in the
  normal range (the quotient of two integers below \<open>2^53\<close> and its product with 100
  are): the exponent \<open>e'\<close> with \<open>2^e' \<le> |x| < 2^(e' + 1)\<close> is read off the bit
  lengths of numerator and denominator, and \<open>|x|\<close> is rounded to a multiple of
  \<open>2^(e' - 52)\<close>.
\<close>

definition pow2 :: "int \<Rightarrow> rat" where
  "pow2 e = (if 0 \<le> e then 2 ^ nat e else 1 / 2 ^ nat (- e))"

definition roundHalfEven :: "rat \<Rightarrow> int" where
  "roundHalfEven y =
     (let f = \<lfloor>y\<rfloor>; r = y - of_int f
      in if r < 1 / 2 then f else if 1 / 2 < r then f + 1 else if even f then f else f + 1)"

definition toDouble :: "rat \<Rightarrow> rat" where
  "toDouble x =
     (if x = 0 then 0
      else let (p, q) = quotient_of \<bar>x\<bar>;
               e = bitlen p - bitlen q;
               e' = (if pow2 e \<le> \<bar>x\<bar> then e else e - 1);
               k = 52 - e'
           in sgn x * (of_int (roundHalfEven (\<bar>x\<bar> * pow2 k)) / pow2 k))"

definition jsDiv :: "rat \<Rightarrow> rat \<Rightarrow> rat" where
  "jsDiv a b = toDouble (a / b)"

definition jsMul :: "rat \<Rightarrow> rat \<Rightarrow> rat" where
  "jsMul a b = toDouble (a * b)"

text \<open>
  \<^verbatim>\<open>x.toFixed(1)\<close> for \<open>|x| < 10^21\<close>: the sign, then the integer \<open>n\<close> with
  \<open>n / 10\<close> nearest to the exact value of \<open>|x|\<close> (the larger one on a tie), printed
  with one fractional digit.
\<close>

definition toFixed1 :: "rat \<Rightarrow> string" where
  "toFixed1 x =
     (let n = nat \<lfloor>\<bar>x\<bar> * 10 + 1 / 2\<rfloor>
      in (if x < 0 then ''-'' else '''') @ digits (n div 10) @ ''.'' @ [digit (n mod 10)])"

text \<open>
  The margin the card shows:
  \<^verbatim>\<open>projectBudget > 0 ? `${((profitLoss / projectBudget) * 100).toFixed(1)}% margin` : 'No budget set'\<close>.
  \<open>margin\<close> is the double under \<^verbatim>\<open>toFixed\<close>, with \<open>None\<close> where the guard skips
  the division.
\<close>

definition margin :: "int \<Rightarrow> BudgetItem list \<Rightarrow> rat option" where
  "margin projectBudget items =
     (if projectBudget > 0
      then Some (jsMul (jsDiv (of_int (profitLoss projectBudget items)) (of_int projectBudget)) 100)
      else None)"

definition marginText :: "int \<Rightarrow> BudgetItem list \<Rightarrow> string" where
  "marginText projectBudget items =
     (case margin projectBudget items of
        Some m \<Rightarrow> toFixed1 m @ ''% margin''
      | None \<Rightarrow> ''No budget set'')"

text \<open>The two items of the specification's example.\<close>

definition exampleItems :: "BudgetItem list" where
  "exampleItems =
     [\<lparr>bi_id = ''b1'', bi_projectId = ''p'', bi_description = ''Studio'', plannedCost = 1000,
        actualCost = 1200, paymentStatus = ''Paid'', category = None\<rparr>,
      \<lparr>bi_id = ''b2'', bi_projectId = ''p'', bi_description = ''Assistant'', plannedCost = 500,
        actualCost = 300, paymentStatus = ''Unpaid'', category = None\<rparr>]"

section \<open>Verification\<close>

subsection \<open>Budget figures\<close>

lemma foldl_add_sum_list:
  "foldl (\<lambda>sum item. sum + f item) a xs = (a::int) + sum_list (map f xs)"
  by (induction xs arbitrary: a) simp_all

lemma examplePlanned: "totalPlanned exampleItems = 1500"
  by (simp add: totalPlanned_def exampleItems_def)

lemma exampleActual: "totalActual exampleItems = 1500"
  by (simp add: totalActual_def exampleItems_def)

lemma example_quotient: "jsMul (jsDiv 3500 5000) 100 = 70"
  by code_simp

lemma exampleMargin: "margin 5000 exampleItems = Some 70"
  by (simp add: margin_def profitLoss_def exampleActual example_quotient)

lemma toFixed1_70: "toFixed1 70 = ''70.0''"
  by code_simp

text \<open>
  C5. For every budget and every list of budget items, totalPlanned is the sum of
  plannedCost over all items, totalActual is the sum of actualCost over all items, and
  profitLoss is the budget minus totalActual (not minus totalPlanned). For budget 5000
  and the items (planned 1000, actual 1200), (planned 500, actual 300): totalPlanned =
  1500, totalActual = 1500, profitLoss = 3500, and the margin reads 70.0%.
\<close>

theorem budget_arithmetic:
  "totalPlanned items = sum_list (map plannedCost items)
   \<and> totalActual items = sum_list (map actualCost items)
   \<and> profitLoss budget items = budget - sum_list (map actualCost items)
   \<and> totalPlanned exampleItems = 1500
   \<and> totalActual exampleItems = 1500
   \<and> profitLoss 5000 exampleItems = 3500
   \<and> margin 5000 exampleItems = Some 70
   \<and> marginText 5000 exampleItems = ''70.0% margin''"
proof -
  have p: "totalPlanned items = sum_list (map plannedCost items)"
    by (simp add: totalPlanned_def foldl_add_sum_list)
  have a: "totalActual items = sum_list (map actualCost items)"
    by (simp add: totalActual_def foldl_add_sum_list)
  have l: "profitLoss budget items = budget - sum_list (map actualCost items)"
    by (simp add: profitLoss_def a)
  have e: "profitLoss 5000 exampleItems = 3500"
    by (simp add: profitLoss_def exampleActual)
  have t: "marginText 5000 exampleItems = ''70.0% margin''"
    by (simp add: marginText_def exampleMargin toFixed1_70)
  from p a l e t examplePlanned exampleActual exampleMargin show ?thesis
    by blast
qed

lemma pow2_powi: "pow2 e = 2 powi e"
  by (simp add: pow2_def power_int_def inverse_eq_divide power_one_over)

lemma pow2_pos: "0 < pow2 e"
  by (simp add: pow2_powi zero_less_power_int)

lemma pow2_add: "pow2 (i + j) = pow2 i * pow2 j"
  by (simp add: pow2_powi power_int_add)

lemma pow2_nat: "pow2 (int n) = 2 ^ n"
  by (simp add: pow2_def)

lemma roundHalfEven_error: "\<bar>of_int (roundHalfEven y) - y\<bar> \<le> 1 / 2"
proof -
  define r where "r = y - of_int \<lfloor>y\<rfloor>"
  have r: "0 \<le> r" "r < 1"
    unfolding r_def by linarith+
  have y: "y = of_int \<lfloor>y\<rfloor> + r"
    by (simp add: r_def)
  consider "roundHalfEven y = \<lfloor>y\<rfloor>" "r \<le> 1 / 2"
    | "roundHalfEven y = \<lfloor>y\<rfloor> + 1" "1 / 2 \<le> r"
    unfolding roundHalfEven_def Let_def r_def [symmetric]
    by (cases "r < 1 / 2"; cases "1 / 2 < r"; cases "even \<lfloor>y\<rfloor>") auto
  then show ?thesis
  proof cases
    case 1
    then show ?thesis using r by (subst (2) y) simp
  next
    case 2
    then show ?thesis using r by (subst (2) y) simp
  qed
qed

lemma quotient_lower:
  assumes "0 < a" and "quotient_of a = (p, q)"
  shows "pow2 (bitlen p - bitlen q - 1) \<le> a"
proof -
  from assms(2) have q: "0 < q" and a: "a = of_int p / of_int q"
    by (simp_all add: quotient_of_denom_pos quotient_of_div)
  with assms(1) have p: "0 < p"
    by (simp add: zero_less_divide_iff)
  from bitlen_bounds [OF p] have lp: "2 ^ nat (bitlen p - 1) \<le> p" by simp
  from bitlen_bounds [OF q] have uq: "q < 2 ^ nat (bitlen q)" by simp
  have bp: "0 < bitlen p" and bq: "0 < bitlen q"
    using p q bitlen_eq_zero_iff [of p] bitlen_eq_zero_iff [of q] bitlen_nonneg [of p]
      bitlen_nonneg [of q]
    by linarith+
  have "pow2 (bitlen p - bitlen q - 1) = pow2 (bitlen p - 1) * pow2 (- bitlen q)"
    using pow2_add [of "bitlen p - 1" "- bitlen q"] by (simp add: algebra_simps)
  also have "\<dots> = 2 ^ nat (bitlen p - 1) / 2 ^ nat (bitlen q)"
    using bp bq by (simp add: pow2_def)
  also have "\<dots> \<le> of_int p / of_int q"
  proof -
    have 1: "(2::rat) ^ nat (bitlen p - 1) \<le> of_int p"
      using lp by (metis of_int_le_iff of_int_numeral of_int_power)
    have 2: "of_int q \<le> (2::rat) ^ nat (bitlen q)"
      using uq by (metis less_imp_le of_int_le_iff of_int_numeral of_int_power)
    from 1 2 p q show ?thesis
      by (intro frac_le) simp_all
  qed
  finally show ?thesis by (simp add: a)
qed

lemma toDouble_error: "\<bar>toDouble x - x\<bar> \<le> \<bar>x\<bar> / 2 ^ 53"
proof (cases "x = 0")
  case True
  then show ?thesis by (simp add: toDouble_def)
next
  case False
  obtain p q where pq: "quotient_of \<bar>x\<bar> = (p, q)" by (cases "quotient_of \<bar>x\<bar>")
  define e where "e = bitlen p - bitlen q"
  define e' where "e' = (if pow2 e \<le> \<bar>x\<bar> then e else e - 1)"
  define k where "k = 52 - e'"
  define y where "y = \<bar>x\<bar> * pow2 k"
  have td: "toDouble x = sgn x * (of_int (roundHalfEven y) / pow2 k)"
    using False pq by (simp add: toDouble_def Let_def e_def e'_def k_def y_def)
  have low: "pow2 e' \<le> \<bar>x\<bar>"
    using quotient_lower [OF _ pq] False by (simp add: e'_def e_def)
  have "pow2 e' * pow2 k = 2 ^ 52"
    using pow2_add [of e' k] pow2_nat [of 52] by (simp add: k_def)
  with low have ylow: "2 ^ 52 \<le> y"
    unfolding y_def using pow2_pos [of k] by (metis mult_right_mono less_imp_le)
  have x: "x = sgn x * (y / pow2 k)"
    using pow2_pos [of k] by (simp add: y_def sgn_mult_abs)
  have "toDouble x - x = sgn x * ((of_int (roundHalfEven y) - y) / pow2 k)"
    by (subst (2) x) (simp add: td algebra_simps diff_divide_distrib)
  then have "\<bar>toDouble x - x\<bar> = \<bar>of_int (roundHalfEven y) - y\<bar> / pow2 k"
    using False pow2_pos [of k] by (simp add: abs_mult abs_sgn_eq)
  also have "\<dots> \<le> (1 / 2) / pow2 k"
    by (rule divide_right_mono [OF roundHalfEven_error less_imp_le [OF pow2_pos]])
  also have "\<dots> \<le> (y / 2 ^ 53) / pow2 k"
    using ylow pow2_pos [of k] by (intro divide_right_mono) simp_all
  also have "\<dots> = \<bar>x\<bar> / 2 ^ 53"
    using pow2_pos [of k] by (simp add: y_def)
  finally show ?thesis .
qed

lemma jsMul_jsDiv_error:
  "\<bar>jsMul (jsDiv a b) c - a / b * c\<bar> \<le> 3 * \<bar>a / b * c\<bar> / 2 ^ 53"
proof -
  define q where "q = a / b"
  define d where "d = toDouble q"
  define u :: rat where "u = 1 / 2 ^ 53"
  have u: "0 \<le> u" "u \<le> 1" by (simp_all add: u_def)
  have 1: "\<bar>d - q\<bar> \<le> \<bar>q\<bar> * u"
    using toDouble_error [of q] by (simp add: d_def u_def)
  have 2: "\<bar>toDouble (d * c) - d * c\<bar> \<le> \<bar>d * c\<bar> * u"
    using toDouble_error [of "d * c"] by (simp add: u_def)
  have dq: "\<bar>d\<bar> \<le> \<bar>q\<bar> * (1 + u)"
    using 1 by (simp add: algebra_simps)
  have "\<bar>toDouble (d * c) - q * c\<bar> \<le> \<bar>toDouble (d * c) - d * c\<bar> + \<bar>d * c - q * c\<bar>"
    by linarith
  also have "\<dots> \<le> \<bar>d\<bar> * \<bar>c\<bar> * u + \<bar>q\<bar> * u * \<bar>c\<bar>"
  proof -
    have "\<bar>d * c - q * c\<bar> = \<bar>d - q\<bar> * \<bar>c\<bar>"
      by (simp add: abs_mult [symmetric] algebra_simps)
    also have "\<dots> \<le> \<bar>q\<bar> * u * \<bar>c\<bar>"
      using 1 by (intro mult_right_mono) simp_all
    finally show ?thesis using 2 by (simp add: abs_mult)
  qed
  also have "\<dots> \<le> \<bar>q\<bar> * (1 + u) * \<bar>c\<bar> * u + \<bar>q\<bar> * u * \<bar>c\<bar>"
    using dq u by (intro add_right_mono mult_right_mono) simp_all
  also have "\<dots> = \<bar>q * c\<bar> * u * (2 + u)"
    by (simp add: abs_mult algebra_simps)
  also have "\<dots> \<le> \<bar>q * c\<bar> * u * 3"
    using u by (intro mult_left_mono) simp_all
  finally show ?thesis
    by (simp add: jsMul_def jsDiv_def q_def d_def u_def)
qed

lemma example_rounded_quotient:
  "jsMul (jsDiv 51 80) 100 = 8972014882652159 / 140737488355328"
  by code_simp

lemma example_rounded_text:
  "toFixed1 (jsMul (jsDiv 51 80) 100) = ''63.7''"
  by code_simp

text \<open>
  C6. When project.budget is 0, whatever the budget items, no margin is computed (the
  division is skipped) and the card reads "No budget set". When project.budget is
  positive, the margin is profitLoss / project.budget * 100 as JavaScript computes it:
  the double nearest to the quotient, times 100, rounded to a double again, so it is
  the exact value of (budget - totalActual) / budget * 100 up to a relative error of
  \<open>3 / 2^53\<close>; the card prints it with one decimal. For budget 80 and one item of
  actual cost 29 the margin is the double \<open>63.75 - 2^-47\<close> (63.74999999999999), not
  63.75, and the card reads "63.7% margin".
\<close>

theorem zero_budget_guard:
  "margin 0 items = None
   \<and> marginText 0 items = ''No budget set''
   \<and> margin (projectBudgetProp (Some 0)) items = None
   \<and> marginText (projectBudgetProp (Some 0)) items = ''No budget set''
   \<and> (0 < b \<longrightarrow>
        margin (projectBudgetProp (Some b)) items
          = Some (jsMul (jsDiv (of_int (b - sum_list (map actualCost items))) (of_int b)) 100)
        \<and> marginText (projectBudgetProp (Some b)) items
          = toFixed1 (jsMul (jsDiv (of_int (b - sum_list (map actualCost items))) (of_int b)) 100)
            @ ''% margin''
        \<and> \<bar>jsMul (jsDiv (of_int (b - sum_list (map actualCost items))) (of_int b)) 100
             - of_int (b - sum_list (map actualCost items)) / of_int b * 100\<bar>
          \<le> 3 * \<bar>of_int (b - sum_list (map actualCost items)) / of_int b * 100\<bar> / 2 ^ 53)
   \<and> margin (projectBudgetProp (Some 80))
        [\<lparr>bi_id = ''b1'', bi_projectId = ''p'', bi_description = ''Studio'', plannedCost = 30,
           actualCost = 29, paymentStatus = ''Paid'', category = None\<rparr>]
       = Some (8972014882652159 / 140737488355328)
   \<and> marginText (projectBudgetProp (Some 80))
        [\<lparr>bi_id = ''b1'', bi_projectId = ''p'', bi_description = ''Studio'', plannedCost = 30,
           actualCost = 29, paymentStatus = ''Paid'', category = None\<rparr>]
       = ''63.7% margin''"
proof -
  have z: "margin 0 items = None" "marginText 0 items = ''No budget set''"
    "margin (projectBudgetProp (Some 0)) items = None"
    "marginText (projectBudgetProp (Some 0)) items = ''No budget set''"
    by (simp_all add: margin_def marginText_def projectBudgetProp_def)
  have pl: "profitLoss b items = b - sum_list (map actualCost items)"
    by (simp add: profitLoss_def totalActual_def foldl_add_sum_list)
  have p: "margin (projectBudgetProp (Some b)) items
          = Some (jsMul (jsDiv (of_int (b - sum_list (map actualCost items))) (of_int b)) 100)
        \<and> marginText (projectBudgetProp (Some b)) items
          = toFixed1 (jsMul (jsDiv (of_int (b - sum_list (map actualCost items))) (of_int b)) 100)
            @ ''% margin''" if "0 < b"
    using that by (simp add: margin_def marginText_def projectBudgetProp_def pl)
  have e: "marginText (projectBudgetProp (Some 80))
        [\<lparr>bi_id = ''b1'', bi_projectId = ''p'', bi_description = ''Studio'', plannedCost = 30,
           actualCost = 29, paymentStatus = ''Paid'', category = None\<rparr>]
       = ''63.7% margin''"
    by (simp add: margin_def marginText_def projectBudgetProp_def profitLoss_def totalActual_def
        example_rounded_text)
  have v: "margin (projectBudgetProp (Some 80))
        [\<lparr>bi_id = ''b1'', bi_projectId = ''p'', bi_description = ''Studio'', plannedCost = 30,
           actualCost = 29, paymentStatus = ''Paid'', category = None\<rparr>]
       = Some (8972014882652159 / 140737488355328)"
    by (simp add: margin_def projectBudgetProp_def profitLoss_def totalActual_def
        example_rounded_quotient)
  from z p e v jsMul_jsDiv_error show ?thesis
    by blast
qed

theorem zero_budget_guard_witness:
  "(0::int) < 5000
   \<and> margin (projectBudgetProp (Some 5000)) exampleItems = Some 70
   \<and> marginText (projectBudgetProp (Some 5000)) exampleItems = ''70.0% margin''
   \<and> margin (projectBudgetProp (Some 0)) exampleItems = None
   \<and> marginText (projectBudgetProp (Some 0)) exampleItems = ''No budget set''"
proof -
  have s: "sum_list (map actualCost exampleItems) = 1500"
    by (simp add: exampleItems_def)
  from zero_budget_guard [of exampleItems 5000] show ?thesis
    by (simp add: s example_quotient toFixed1_70)
qed


subsection \<open>Maps keyed by the records' ids\<close>

lemma Map_delete_value_filter:
  "Map_delete_value m v = filter (\<lambda>(k, r). JStr k \<noteq> v) m"
  by (cases v) (auto simp: Map_delete_value_def Map_delete_def AList.delete_eq intro!: filter_cong)

lemma foldl_delete_value:
  "foldl (\<lambda>m' t. Map_delete_value m' (getProp t ''id'')) m ts
     = filter (\<lambda>(k, r). JStr k \<notin> (\<lambda>t. getProp t ''id'') ` set ts) m"
proof (induction ts arbitrary: m)
  case Nil
  then show ?case by simp
next
  case (Cons t ts)
  show ?case
    by (simp add: Cons.IH) (auto simp: Map_delete_value_filter intro!: filter_cong)
qed

lemma keyedById_entry:
  assumes "keyedById m" and "(k, r) \<in> set m"
  shows "getProp r ''id'' = JStr k"
  using assms by (auto simp: keyedById_def list_all_iff getProp_def)

lemma keyedById_unique:
  assumes "keyedById m" and "(k, r) \<in> set m" and "(k, r') \<in> set m"
  shows "r = r'"
  using assms by (meson keyedById_def eq_key_imp_eq_value)

lemma sweep_filter:
  assumes "keyedById m"
  shows "sweep m pid = filter (\<lambda>(k, r). getProp r ''projectId'' \<noteq> JStr pid) m"
proof -
  let ?owned = "filter (\<lambda>t. getProp t ''projectId'' = JStr pid) (Map_values m)"
  have "(JStr k \<notin> (\<lambda>t. getProp t ''id'') ` set ?owned) = (getProp r ''projectId'' \<noteq> JStr pid)"
    if kr: "(k, r) \<in> set m" for k r
  proof
    assume notin: "JStr k \<notin> (\<lambda>t. getProp t ''id'') ` set ?owned"
    show "getProp r ''projectId'' \<noteq> JStr pid"
    proof
      assume "getProp r ''projectId'' = JStr pid"
      with kr have "r \<in> set ?owned"
        by (force simp: Map_values_def)
      moreover have "getProp r ''id'' = JStr k"
        using assms kr by (rule keyedById_entry)
      ultimately show False using notin by force
    qed
  next
    assume other: "getProp r ''projectId'' \<noteq> JStr pid"
    show "JStr k \<notin> (\<lambda>t. getProp t ''id'') ` set ?owned"
    proof
      assume "JStr k \<in> (\<lambda>t. getProp t ''id'') ` set ?owned"
      then obtain t where t: "t \<in> set ?owned" and tk: "getProp t ''id'' = JStr k"
        by force
      from t obtain k' where k': "(k', t) \<in> set m" and own: "getProp t ''projectId'' = JStr pid"
        by (auto simp: Map_values_def)
      from assms k' have "getProp t ''id'' = JStr k'" by (rule keyedById_entry)
      with tk have "k' = k" by simp
      with assms k' kr have "t = r" by (auto dest: keyedById_unique)
      with own other show False by simp
    qed
  qed
  then show ?thesis
    unfolding sweep_def Let_def foldl_delete_value
    by (intro filter_cong) auto
qed

lemma delete_absent: "\<not> Map_has m k \<Longrightarrow> AList.delete k m = m"
  by (induction m) (auto simp: Map_has_def)

lemma set_update_subset: "set (AList.update k v al) \<subseteq> insert (k, v) (set al)"
  by (induction al) auto

lemma keyedById_empty: "keyedById []"
  by (simp add: keyedById_def)

lemma keyedById_set:
  assumes "keyedById m" and "r ''id'' = Some (JStr k)"
  shows "keyedById (Map_set m k r)"
proof -
  have "distinct (map fst (AList.update k r m))"
    using assms(1) by (simp add: keyedById_def distinct_update)
  moreover have "r' ''id'' = Some (JStr k')" if "(k', r') \<in> set (AList.update k r m)" for k' r'
    using that set_update_subset [of k r m] assms by (auto simp: keyedById_def list_all_iff)
  ultimately show ?thesis
    by (auto simp: keyedById_def Map_set_def list_all_iff)
qed

lemma keyedById_filter: "keyedById m \<Longrightarrow> keyedById (filter P m)"
  by (auto simp: keyedById_def list_all_iff distinct_map_filter)

lemma keyedById_delete: "keyedById m \<Longrightarrow> keyedById (snd (Map_delete m k))"
  by (simp add: Map_delete_def AList.delete_eq keyedById_filter)

lemma keyedById_sweep: "keyedById m \<Longrightarrow> keyedById (sweep m pid)"
  by (simp add: sweep_filter keyedById_filter)

lemma Map_get_entry: "Map_get m k = Some r \<Longrightarrow> (k, r) \<in> set m"
  by (simp add: Map_get_def map_of_SomeD)

lemma keyedById_update:
  assumes "keyedById m" and "Map_get m k = Some r" and "d ''id'' = None"
  shows "keyedById (Map_set m k (spread r d))"
proof -
  have "r ''id'' = Some (JStr k)"
    using assms(1) Map_get_entry [OF assms(2)] by (auto simp: keyedById_def list_all_iff)
  then have "spread r d ''id'' = Some (JStr k)"
    using assms(3) by (simp add: spread_def map_add_def)
  with assms(1) show ?thesis by (rule keyedById_set)
qed

lemma wellKeyed_new: "wellKeyed newMemStorage"
  by (simp add: wellKeyed_def newMemStorage_def keyedById_empty)

lemma wellKeyed_createTask: "wellKeyed s \<Longrightarrow> wellKeyed (fst (createTask rt s t))"
  by (simp add: wellKeyed_def createTask_def Let_def keyedById_set)

lemma wellKeyed_createContact: "wellKeyed s \<Longrightarrow> wellKeyed (fst (createContact rt s c))"
  by (simp add: wellKeyed_def createContact_def Let_def keyedById_set)

lemma wellKeyed_createBudgetItem: "wellKeyed s \<Longrightarrow> wellKeyed (fst (createBudgetItem rt s b))"
  by (simp add: wellKeyed_def createBudgetItem_def Let_def keyedById_set)

lemma wellKeyed_createCalendarEvent: "wellKeyed s \<Longrightarrow> wellKeyed (fst (createCalendarEvent rt s e))"
  by (simp add: wellKeyed_def createCalendarEvent_def Let_def keyedById_set)

lemma wellKeyed_createTemplateTasks:
  "wellKeyed s \<Longrightarrow> wellKeyed (createTemplateTasks rt s pid template)"
  by (induction template arbitrary: s) (simp_all add: wellKeyed_createTask)

lemma wellKeyed_createProject: 
  assumes "wellKeyed s"
  shows "wellKeyed (fst (createProject rt s p))"
proof -
  let ?id = "randomUUID rt (uuidCalls s)"
  let ?project = "p(''id'' \<mapsto> JStr ?id, ''createdAt'' \<mapsto> JDate (currentTime rt (dateCalls s)))"
  let ?s1 = "s\<lparr>projects := Map_set (projects s) ?id ?project,
               uuidCalls := Suc (uuidCalls s), dateCalls := Suc (dateCalls s)\<rparr>"
  have s1: "wellKeyed ?s1"
    using assms by (simp add: wellKeyed_def keyedById_set)
  then have "wellKeyed (createTemplateTasks rt ?s1 ?id template)" for template
    by (rule wellKeyed_createTemplateTasks)
  with s1 show ?thesis
    by (simp add: createProject_def Let_def split: templateLookup.split)
qed

lemma wellKeyed_deleteProject: "wellKeyed s \<Longrightarrow> wellKeyed (fst (deleteProject s i))"
  using keyedById_delete [of "projects s" i]
  by (auto simp: wellKeyed_def deleteProject_def Let_def keyedById_sweep split: prod.split)

lemma wellKeyed_deleteTask: "wellKeyed s \<Longrightarrow> wellKeyed (fst (deleteTask s i))"
  using keyedById_delete [of "tasks s" i]
  by (auto simp: wellKeyed_def deleteTask_def split: prod.split)

lemma wellKeyed_deleteContact: "wellKeyed s \<Longrightarrow> wellKeyed (fst (deleteContact s i))"
  using keyedById_delete [of "contacts s" i]
  by (auto simp: wellKeyed_def deleteContact_def split: prod.split)

lemma wellKeyed_deleteBudgetItem: "wellKeyed s \<Longrightarrow> wellKeyed (fst (deleteBudgetItem s i))"
  using keyedById_delete [of "budgetItems s" i]
  by (auto simp: wellKeyed_def deleteBudgetItem_def split: prod.split)

lemma wellKeyed_deleteCalendarEvent: "wellKeyed s \<Longrightarrow> wellKeyed (fst (deleteCalendarEvent s i))"
  using keyedById_delete [of "calendarEvents s" i]
  by (auto simp: wellKeyed_def deleteCalendarEvent_def split: prod.split)

subsection \<open>Validation and the reachable states\<close>

lemma parse_keys:
  assumes "parse schema input = Some d" and "k \<notin> set (map fieldKey schema)"
  shows "d k = None"
  using assms by (auto simp: parse_def split: if_splits)

lemma parse_value:
  assumes "parse schema input = Some d" and "k \<in> set (map fieldKey schema)"
  shows "d k = input k"
  using assms by (auto simp: parse_def split: if_splits)

lemma updateProjectSchema_keys:
  "map fieldKey updateProjectSchema =
     [''name'', ''type'', ''status'', ''clientName'', ''shootDate'', ''budget'', ''description'']"
  by (simp add: updateProjectSchema_def insertProjectSchema_def partial_def omit_def
      createInsertSchema_def projectsTable_def col_def)

lemma updateTaskSchema_keys:
  "map fieldKey updateTaskSchema = [''title'', ''section'', ''status'', ''assignee'', ''dueDate'']"
  by (simp add: updateTaskSchema_def insertTaskSchema_def partial_def omit_def
      createInsertSchema_def tasksTable_def col_def)

lemma updateContactSchema_keys:
  "map fieldKey updateContactSchema = [''name'', ''role'', ''email'', ''phone'', ''notes'']"
  by (simp add: updateContactSchema_def insertContactSchema_def partial_def omit_def
      createInsertSchema_def contactsTable_def col_def)

lemma updateBudgetItemSchema_keys:
  "map fieldKey updateBudgetItemSchema =
     [''description'', ''plannedCost'', ''actualCost'', ''paymentStatus'', ''category'']"
  by (simp add: updateBudgetItemSchema_def insertBudgetItemSchema_def partial_def omit_def
      createInsertSchema_def budgetItemsTable_def col_def)

lemma updateCalendarEventSchema_keys:
  "map fieldKey updateCalendarEventSchema =
     [''title'', ''type'', ''startDate'', ''endDate'', ''description'', ''location'']"
  by (simp add: updateCalendarEventSchema_def insertCalendarEventSchema_def partial_def omit_def
      createInsertSchema_def calendarEventsTable_def col_def)

lemma wellKeyed_updateProject:
  "wellKeyed s \<Longrightarrow> d ''id'' = None \<Longrightarrow> wellKeyed (fst (updateProject s i d))"
  by (auto simp: wellKeyed_def updateProject_def Let_def keyedById_update split: option.split)

lemma wellKeyed_updateTask:
  "wellKeyed s \<Longrightarrow> d ''id'' = None \<Longrightarrow> wellKeyed (fst (updateTask s i d))"
  by (auto simp: wellKeyed_def updateTask_def Let_def keyedById_update split: option.split)

lemma wellKeyed_updateContact:
  "wellKeyed s \<Longrightarrow> d ''id'' = None \<Longrightarrow> wellKeyed (fst (updateContact s i d))"
  by (auto simp: wellKeyed_def updateContact_def Let_def keyedById_update split: option.split)

lemma wellKeyed_updateBudgetItem:
  "wellKeyed s \<Longrightarrow> d ''id'' = None \<Longrightarrow> wellKeyed (fst (updateBudgetItem s i d))"
  by (auto simp: wellKeyed_def updateBudgetItem_def Let_def keyedById_update split: option.split)

lemma wellKeyed_updateCalendarEvent:
  "wellKeyed s \<Longrightarrow> d ''id'' = None \<Longrightarrow> wellKeyed (fst (updateCalendarEvent s i d))"
  by (auto simp: wellKeyed_def updateCalendarEvent_def Let_def keyedById_update split: option.split)

lemma fst_respond: "fst (respond r) = fst r"
  by (simp add: respond_def split: option.split)

lemma wellKeyed_patchProject:
  assumes "wellKeyed s"
  shows "wellKeyed (fst (patchProject rt s i body))"
proof (cases "parse updateProjectSchema (body(''shootDate'' \<mapsto> coerceDate rt body ''shootDate''))")
  case None
  with assms show ?thesis by (simp add: patchProject_def)
next
  case (Some d)
  then have "d ''id'' = None"
    by (rule parse_keys) (simp add: updateProjectSchema_keys)
  with assms Some show ?thesis
    by (simp add: patchProject_def fst_respond wellKeyed_updateProject)
qed

lemma wellKeyed_patchTask:
  assumes "wellKeyed s"
  shows "wellKeyed (fst (patchTask rt s i body))"
proof (cases "parse updateTaskSchema (body(''dueDate'' \<mapsto> coerceDate rt body ''dueDate''))")
  case None
  with assms show ?thesis by (simp add: patchTask_def)
next
  case (Some d)
  then have "d ''id'' = None"
    by (rule parse_keys) (simp add: updateTaskSchema_keys)
  with assms Some show ?thesis
    by (simp add: patchTask_def fst_respond wellKeyed_updateTask)
qed

lemma wellKeyed_patchContact:
  assumes "wellKeyed s"
  shows "wellKeyed (fst (patchContact s i body))"
proof (cases "parse updateContactSchema body")
  case None
  with assms show ?thesis by (simp add: patchContact_def)
next
  case (Some d)
  then have "d ''id'' = None"
    by (rule parse_keys) (simp add: updateContactSchema_keys)
  with assms Some show ?thesis
    by (simp add: patchContact_def fst_respond wellKeyed_updateContact)
qed

lemma wellKeyed_patchBudgetItem:
  assumes "wellKeyed s"
  shows "wellKeyed (fst (patchBudgetItem s i body))"
proof (cases "parse updateBudgetItemSchema body")
  case None
  with assms show ?thesis by (simp add: patchBudgetItem_def)
next
  case (Some d)
  then have "d ''id'' = None"
    by (rule parse_keys) (simp add: updateBudgetItemSchema_keys)
  with assms Some show ?thesis
    by (simp add: patchBudgetItem_def fst_respond wellKeyed_updateBudgetItem)
qed

lemma wellKeyed_patchCalendarEvent:
  assumes "wellKeyed s"
  shows "wellKeyed (fst (patchCalendarEvent rt s i body))"
proof (cases "parse updateCalendarEventSchema
                (body(''startDate'' \<mapsto> coerceDate rt body ''startDate'',
                      ''endDate'' \<mapsto> coerceDate rt body ''endDate''))")
  case None
  with assms show ?thesis by (simp add: patchCalendarEvent_def)
next
  case (Some d)
  then have "d ''id'' = None"
    by (rule parse_keys) (simp add: updateCalendarEventSchema_keys)
  with assms Some show ?thesis
    by (simp add: patchCalendarEvent_def fst_respond wellKeyed_updateCalendarEvent)
qed

lemma reachable_wellKeyed: "reachable rt s \<Longrightarrow> wellKeyed s"
proof (induction rule: reachable.induct)
  case init
  show ?case by (rule wellKeyed_new)
qed (simp_all add: wellKeyed_createProject wellKeyed_createTask wellKeyed_createContact
      wellKeyed_createBudgetItem wellKeyed_createCalendarEvent wellKeyed_deleteProject
      wellKeyed_deleteTask wellKeyed_deleteContact wellKeyed_deleteBudgetItem
      wellKeyed_deleteCalendarEvent wellKeyed_patchProject wellKeyed_patchTask
      wellKeyed_patchContact wellKeyed_patchBudgetItem wellKeyed_patchCalendarEvent)

subsection \<open>Deleting a project\<close>

lemma exampleStore_reachable: "reachable exampleRuntime exampleStore"
  unfolding exampleStore_def Let_def
  by (intro reachable.createT reachable.createP reachable.init)

lemma exampleStore_value:
  "exampleStore =
     \<lparr>projects =
        [(''u'', [''name'' \<mapsto> JStr ''Anna'', ''type'' \<mapsto> JStr ''Blank'', ''id'' \<mapsto> JStr ''u'',
                  ''createdAt'' \<mapsto> JDate 0]),
         (''uu'', [''name'' \<mapsto> JStr ''Ben'', ''type'' \<mapsto> JStr ''Blank'',
                   ''shootDate'' \<mapsto> JDate 86400000, ''id'' \<mapsto> JStr ''uu'',
                   ''createdAt'' \<mapsto> JDate 1])],
      tasks =
        [(''uuu'', [''projectId'' \<mapsto> JStr ''u'', ''title'' \<mapsto> JStr ''Scout'',
                    ''id'' \<mapsto> JStr ''uuu'', ''createdAt'' \<mapsto> JDate 2]),
         (''uuuu'', [''projectId'' \<mapsto> JStr ''uu'', ''title'' \<mapsto> JStr ''Edit'',
                     ''id'' \<mapsto> JStr ''uuuu'', ''createdAt'' \<mapsto> JDate 3])],
      contacts = [], budgetItems = [], calendarEvents = [], uuidCalls = 4, dateCalls = 4\<rparr>"
  by (simp add: exampleStore_def createProject_def createTask_def newMemStorage_def
      exampleRuntime_def Map_set_def getProp_def Let_def numeral_eq_Suc)



lemma Map_get_has: "Map_get m k = Some r \<Longrightarrow> Map_has m k"
  by (auto simp: Map_get_def Map_has_def dest: map_of_SomeD intro: rev_image_eqI)




subsection \<open>Updates\<close>

lemma spread_merged: "spread r d = merged r d"
  by (rule ext) (simp add: spread_def merged_def map_add_def)

lemma Map_get_set_same: "Map_get (Map_set m i u) i = Some u"
  by (simp add: Map_get_def Map_set_def update_conv')

lemma Map_get_set_other: "j \<noteq> i \<Longrightarrow> Map_get (Map_set m i u) j = Map_get m j"
  by (simp add: Map_get_def Map_set_def update_conv')

lemma Map_set_keys: "Map_has m i \<Longrightarrow> map fst (Map_set m i u) = map fst m"
  by (induction m) (auto simp: Map_has_def Map_set_def)

lemma updateProject_merges: "updateMerges projects (\<lambda>m s. s\<lparr>projects := m\<rparr>) updateProject"
  by (simp add: updateMerges_def updateProject_def spread_merged Let_def split: option.split)

lemma updateTask_merges: "updateMerges tasks (\<lambda>m s. s\<lparr>tasks := m\<rparr>) updateTask"
  by (simp add: updateMerges_def updateTask_def spread_merged Let_def split: option.split)

lemma updateContact_merges: "updateMerges contacts (\<lambda>m s. s\<lparr>contacts := m\<rparr>) updateContact"
  by (simp add: updateMerges_def updateContact_def spread_merged Let_def split: option.split)

lemma updateBudgetItem_merges: "updateMerges budgetItems (\<lambda>m s. s\<lparr>budgetItems := m\<rparr>) updateBudgetItem"
  by (simp add: updateMerges_def updateBudgetItem_def spread_merged Let_def split: option.split)

lemma updateCalendarEvent_merges:
  "updateMerges calendarEvents (\<lambda>m s. s\<lparr>calendarEvents := m\<rparr>) updateCalendarEvent"
  by (simp add: updateMerges_def updateCalendarEvent_def spread_merged Let_def split: option.split)

text \<open>
  C7. For every entity kind, update(id, partialFields) on a present id merges the
  supplied fields onto the existing record by a shallow merge (a supplied field takes
  the payload's value, every omitted field keeps its prior value), stores the merged
  record under the id (at the position the record had; every other record as before) and
  returns it; on an absent id it returns undefined and leaves the store unchanged.
\<close>

theorem update_shallow_merge:
  "updateMerges projects (\<lambda>m s. s\<lparr>projects := m\<rparr>) updateProject
   \<and> updateMerges tasks (\<lambda>m s. s\<lparr>tasks := m\<rparr>) updateTask
   \<and> updateMerges contacts (\<lambda>m s. s\<lparr>contacts := m\<rparr>) updateContact
   \<and> updateMerges budgetItems (\<lambda>m s. s\<lparr>budgetItems := m\<rparr>) updateBudgetItem
   \<and> updateMerges calendarEvents (\<lambda>m s. s\<lparr>calendarEvents := m\<rparr>) updateCalendarEvent
   \<and> (d k = None \<longrightarrow> merged r d k = r k)
   \<and> (d k = Some v \<longrightarrow> merged r d k = Some v)
   \<and> Map_get (Map_set m i u) i = Some u
   \<and> (j \<noteq> i \<longrightarrow> Map_get (Map_set m i u) j = Map_get m j)
   \<and> (Map_has m i \<longrightarrow> map fst (Map_set m i u) = map fst m)"
  using updateProject_merges updateTask_merges updateContact_merges updateBudgetItem_merges
    updateCalendarEvent_merges
  by (simp add: merged_def Map_get_set_same Map_get_set_other Map_set_keys)

lemma exampleTask_uuu:
  "Map_get (tasks exampleStore) ''uuu''
     = Some [''projectId'' \<mapsto> JStr ''u'', ''title'' \<mapsto> JStr ''Scout'',
             ''id'' \<mapsto> JStr ''uuu'', ''createdAt'' \<mapsto> JDate 2]"
  by (simp add: exampleStore_value Map_get_def)

theorem update_shallow_merge_witness:
  "snd (updateTask exampleStore ''uuu'' [''title'' \<mapsto> JStr ''Plan''])
     = Some (merged [''projectId'' \<mapsto> JStr ''u'', ''title'' \<mapsto> JStr ''Scout'',
                     ''id'' \<mapsto> JStr ''uuu'', ''createdAt'' \<mapsto> JDate 2]
                    [''title'' \<mapsto> JStr ''Plan''])
   \<and> merged [''projectId'' \<mapsto> JStr ''u'', ''title'' \<mapsto> JStr ''Scout'']
            [''title'' \<mapsto> JStr ''Plan''] ''title'' = Some (JStr ''Plan'')
   \<and> merged [''projectId'' \<mapsto> JStr ''u'', ''title'' \<mapsto> JStr ''Scout'']
            [''title'' \<mapsto> JStr ''Plan''] ''projectId'' = Some (JStr ''u'')
   \<and> updateTask exampleStore ''zzz'' [''title'' \<mapsto> JStr ''Plan''] = (exampleStore, None)
   \<and> Map_get (Map_set (tasks exampleStore) ''uuu'' Map.empty) ''uuuu''
       = Map_get (tasks exampleStore) ''uuuu''
   \<and> map fst (Map_set (tasks exampleStore) ''uuu'' Map.empty) = map fst (tasks exampleStore)"
proof -
  let ?r = "[''projectId'' \<mapsto> JStr ''u'', ''title'' \<mapsto> JStr ''Scout'']"
  let ?d = "[''title'' \<mapsto> JStr ''Plan'']"
  note th = update_shallow_merge [of ?d _ ?r "JStr ''Plan''" "tasks exampleStore" "''uuu''"
      Map.empty "''uuuu''"]
  from th [of "''title''"] have m1: "merged ?r ?d ''title'' = Some (JStr ''Plan'')"
    by simp
  from th [of "''projectId''"] have m2: "merged ?r ?d ''projectId'' = Some (JStr ''u'')"
    by simp
  from th [of "''title''"] have
    g: "Map_get (Map_set (tasks exampleStore) ''uuu'' Map.empty) ''uuuu''
          = Map_get (tasks exampleStore) ''uuuu''"
    by simp
  have "Map_has (tasks exampleStore) ''uuu''"
    by (simp add: exampleStore_value Map_has_def)
  with th [of "''title''"] have
    k: "map fst (Map_set (tasks exampleStore) ''uuu'' Map.empty) = map fst (tasks exampleStore)"
    by simp
  from th [of "''title''"] have um: "updateMerges tasks (\<lambda>m s. s\<lparr>tasks := m\<rparr>) updateTask"
    by simp
  have absent: "Map_get (tasks exampleStore) ''zzz'' = None"
    by (simp add: exampleStore_value Map_get_def)
  from um have c1: "case Map_get (tasks exampleStore) ''uuu'' of
        None \<Rightarrow> updateTask exampleStore ''uuu'' ?d = (exampleStore, None)
      | Some r \<Rightarrow> updateTask exampleStore ''uuu'' ?d
          = (exampleStore\<lparr>tasks := Map_set (tasks exampleStore) ''uuu'' (merged r ?d)\<rparr>,
             Some (merged r ?d))"
    unfolding updateMerges_def by (elim allE)
  have u1: "snd (updateTask exampleStore ''uuu'' ?d)
      = Some (merged [''projectId'' \<mapsto> JStr ''u'', ''title'' \<mapsto> JStr ''Scout'',
                      ''id'' \<mapsto> JStr ''uuu'', ''createdAt'' \<mapsto> JDate 2] ?d)"
    using c1 unfolding exampleTask_uuu by simp
  from um have c2: "case Map_get (tasks exampleStore) ''zzz'' of
        None \<Rightarrow> updateTask exampleStore ''zzz'' ?d = (exampleStore, None)
      | Some r \<Rightarrow> updateTask exampleStore ''zzz'' ?d
          = (exampleStore\<lparr>tasks := Map_set (tasks exampleStore) ''zzz'' (merged r ?d)\<rparr>,
             Some (merged r ?d))"
    unfolding updateMerges_def by (elim allE)
  have u2: "updateTask exampleStore ''zzz'' ?d = (exampleStore, None)"
    using c2 unfolding absent by simp
  from m1 m2 g k u1 u2 show ?thesis by blast
qed

lemma Map_delete_absent: "Map_get m i = None \<Longrightarrow> Map_delete m i = (False, m)"
  by (simp add: Map_delete_def Map_get_def Map_has_def map_of_eq_None_iff)

lemma Map_get_deleted: "Map_get (snd (Map_delete m i)) i = None"
  by (simp add: Map_delete_def Map_get_def delete_conv')

lemma deleteProject_absent: "getProject s i = None \<Longrightarrow> deleteProject s i = (s, False)"
  by (simp add: getProject_def deleteProject_def Map_delete_absent)

lemma deleteTask_absent: "getTask s i = None \<Longrightarrow> deleteTask s i = (s, False)"
  by (simp add: getTask_def deleteTask_def Map_delete_absent)

lemma deleteContact_absent: "getContact s i = None \<Longrightarrow> deleteContact s i = (s, False)"
  by (simp add: getContact_def deleteContact_def Map_delete_absent)

lemma deleteBudgetItem_absent: "getBudgetItem s i = None \<Longrightarrow> deleteBudgetItem s i = (s, False)"
  by (simp add: getBudgetItem_def deleteBudgetItem_def Map_delete_absent)

lemma deleteCalendarEvent_absent:
  "getCalendarEvent s i = None \<Longrightarrow> deleteCalendarEvent s i = (s, False)"
  by (simp add: getCalendarEvent_def deleteCalendarEvent_def Map_delete_absent)

lemma getProject_deleted: "getProject (fst (deleteProject s i)) i = None"
  using Map_get_deleted [of "projects s" i]
  by (auto simp: getProject_def deleteProject_def Let_def split: prod.split)

lemma getTask_deleted: "getTask (fst (deleteTask s i)) i = None"
  using Map_get_deleted [of "tasks s" i]
  by (auto simp: getTask_def deleteTask_def split: prod.split)

lemma getContact_deleted: "getContact (fst (deleteContact s i)) i = None"
  using Map_get_deleted [of "contacts s" i]
  by (auto simp: getContact_def deleteContact_def split: prod.split)

lemma getBudgetItem_deleted: "getBudgetItem (fst (deleteBudgetItem s i)) i = None"
  using Map_get_deleted [of "budgetItems s" i]
  by (auto simp: getBudgetItem_def deleteBudgetItem_def split: prod.split)

lemma getCalendarEvent_deleted: "getCalendarEvent (fst (deleteCalendarEvent s i)) i = None"
  using Map_get_deleted [of "calendarEvents s" i]
  by (auto simp: getCalendarEvent_def deleteCalendarEvent_def split: prod.split)

text \<open>
  C8. Deleting an id that is not in the Project collection returns false and leaves the
  whole store as it was (no dependent collection is touched); so a second deleteProject
  of the same id returns false and changes nothing. The same holds for the delete of
  every other entity kind.
\<close>

theorem delete_absent_noop:
  "(getProject s i = None \<longrightarrow> deleteProject s i = (s, False))
   \<and> deleteProject (fst (deleteProject s i)) i = (fst (deleteProject s i), False)
   \<and> (getTask s i = None \<longrightarrow> deleteTask s i = (s, False))
   \<and> deleteTask (fst (deleteTask s i)) i = (fst (deleteTask s i), False)
   \<and> (getContact s i = None \<longrightarrow> deleteContact s i = (s, False))
   \<and> deleteContact (fst (deleteContact s i)) i = (fst (deleteContact s i), False)
   \<and> (getBudgetItem s i = None \<longrightarrow> deleteBudgetItem s i = (s, False))
   \<and> deleteBudgetItem (fst (deleteBudgetItem s i)) i = (fst (deleteBudgetItem s i), False)
   \<and> (getCalendarEvent s i = None \<longrightarrow> deleteCalendarEvent s i = (s, False))
   \<and> deleteCalendarEvent (fst (deleteCalendarEvent s i)) i
       = (fst (deleteCalendarEvent s i), False)"
  by (simp add: deleteProject_absent deleteTask_absent deleteContact_absent
      deleteBudgetItem_absent deleteCalendarEvent_absent getProject_deleted getTask_deleted
      getContact_deleted getBudgetItem_deleted getCalendarEvent_deleted)

theorem delete_absent_noop_witness:
  "getProject exampleStore ''zzz'' = None
   \<and> deleteProject exampleStore ''zzz'' = (exampleStore, False)
   \<and> getTask exampleStore ''zzz'' = None
   \<and> deleteTask exampleStore ''zzz'' = (exampleStore, False)
   \<and> getContact exampleStore ''zzz'' = None
   \<and> deleteContact exampleStore ''zzz'' = (exampleStore, False)
   \<and> getBudgetItem exampleStore ''zzz'' = None
   \<and> deleteBudgetItem exampleStore ''zzz'' = (exampleStore, False)
   \<and> getCalendarEvent exampleStore ''zzz'' = None
   \<and> deleteCalendarEvent exampleStore ''zzz'' = (exampleStore, False)
   \<and> snd (deleteProject exampleStore ''u'')
   \<and> \<not> snd (deleteProject (fst (deleteProject exampleStore ''u'')) ''u'')"
proof -
  have a: "getProject exampleStore ''zzz'' = None" "getTask exampleStore ''zzz'' = None"
    "getContact exampleStore ''zzz'' = None" "getBudgetItem exampleStore ''zzz'' = None"
    "getCalendarEvent exampleStore ''zzz'' = None"
    by (simp_all add: exampleStore_value getProject_def getTask_def getContact_def
        getBudgetItem_def getCalendarEvent_def Map_get_def)
  have b: "snd (deleteProject exampleStore ''u'')"
    by (simp add: exampleStore_value deleteProject_def Map_delete_def Map_has_def)
  from a b delete_absent_noop [of exampleStore "''zzz''"] delete_absent_noop [of exampleStore "''u''"]
  show ?thesis by simp
qed

subsection \<open>A key with the value undefined\<close>

lemma parse_cong:
  assumes "\<And>k. k \<in> set (map fieldKey schema) \<Longrightarrow> b1 k = b2 k"
  shows "parse schema b1 = parse schema b2"
proof -
  have "list_all (\<lambda>f. accepts f (getProp b1 (fieldKey f))) schema
      = list_all (\<lambda>f. accepts f (getProp b2 (fieldKey f))) schema"
    using assms by (auto simp: list_all_iff getProp_def)
  moreover have "b1 |` set (map fieldKey schema) = b2 |` set (map fieldKey schema)"
    using assms by (auto simp: restrict_map_def)
  ultimately show ?thesis
    by (simp add: parse_def)
qed

lemma respond_Json:
  "respond (s1, Some x) = (s', Json u) \<longleftrightarrow> s' = s1 \<and> u = x"
  by (auto simp: respond_def)

lemma patchProject_Json:
  assumes "patchProject rt s i body = (s', Json u)" and "getProject s i = Some r"
  shows "\<exists>d. parse updateProjectSchema (body(''shootDate'' \<mapsto> coerceDate rt body ''shootDate''))
              = Some d
            \<and> u = merged r d \<and> s' = s\<lparr>projects := Map_set (projects s) i u\<rparr>"
  using assms
  by (auto simp: patchProject_def updateProject_def getProject_def Let_def spread_merged
      respond_def split: option.splits)

lemma patchTask_Json:
  assumes "patchTask rt s i body = (s', Json u)" and "getTask s i = Some r"
  shows "\<exists>d. parse updateTaskSchema (body(''dueDate'' \<mapsto> coerceDate rt body ''dueDate'')) = Some d
            \<and> u = merged r d \<and> s' = s\<lparr>tasks := Map_set (tasks s) i u\<rparr>"
  using assms
  by (auto simp: patchTask_def updateTask_def getTask_def Let_def spread_merged
      respond_def split: option.splits)

lemma patchContact_Json:
  assumes "patchContact s i body = (s', Json u)" and "getContact s i = Some r"
  shows "\<exists>d. parse updateContactSchema body = Some d
            \<and> u = merged r d \<and> s' = s\<lparr>contacts := Map_set (contacts s) i u\<rparr>"
  using assms
  by (auto simp: patchContact_def updateContact_def getContact_def Let_def spread_merged
      respond_def split: option.splits)

lemma patchBudgetItem_Json:
  assumes "patchBudgetItem s i body = (s', Json u)" and "getBudgetItem s i = Some r"
  shows "\<exists>d. parse updateBudgetItemSchema body = Some d
            \<and> u = merged r d \<and> s' = s\<lparr>budgetItems := Map_set (budgetItems s) i u\<rparr>"
  using assms
  by (auto simp: patchBudgetItem_def updateBudgetItem_def getBudgetItem_def Let_def
      spread_merged respond_def split: option.splits)

lemma patchCalendarEvent_Json:
  assumes "patchCalendarEvent rt s i body = (s', Json u)" and "getCalendarEvent s i = Some r"
  shows "\<exists>d. parse updateCalendarEventSchema
                (body(''startDate'' \<mapsto> coerceDate rt body ''startDate'',
                      ''endDate'' \<mapsto> coerceDate rt body ''endDate'')) = Some d
            \<and> u = merged r d \<and> s' = s\<lparr>calendarEvents := Map_set (calendarEvents s) i u\<rparr>"
  using assms
  by (auto simp: patchCalendarEvent_def updateCalendarEvent_def getCalendarEvent_def Let_def
      spread_merged respond_def split: option.splits)

lemma undefined_overwrites:
  assumes "updateMerges coll setColl update" and "Map_get (coll s) i = Some r"
    and "d k = Some JUndefined"
  shows "\<exists>s' u. update s i d = (s', Some u) \<and> u k = Some JUndefined \<and> getProp u k = JUndefined"
proof -
  from assms(1) have "case Map_get (coll s) i of
        None \<Rightarrow> update s i d = (s, None)
      | Some r \<Rightarrow> update s i d = (setColl (Map_set (coll s) i (merged r d)) s, Some (merged r d))"
    unfolding updateMerges_def by (elim allE)
  with assms(2) have "update s i d
      = (setColl (Map_set (coll s) i (merged r d)) s, Some (merged r d))"
    by simp
  moreover have "merged r d k = Some JUndefined"
    using assms(3) by (simp add: merged_def)
  ultimately show ?thesis
    by (simp add: getProp_def)
qed

text \<open>
  C10. In each of the five store updates, a key that the payload has with the value
  undefined is applied by the spread: the updated record has the key with the value
  undefined, whatever was stored (it is not treated like an omitted key). The PATCH
  handler of projects always puts shootDate in the body it validates, as undefined when
  the request body has no (or a falsy) shootDate; so when such a request passes
  validation and the project exists, the stored and returned project has shootDate
  undefined, whatever shootDate it had before.
\<close>

theorem undefined_clears_field:
  "(Map_get (projects s) i = Some r \<and> d k = Some JUndefined \<longrightarrow>
      (\<exists>s' u. updateProject s i d = (s', Some u) \<and> u k = Some JUndefined
               \<and> getProp u k = JUndefined))
   \<and> (Map_get (tasks s) i = Some r \<and> d k = Some JUndefined \<longrightarrow>
      (\<exists>s' u. updateTask s i d = (s', Some u) \<and> u k = Some JUndefined
               \<and> getProp u k = JUndefined))
   \<and> (Map_get (contacts s) i = Some r \<and> d k = Some JUndefined \<longrightarrow>
      (\<exists>s' u. updateContact s i d = (s', Some u) \<and> u k = Some JUndefined
               \<and> getProp u k = JUndefined))
   \<and> (Map_get (budgetItems s) i = Some r \<and> d k = Some JUndefined \<longrightarrow>
      (\<exists>s' u. updateBudgetItem s i d = (s', Some u) \<and> u k = Some JUndefined
               \<and> getProp u k = JUndefined))
   \<and> (Map_get (calendarEvents s) i = Some r \<and> d k = Some JUndefined \<longrightarrow>
      (\<exists>s' u. updateCalendarEvent s i d = (s', Some u) \<and> u k = Some JUndefined
               \<and> getProp u k = JUndefined))
   \<and> (getProject s i = Some r \<and> \<not> truthy (getProp body ''shootDate'')
        \<and> patchProject rt s i body = (s', Json u) \<longrightarrow>
      u ''shootDate'' = Some JUndefined \<and> getProp u ''shootDate'' = JUndefined
      \<and> getProject s' i = Some u)"
proof -
  have route: "u ''shootDate'' = Some JUndefined \<and> getProp u ''shootDate'' = JUndefined
      \<and> getProject s' i = Some u"
    if r: "getProject s i = Some r" and f: "\<not> truthy (getProp body ''shootDate'')"
      and p: "patchProject rt s i body = (s', Json u)"
  proof -
    from patchProject_Json [OF p r] f obtain d where
      d: "parse updateProjectSchema (body(''shootDate'' \<mapsto> JUndefined)) = Some d"
      and u: "u = merged r d" and s': "s' = s\<lparr>projects := Map_set (projects s) i u\<rparr>"
      by (auto simp: coerceDate_def)
    have "d ''shootDate'' = (body(''shootDate'' \<mapsto> JUndefined)) ''shootDate''"
      using d by (rule parse_value) (simp add: updateProjectSchema_keys)
    then have "u ''shootDate'' = Some JUndefined"
      by (simp add: u merged_def)
    moreover have "getProject s' i = Some u"
      by (simp add: s' getProject_def Map_get_set_same)
    ultimately show ?thesis
      by (simp add: getProp_def)
  qed
  show ?thesis
    using undefined_overwrites [OF updateProject_merges, of s i r d k]
      undefined_overwrites [OF updateTask_merges, of s i r d k]
      undefined_overwrites [OF updateContact_merges, of s i r d k]
      undefined_overwrites [OF updateBudgetItem_merges, of s i r d k]
      undefined_overwrites [OF updateCalendarEvent_merges, of s i r d k]
      route
    by blast
qed

lemma exampleProject_uu:
  "getProject exampleStore ''uu''
     = Some [''name'' \<mapsto> JStr ''Ben'', ''type'' \<mapsto> JStr ''Blank'',
             ''shootDate'' \<mapsto> JDate 86400000, ''id'' \<mapsto> JStr ''uu'',
             ''createdAt'' \<mapsto> JDate 1]"
  by (simp add: exampleStore_value getProject_def Map_get_def)

lemma examplePatch_valid:
  "parse updateProjectSchema [''name'' \<mapsto> JStr ''Benny'', ''shootDate'' \<mapsto> JUndefined] \<noteq> None"
  by (simp add: parse_def accepts_def getProp_def updateProjectSchema_def
      insertProjectSchema_def partial_def omit_def createInsertSchema_def projectsTable_def
      col_def)

lemma examplePatch_Json:
  "\<exists>s' u. patchProject exampleRuntime exampleStore ''uu'' [''name'' \<mapsto> JStr ''Benny'']
            = (s', Json u)"
  using examplePatch_valid exampleProject_uu
  by (auto simp: patchProject_def coerceDate_def getProp_def updateProject_def getProject_def
      respond_def Let_def)

theorem undefined_clears_field_witness:
  "getProp (the (getProject exampleStore ''uu'')) ''shootDate'' = JDate 86400000
   \<and> (\<exists>s' u. updateProject exampleStore ''uu'' [''shootDate'' \<mapsto> JUndefined] = (s', Some u)
              \<and> getProp u ''shootDate'' = JUndefined)
   \<and> (\<exists>s' u. patchProject exampleRuntime exampleStore ''uu'' [''name'' \<mapsto> JStr ''Benny'']
                = (s', Json u)
              \<and> u ''shootDate'' = Some JUndefined \<and> getProject s' ''uu'' = Some u)"
proof -
  let ?r = "[''name'' \<mapsto> JStr ''Ben'', ''type'' \<mapsto> JStr ''Blank'',
             ''shootDate'' \<mapsto> JDate 86400000, ''id'' \<mapsto> JStr ''uu'',
             ''createdAt'' \<mapsto> JDate 1]"
  let ?body = "[''name'' \<mapsto> JStr ''Benny'']"
  have before: "getProp (the (getProject exampleStore ''uu'')) ''shootDate'' = JDate 86400000"
    by (simp add: exampleProject_uu getProp_def)
  have present: "Map_get (projects exampleStore) ''uu'' = Some ?r"
    using exampleProject_uu by (simp add: getProject_def)
  from examplePatch_Json obtain s' u where
    p: "patchProject exampleRuntime exampleStore ''uu'' ?body = (s', Json u)"
    by blast
  have falsy: "\<not> truthy (getProp ?body ''shootDate'')"
    by (simp add: getProp_def)
  note th = undefined_clears_field [of exampleStore "''uu''" ?r "[''shootDate'' \<mapsto> JUndefined]"
      "''shootDate''" ?body exampleRuntime s' u]
  from th present have
    a: "\<exists>s' u. updateProject exampleStore ''uu'' [''shootDate'' \<mapsto> JUndefined] = (s', Some u)
              \<and> getProp u ''shootDate'' = JUndefined"
    by auto
  from th exampleProject_uu falsy p have
    "u ''shootDate'' = Some JUndefined \<and> getProject s' ''uu'' = Some u"
    by blast
  with p have
    b: "\<exists>s' u. patchProject exampleRuntime exampleStore ''uu'' ?body = (s', Json u)
              \<and> u ''shootDate'' = Some JUndefined \<and> getProject s' ''uu'' = Some u"
    by blast
  from before a b show ?thesis by blast
qed

subsection \<open>The update schemas protect id, createdAt and projectId\<close>

lemma coerceDate_restrict:
  "k \<notin> set protectedKeys \<Longrightarrow> coerceDate rt (body |` (- set protectedKeys)) k = coerceDate rt body k"
  by (simp add: coerceDate_def getProp_def)

lemma unprotected_dates:
  "''dueDate'' \<notin> set protectedKeys" "''startDate'' \<notin> set protectedKeys"
  "''endDate'' \<notin> set protectedKeys"
  by (simp_all add: protectedKeys_def)

lemma parse_ignores_protected:
  assumes "set (map fieldKey schema) \<inter> set protectedKeys = {}"
  shows "parse schema (body |` (- set protectedKeys)) = parse schema body"
proof (rule parse_cong)
  fix k assume "k \<in> set (map fieldKey schema)"
  with assms have "k \<notin> set protectedKeys" by auto
  then show "(body |` (- set protectedKeys)) k = body k" by simp
qed

lemma restrict_upd_unprotected:
  "k \<notin> set protectedKeys \<Longrightarrow>
   (body |` (- set protectedKeys))(k \<mapsto> x) = (body(k \<mapsto> x)) |` (- set protectedKeys)"
  by (rule ext) (simp add: restrict_map_def)

lemma updateTaskSchema_unprotected:
  "set (map fieldKey updateTaskSchema) \<inter> set protectedKeys = {}"
  by (simp add: updateTaskSchema_keys protectedKeys_def)

lemma updateContactSchema_unprotected:
  "set (map fieldKey updateContactSchema) \<inter> set protectedKeys = {}"
  by (simp add: updateContactSchema_keys protectedKeys_def)

lemma updateBudgetItemSchema_unprotected:
  "set (map fieldKey updateBudgetItemSchema) \<inter> set protectedKeys = {}"
  by (simp add: updateBudgetItemSchema_keys protectedKeys_def)

lemma updateCalendarEventSchema_unprotected:
  "set (map fieldKey updateCalendarEventSchema) \<inter> set protectedKeys = {}"
  by (simp add: updateCalendarEventSchema_keys protectedKeys_def)

lemma patchTask_ignores:
  "patchTask rt s i body = patchTask rt s i (body |` (- set protectedKeys))"
  by (simp only: patchTask_def Let_def coerceDate_restrict [OF unprotected_dates(1)]
      restrict_upd_unprotected [OF unprotected_dates(1)]
      parse_ignores_protected [OF updateTaskSchema_unprotected])

lemma patchContact_ignores:
  "patchContact s i body = patchContact s i (body |` (- set protectedKeys))"
  by (simp only: patchContact_def parse_ignores_protected [OF updateContactSchema_unprotected])

lemma patchBudgetItem_ignores:
  "patchBudgetItem s i body = patchBudgetItem s i (body |` (- set protectedKeys))"
  by (simp only: patchBudgetItem_def
      parse_ignores_protected [OF updateBudgetItemSchema_unprotected])

lemma patchCalendarEvent_ignores:
  "patchCalendarEvent rt s i body = patchCalendarEvent rt s i (body |` (- set protectedKeys))"
  by (simp only: patchCalendarEvent_def Let_def coerceDate_restrict [OF unprotected_dates(2)]
      coerceDate_restrict [OF unprotected_dates(3)]
      restrict_upd_unprotected [OF unprotected_dates(2)]
      restrict_upd_unprotected [OF unprotected_dates(3)]
      parse_ignores_protected [OF updateCalendarEventSchema_unprotected])

lemma merged_protected:
  assumes "parse schema b = Some d" and "set (map fieldKey schema) \<inter> set protectedKeys = {}"
  shows "\<forall>k\<in>set protectedKeys. merged r d k = r k"
proof
  fix k assume "k \<in> set protectedKeys"
  with assms(2) have "k \<notin> set (map fieldKey schema)" by auto
  with assms(1) have "d k = None" by (rule parse_keys)
  then show "merged r d k = r k" by (simp add: merged_def)
qed

lemma merged_applied:
  assumes "parse schema b = Some d"
  shows "\<forall>k v. k \<in> set (map fieldKey schema) \<and> b k = Some v \<longrightarrow> merged r d k = Some v"
  using parse_value [OF assms] by (simp add: merged_def)

lemma patchTask_protects:
  assumes "getTask s i = Some r" and "patchTask rt s i body = (s', Json u)"
  shows "(\<forall>k\<in>set protectedKeys. u k = r k) \<and> getTask s' i = Some u
    \<and> (\<forall>k v. k \<in> set (map fieldKey updateTaskSchema)
            \<and> (body(''dueDate'' \<mapsto> coerceDate rt body ''dueDate'')) k = Some v
          \<longrightarrow> u k = Some v)"
proof -
  from patchTask_Json [OF assms(2,1)] obtain d where
    d: "parse updateTaskSchema (body(''dueDate'' \<mapsto> coerceDate rt body ''dueDate'')) = Some d"
    and u: "u = merged r d" and s': "s' = s\<lparr>tasks := Map_set (tasks s) i u\<rparr>"
    by blast
  have p: "\<forall>k\<in>set protectedKeys. u k = r k"
    unfolding u by (rule merged_protected [OF d updateTaskSchema_unprotected])
  note a = merged_applied [OF d, of r, folded u]
  have g: "getTask s' i = Some u"
    by (simp add: s' getTask_def Map_get_set_same)
  show ?thesis
    by (rule conjI [OF p conjI [OF g a]])
qed

lemma patchContact_protects:
  assumes "getContact s i = Some r" and "patchContact s i body = (s', Json u)"
  shows "(\<forall>k\<in>set protectedKeys. u k = r k) \<and> getContact s' i = Some u
    \<and> (\<forall>k v. k \<in> set (map fieldKey updateContactSchema) \<and> body k = Some v \<longrightarrow> u k = Some v)"
proof -
  from patchContact_Json [OF assms(2,1)] obtain d where
    d: "parse updateContactSchema body = Some d"
    and u: "u = merged r d" and s': "s' = s\<lparr>contacts := Map_set (contacts s) i u\<rparr>"
    by blast
  have p: "\<forall>k\<in>set protectedKeys. u k = r k"
    unfolding u by (rule merged_protected [OF d updateContactSchema_unprotected])
  note a = merged_applied [OF d, of r, folded u]
  have g: "getContact s' i = Some u"
    by (simp add: s' getContact_def Map_get_set_same)
  show ?thesis
    by (rule conjI [OF p conjI [OF g a]])
qed

lemma patchBudgetItem_protects:
  assumes "getBudgetItem s i = Some r" and "patchBudgetItem s i body = (s', Json u)"
  shows "(\<forall>k\<in>set protectedKeys. u k = r k) \<and> getBudgetItem s' i = Some u
    \<and> (\<forall>k v. k \<in> set (map fieldKey updateBudgetItemSchema) \<and> body k = Some v \<longrightarrow> u k = Some v)"
proof -
  from patchBudgetItem_Json [OF assms(2,1)] obtain d where
    d: "parse updateBudgetItemSchema body = Some d"
    and u: "u = merged r d" and s': "s' = s\<lparr>budgetItems := Map_set (budgetItems s) i u\<rparr>"
    by blast
  have p: "\<forall>k\<in>set protectedKeys. u k = r k"
    unfolding u by (rule merged_protected [OF d updateBudgetItemSchema_unprotected])
  note a = merged_applied [OF d, of r, folded u]
  have g: "getBudgetItem s' i = Some u"
    by (simp add: s' getBudgetItem_def Map_get_set_same)
  show ?thesis
    by (rule conjI [OF p conjI [OF g a]])
qed

lemma patchCalendarEvent_protects:
  assumes "getCalendarEvent s i = Some r" and "patchCalendarEvent rt s i body = (s', Json u)"
  shows "(\<forall>k\<in>set protectedKeys. u k = r k) \<and> getCalendarEvent s' i = Some u
    \<and> (\<forall>k v. k \<in> set (map fieldKey updateCalendarEventSchema)
            \<and> (body(''startDate'' \<mapsto> coerceDate rt body ''startDate'',
                     ''endDate'' \<mapsto> coerceDate rt body ''endDate'')) k = Some v
          \<longrightarrow> u k = Some v)"
proof -
  from patchCalendarEvent_Json [OF assms(2,1)] obtain d where
    d: "parse updateCalendarEventSchema
          (body(''startDate'' \<mapsto> coerceDate rt body ''startDate'',
                ''endDate'' \<mapsto> coerceDate rt body ''endDate'')) = Some d"
    and u: "u = merged r d" and s': "s' = s\<lparr>calendarEvents := Map_set (calendarEvents s) i u\<rparr>"
    by blast
  have p: "\<forall>k\<in>set protectedKeys. u k = r k"
    unfolding u by (rule merged_protected [OF d updateCalendarEventSchema_unprotected])
  note a = merged_applied [OF d, of r, folded u]
  have g: "getCalendarEvent s' i = Some u"
    by (simp add: s' getCalendarEvent_def Map_get_set_same)
  show ?thesis
    by (rule conjI [OF p conjI [OF g a]])
qed

text \<open>
  C2, as claimed of the store's update, fails: \<open>updateTask\<close> applies a \<open>projectId\<close>
  of its payload like any other key.
\<close>

theorem store_update_repoints_projectId:
  "\<not> (\<forall>s i d r s' u. getTask s i = Some r \<and> updateTask s i d = (s', Some u)
         \<longrightarrow> getProp u ''projectId'' = getProp r ''projectId'')"
proof
  assume a: "\<forall>s i d r s' u. getTask s i = Some r \<and> updateTask s i d = (s', Some u)
         \<longrightarrow> getProp u ''projectId'' = getProp r ''projectId''"
  let ?r = "[''projectId'' \<mapsto> JStr ''u'', ''title'' \<mapsto> JStr ''Scout'',
             ''id'' \<mapsto> JStr ''uuu'', ''createdAt'' \<mapsto> JDate 2]"
  let ?d = "[''projectId'' \<mapsto> JStr ''uu'']"
  have g: "getTask exampleStore ''uuu'' = Some ?r"
    using exampleTask_uuu by (simp add: getTask_def)
  have u: "updateTask exampleStore ''uuu'' ?d
      = (exampleStore\<lparr>tasks := Map_set (tasks exampleStore) ''uuu'' (spread ?r ?d)\<rparr>,
         Some (spread ?r ?d))"
    using exampleTask_uuu by (simp add: updateTask_def Let_def)
  from a g u have "getProp (spread ?r ?d) ''projectId'' = getProp ?r ''projectId''"
    by blast
  then show False
    by (simp add: spread_def getProp_def)
qed

text \<open>
  C2, amended. For every task, contact, budget item and calendar event in the store and
  every request body, the PATCH handler (validation by the update schema, then the
  store's update) ignores the keys id, createdAt and projectId of the body: the response
  and the store are those of the same body without these keys, so no error is raised on
  their account; when the handler answers with the record, the record has the id,
  createdAt and projectId it had, it is the one now stored, and every field of the
  update schema that the validated body carries has the body's value.
\<close>

theorem patch_protects_fields:
  "patchTask rt s i body = patchTask rt s i (body |` (- set protectedKeys))
   \<and> patchContact s i body = patchContact s i (body |` (- set protectedKeys))
   \<and> patchBudgetItem s i body = patchBudgetItem s i (body |` (- set protectedKeys))
   \<and> patchCalendarEvent rt s i body = patchCalendarEvent rt s i (body |` (- set protectedKeys))
   \<and> (getTask s i = Some r \<and> patchTask rt s i body = (s', Json u) \<longrightarrow>
        (\<forall>k\<in>set protectedKeys. u k = r k) \<and> getTask s' i = Some u
        \<and> (\<forall>k v. k \<in> set (map fieldKey updateTaskSchema)
                \<and> (body(''dueDate'' \<mapsto> coerceDate rt body ''dueDate'')) k = Some v
              \<longrightarrow> u k = Some v))
   \<and> (getContact s i = Some r \<and> patchContact s i body = (s', Json u) \<longrightarrow>
        (\<forall>k\<in>set protectedKeys. u k = r k) \<and> getContact s' i = Some u
        \<and> (\<forall>k v. k \<in> set (map fieldKey updateContactSchema) \<and> body k = Some v
              \<longrightarrow> u k = Some v))
   \<and> (getBudgetItem s i = Some r \<and> patchBudgetItem s i body = (s', Json u) \<longrightarrow>
        (\<forall>k\<in>set protectedKeys. u k = r k) \<and> getBudgetItem s' i = Some u
        \<and> (\<forall>k v. k \<in> set (map fieldKey updateBudgetItemSchema) \<and> body k = Some v
              \<longrightarrow> u k = Some v))
   \<and> (getCalendarEvent s i = Some r \<and> patchCalendarEvent rt s i body = (s', Json u) \<longrightarrow>
        (\<forall>k\<in>set protectedKeys. u k = r k) \<and> getCalendarEvent s' i = Some u
        \<and> (\<forall>k v. k \<in> set (map fieldKey updateCalendarEventSchema)
                \<and> (body(''startDate'' \<mapsto> coerceDate rt body ''startDate'',
                         ''endDate'' \<mapsto> coerceDate rt body ''endDate'')) k = Some v
              \<longrightarrow> u k = Some v))"
proof -
  have t: "getTask s i = Some r \<and> patchTask rt s i body = (s', Json u) \<longrightarrow>
        (\<forall>k\<in>set protectedKeys. u k = r k) \<and> getTask s' i = Some u
        \<and> (\<forall>k v. k \<in> set (map fieldKey updateTaskSchema)
                \<and> (body(''dueDate'' \<mapsto> coerceDate rt body ''dueDate'')) k = Some v
              \<longrightarrow> u k = Some v)"
    using patchTask_protects [of s i r rt body s' u] by (intro impI) (elim conjE)
  have c: "getContact s i = Some r \<and> patchContact s i body = (s', Json u) \<longrightarrow>
        (\<forall>k\<in>set protectedKeys. u k = r k) \<and> getContact s' i = Some u
        \<and> (\<forall>k v. k \<in> set (map fieldKey updateContactSchema) \<and> body k = Some v
              \<longrightarrow> u k = Some v)"
    using patchContact_protects [of s i r body s' u] by (intro impI) (elim conjE)
  have b: "getBudgetItem s i = Some r \<and> patchBudgetItem s i body = (s', Json u) \<longrightarrow>
        (\<forall>k\<in>set protectedKeys. u k = r k) \<and> getBudgetItem s' i = Some u
        \<and> (\<forall>k v. k \<in> set (map fieldKey updateBudgetItemSchema) \<and> body k = Some v
              \<longrightarrow> u k = Some v)"
    using patchBudgetItem_protects [of s i r body s' u] by (intro impI) (elim conjE)
  have e: "getCalendarEvent s i = Some r \<and> patchCalendarEvent rt s i body = (s', Json u) \<longrightarrow>
        (\<forall>k\<in>set protectedKeys. u k = r k) \<and> getCalendarEvent s' i = Some u
        \<and> (\<forall>k v. k \<in> set (map fieldKey updateCalendarEventSchema)
                \<and> (body(''startDate'' \<mapsto> coerceDate rt body ''startDate'',
                         ''endDate'' \<mapsto> coerceDate rt body ''endDate'')) k = Some v
              \<longrightarrow> u k = Some v)"
    using patchCalendarEvent_protects [of s i r rt body s' u] by (intro impI) (elim conjE)
  show ?thesis
    by (intro conjI patchTask_ignores patchContact_ignores patchBudgetItem_ignores
        patchCalendarEvent_ignores t c b e)
qed

lemma exampleStoreFull_value:
  "exampleStoreFull =
     exampleStore
     \<lparr>contacts :=
        [(''uuuuu'', [''projectId'' \<mapsto> JStr ''u'', ''name'' \<mapsto> JStr ''Cleo'',
                      ''role'' \<mapsto> JStr ''Client'', ''id'' \<mapsto> JStr ''uuuuu''])],
      budgetItems :=
        [(''uuuuuu'', [''projectId'' \<mapsto> JStr ''u'', ''description'' \<mapsto> JStr ''Studio'',
                       ''plannedCost'' \<mapsto> JNum 1000, ''actualCost'' \<mapsto> JNum 1200,
                       ''id'' \<mapsto> JStr ''uuuuuu''])],
      calendarEvents :=
        [(''uuuuuuu'', [''projectId'' \<mapsto> JStr ''u'', ''title'' \<mapsto> JStr ''Call'',
                        ''type'' \<mapsto> JStr ''Meeting'', ''startDate'' \<mapsto> JDate 3600000,
                        ''id'' \<mapsto> JStr ''uuuuuuu''])],
      uuidCalls := 7\<rparr>"
  by (simp add: exampleStoreFull_def exampleStore_value createContact_def createBudgetItem_def
      createCalendarEvent_def exampleRuntime_def Map_set_def Let_def numeral_eq_Suc)

lemma full_task: "getTask exampleStoreFull ''uuu''
     = Some [''projectId'' \<mapsto> JStr ''u'', ''title'' \<mapsto> JStr ''Scout'',
             ''id'' \<mapsto> JStr ''uuu'', ''createdAt'' \<mapsto> JDate 2]"
  by (simp add: exampleStoreFull_value exampleStore_value getTask_def Map_get_def)

lemma full_contact: "getContact exampleStoreFull ''uuuuu''
     = Some [''projectId'' \<mapsto> JStr ''u'', ''name'' \<mapsto> JStr ''Cleo'',
             ''role'' \<mapsto> JStr ''Client'', ''id'' \<mapsto> JStr ''uuuuu'']"
  by (simp add: exampleStoreFull_value getContact_def Map_get_def)

lemma full_budgetItem: "getBudgetItem exampleStoreFull ''uuuuuu''
     = Some [''projectId'' \<mapsto> JStr ''u'', ''description'' \<mapsto> JStr ''Studio'',
             ''plannedCost'' \<mapsto> JNum 1000, ''actualCost'' \<mapsto> JNum 1200,
             ''id'' \<mapsto> JStr ''uuuuuu'']"
  by (simp add: exampleStoreFull_value getBudgetItem_def Map_get_def)

lemma full_event: "getCalendarEvent exampleStoreFull ''uuuuuuu''
     = Some [''projectId'' \<mapsto> JStr ''u'', ''title'' \<mapsto> JStr ''Call'',
             ''type'' \<mapsto> JStr ''Meeting'', ''startDate'' \<mapsto> JDate 3600000,
             ''id'' \<mapsto> JStr ''uuuuuuu'']"
  by (simp add: exampleStoreFull_value getCalendarEvent_def Map_get_def)

lemma accepts_simps:
  "accepts f JUndefined = optional f" "accepts f JNull = nullable f"
  "accepts f (JStr x) = (fieldType f = ZString)" "accepts f (JNum n) = (fieldType f = ZNumber)"
  "accepts f (JDate t) = (fieldType f = ZDate)"
  by (simp_all add: accepts_def)

lemma schema_values:
  "updateTaskSchema =
     [\<lparr>fieldKey = ''title'', fieldType = ZString, nullable = False, optional = True\<rparr>,
      \<lparr>fieldKey = ''section'', fieldType = ZString, nullable = False, optional = True\<rparr>,
      \<lparr>fieldKey = ''status'', fieldType = ZString, nullable = False, optional = True\<rparr>,
      \<lparr>fieldKey = ''assignee'', fieldType = ZString, nullable = True, optional = True\<rparr>,
      \<lparr>fieldKey = ''dueDate'', fieldType = ZDate, nullable = True, optional = True\<rparr>]"
  "updateContactSchema =
     [\<lparr>fieldKey = ''name'', fieldType = ZString, nullable = False, optional = True\<rparr>,
      \<lparr>fieldKey = ''role'', fieldType = ZString, nullable = False, optional = True\<rparr>,
      \<lparr>fieldKey = ''email'', fieldType = ZString, nullable = True, optional = True\<rparr>,
      \<lparr>fieldKey = ''phone'', fieldType = ZString, nullable = True, optional = True\<rparr>,
      \<lparr>fieldKey = ''notes'', fieldType = ZString, nullable = True, optional = True\<rparr>]"
  "updateBudgetItemSchema =
     [\<lparr>fieldKey = ''description'', fieldType = ZString, nullable = False, optional = True\<rparr>,
      \<lparr>fieldKey = ''plannedCost'', fieldType = ZNumber, nullable = False, optional = True\<rparr>,
      \<lparr>fieldKey = ''actualCost'', fieldType = ZNumber, nullable = False, optional = True\<rparr>,
      \<lparr>fieldKey = ''paymentStatus'', fieldType = ZString, nullable = False, optional = True\<rparr>,
      \<lparr>fieldKey = ''category'', fieldType = ZString, nullable = True, optional = True\<rparr>]"
  "updateCalendarEventSchema =
     [\<lparr>fieldKey = ''title'', fieldType = ZString, nullable = False, optional = True\<rparr>,
      \<lparr>fieldKey = ''type'', fieldType = ZString, nullable = False, optional = True\<rparr>,
      \<lparr>fieldKey = ''startDate'', fieldType = ZDate, nullable = False, optional = True\<rparr>,
      \<lparr>fieldKey = ''endDate'', fieldType = ZDate, nullable = True, optional = True\<rparr>,
      \<lparr>fieldKey = ''description'', fieldType = ZString, nullable = True, optional = True\<rparr>,
      \<lparr>fieldKey = ''location'', fieldType = ZString, nullable = True, optional = True\<rparr>]"
  by (simp_all add: updateTaskSchema_def insertTaskSchema_def updateContactSchema_def
      insertContactSchema_def updateBudgetItemSchema_def insertBudgetItemSchema_def
      updateCalendarEventSchema_def insertCalendarEventSchema_def partial_def omit_def
      createInsertSchema_def tasksTable_def contactsTable_def budgetItemsTable_def
      calendarEventsTable_def col_def)

lemma full_patchTask:
  "\<exists>s' u. patchTask exampleRuntime exampleStoreFull ''uuu''
            [''projectId'' \<mapsto> JStr ''uu'', ''title'' \<mapsto> JStr ''Plan''] = (s', Json u)"
  using full_task
  by (simp add: patchTask_def coerceDate_def getProp_def parse_def schema_values accepts_simps
      updateTask_def getTask_def respond_def Let_def)

lemma full_patchContact:
  "\<exists>s' u. patchContact exampleStoreFull ''uuuuu''
            [''projectId'' \<mapsto> JStr ''uu'', ''name'' \<mapsto> JStr ''Cleopatra''] = (s', Json u)"
  using full_contact
  by (simp add: patchContact_def getProp_def parse_def schema_values accepts_simps
      updateContact_def getContact_def respond_def Let_def)

lemma full_patchBudgetItem:
  "\<exists>s' u. patchBudgetItem exampleStoreFull ''uuuuuu''
            [''projectId'' \<mapsto> JStr ''uu'', ''actualCost'' \<mapsto> JNum 900] = (s', Json u)"
  using full_budgetItem
  by (simp add: patchBudgetItem_def getProp_def parse_def schema_values accepts_simps
      updateBudgetItem_def getBudgetItem_def respond_def Let_def)

lemma full_patchCalendarEvent:
  "\<exists>s' u. patchCalendarEvent exampleRuntime exampleStoreFull ''uuuuuuu''
            [''projectId'' \<mapsto> JStr ''uu'', ''title'' \<mapsto> JStr ''Video call'',
             ''startDate'' \<mapsto> JNum 7200000] = (s', Json u)"
  using full_event
  by (simp add: patchCalendarEvent_def coerceDate_def getProp_def parse_def schema_values
      accepts_simps updateCalendarEvent_def getCalendarEvent_def respond_def Let_def
      exampleRuntime_def)

theorem patch_protects_fields_witness:
  "(\<exists>s' u. patchTask exampleRuntime exampleStoreFull ''uuu''
             [''projectId'' \<mapsto> JStr ''uu'', ''title'' \<mapsto> JStr ''Plan''] = (s', Json u)
           \<and> u ''projectId'' = Some (JStr ''u'') \<and> u ''id'' = Some (JStr ''uuu'')
           \<and> u ''createdAt'' = Some (JDate 2) \<and> u ''title'' = Some (JStr ''Plan'')
           \<and> getTask s' ''uuu'' = Some u)
   \<and> (\<exists>s' u. patchContact exampleStoreFull ''uuuuu''
             [''projectId'' \<mapsto> JStr ''uu'', ''name'' \<mapsto> JStr ''Cleopatra''] = (s', Json u)
           \<and> u ''projectId'' = Some (JStr ''u'') \<and> u ''id'' = Some (JStr ''uuuuu'')
           \<and> u ''name'' = Some (JStr ''Cleopatra'') \<and> getContact s' ''uuuuu'' = Some u)
   \<and> (\<exists>s' u. patchBudgetItem exampleStoreFull ''uuuuuu''
             [''projectId'' \<mapsto> JStr ''uu'', ''actualCost'' \<mapsto> JNum 900] = (s', Json u)
           \<and> u ''projectId'' = Some (JStr ''u'') \<and> u ''id'' = Some (JStr ''uuuuuu'')
           \<and> u ''actualCost'' = Some (JNum 900) \<and> getBudgetItem s' ''uuuuuu'' = Some u)
   \<and> (\<exists>s' u. patchCalendarEvent exampleRuntime exampleStoreFull ''uuuuuuu''
             [''projectId'' \<mapsto> JStr ''uu'', ''title'' \<mapsto> JStr ''Video call'',
              ''startDate'' \<mapsto> JNum 7200000] = (s', Json u)
           \<and> u ''projectId'' = Some (JStr ''u'') \<and> u ''id'' = Some (JStr ''uuuuuuu'')
           \<and> u ''title'' = Some (JStr ''Video call'')
           \<and> getCalendarEvent s' ''uuuuuuu'' = Some u)"
proof -
  have pk: "''projectId'' \<in> set protectedKeys" "''id'' \<in> set protectedKeys"
    "''createdAt'' \<in> set protectedKeys"
    by (simp_all add: protectedKeys_def)
  have t: "\<exists>s' u. patchTask exampleRuntime exampleStoreFull ''uuu''
             [''projectId'' \<mapsto> JStr ''uu'', ''title'' \<mapsto> JStr ''Plan''] = (s', Json u)
           \<and> u ''projectId'' = Some (JStr ''u'') \<and> u ''id'' = Some (JStr ''uuu'')
           \<and> u ''createdAt'' = Some (JDate 2) \<and> u ''title'' = Some (JStr ''Plan'')
           \<and> getTask s' ''uuu'' = Some u"
  proof -
    let ?body = "[''projectId'' \<mapsto> JStr ''uu'', ''title'' \<mapsto> JStr ''Plan'']"
    from full_patchTask obtain s' u where
      p: "patchTask exampleRuntime exampleStoreFull ''uuu'' ?body = (s', Json u)"
      by blast
    have k: "''title'' \<in> set (map fieldKey updateTaskSchema)"
      by (simp add: updateTaskSchema_keys)
    have v: "(?body(''dueDate'' \<mapsto> coerceDate exampleRuntime ?body ''dueDate'')) ''title''
        = Some (JStr ''Plan'')"
      by simp
    note th = patch_protects_fields [where s = exampleStoreFull and i = "''uuu''"
        and body = ?body and s' = s' and u = u and rt = exampleRuntime,
        THEN conjunct2, THEN conjunct2, THEN conjunct2, THEN conjunct2,
        THEN conjunct1, THEN mp, OF conjI [OF full_task p]]
    from th pk k v have "u ''projectId'' = Some (JStr ''u'') \<and> u ''id'' = Some (JStr ''uuu'')
           \<and> u ''createdAt'' = Some (JDate 2) \<and> u ''title'' = Some (JStr ''Plan'')
           \<and> getTask s' ''uuu'' = Some u"
      by auto
    with p show ?thesis by blast
  qed
  have c: "\<exists>s' u. patchContact exampleStoreFull ''uuuuu''
             [''projectId'' \<mapsto> JStr ''uu'', ''name'' \<mapsto> JStr ''Cleopatra''] = (s', Json u)
           \<and> u ''projectId'' = Some (JStr ''u'') \<and> u ''id'' = Some (JStr ''uuuuu'')
           \<and> u ''name'' = Some (JStr ''Cleopatra'') \<and> getContact s' ''uuuuu'' = Some u"
  proof -
    let ?body = "[''projectId'' \<mapsto> JStr ''uu'', ''name'' \<mapsto> JStr ''Cleopatra'']"
    from full_patchContact obtain s' u where
      p: "patchContact exampleStoreFull ''uuuuu'' ?body = (s', Json u)"
      by blast
    have k: "''name'' \<in> set (map fieldKey updateContactSchema)"
      by (simp add: updateContactSchema_keys)
    have v: "?body ''name'' = Some (JStr ''Cleopatra'')"
      by simp
    note th = patch_protects_fields [where s = exampleStoreFull and i = "''uuuuu''"
        and body = ?body and s' = s' and u = u and rt = exampleRuntime,
        THEN conjunct2, THEN conjunct2, THEN conjunct2, THEN conjunct2,
        THEN conjunct2, THEN conjunct1, THEN mp, OF conjI [OF full_contact p]]
    from th pk k v have "u ''projectId'' = Some (JStr ''u'') \<and> u ''id'' = Some (JStr ''uuuuu'')
           \<and> u ''name'' = Some (JStr ''Cleopatra'') \<and> getContact s' ''uuuuu'' = Some u"
      by auto
    with p show ?thesis by blast
  qed
  have b: "\<exists>s' u. patchBudgetItem exampleStoreFull ''uuuuuu''
             [''projectId'' \<mapsto> JStr ''uu'', ''actualCost'' \<mapsto> JNum 900] = (s', Json u)
           \<and> u ''projectId'' = Some (JStr ''u'') \<and> u ''id'' = Some (JStr ''uuuuuu'')
           \<and> u ''actualCost'' = Some (JNum 900) \<and> getBudgetItem s' ''uuuuuu'' = Some u"
  proof -
    let ?body = "[''projectId'' \<mapsto> JStr ''uu'', ''actualCost'' \<mapsto> JNum 900]"
    from full_patchBudgetItem obtain s' u where
      p: "patchBudgetItem exampleStoreFull ''uuuuuu'' ?body = (s', Json u)"
      by blast
    have k: "''actualCost'' \<in> set (map fieldKey updateBudgetItemSchema)"
      by (simp add: updateBudgetItemSchema_keys)
    have v: "?body ''actualCost'' = Some (JNum 900)"
      by simp
    note th = patch_protects_fields [where s = exampleStoreFull and i = "''uuuuuu''"
        and body = ?body and s' = s' and u = u and rt = exampleRuntime,
        THEN conjunct2, THEN conjunct2, THEN conjunct2, THEN conjunct2,
        THEN conjunct2, THEN conjunct2, THEN conjunct1, THEN mp, OF conjI [OF full_budgetItem p]]
    from th pk k v have "u ''projectId'' = Some (JStr ''u'') \<and> u ''id'' = Some (JStr ''uuuuuu'')
           \<and> u ''actualCost'' = Some (JNum 900) \<and> getBudgetItem s' ''uuuuuu'' = Some u"
      by auto
    with p show ?thesis by blast
  qed
  have e: "\<exists>s' u. patchCalendarEvent exampleRuntime exampleStoreFull ''uuuuuuu''
             [''projectId'' \<mapsto> JStr ''uu'', ''title'' \<mapsto> JStr ''Video call'',
              ''startDate'' \<mapsto> JNum 7200000] = (s', Json u)
           \<and> u ''projectId'' = Some (JStr ''u'') \<and> u ''id'' = Some (JStr ''uuuuuuu'')
           \<and> u ''title'' = Some (JStr ''Video call'')
           \<and> getCalendarEvent s' ''uuuuuuu'' = Some u"
  proof -
    let ?body = "[''projectId'' \<mapsto> JStr ''uu'', ''title'' \<mapsto> JStr ''Video call'',
              ''startDate'' \<mapsto> JNum 7200000]"
    from full_patchCalendarEvent obtain s' u where
      p: "patchCalendarEvent exampleRuntime exampleStoreFull ''uuuuuuu'' ?body = (s', Json u)"
      by blast
    have k: "''title'' \<in> set (map fieldKey updateCalendarEventSchema)"
      by (simp add: updateCalendarEventSchema_keys)
    have v: "(?body(''startDate'' \<mapsto> coerceDate exampleRuntime ?body ''startDate'',
                    ''endDate'' \<mapsto> coerceDate exampleRuntime ?body ''endDate'')) ''title''
        = Some (JStr ''Video call'')"
      by simp
    note th = patch_protects_fields [where s = exampleStoreFull and i = "''uuuuuuu''"
        and body = ?body and s' = s' and u = u and rt = exampleRuntime,
        THEN conjunct2, THEN conjunct2, THEN conjunct2, THEN conjunct2,
        THEN conjunct2, THEN conjunct2, THEN conjunct2, THEN mp, OF conjI [OF full_event p]]
    from th pk k v have "u ''projectId'' = Some (JStr ''u'') \<and> u ''id'' = Some (JStr ''uuuuuuu'')
           \<and> u ''title'' = Some (JStr ''Video call'')
           \<and> getCalendarEvent s' ''uuuuuuu'' = Some u"
      by auto
    with p show ?thesis by blast
  qed
  from t c b e show ?thesis by (intro conjI)
qed

subsection \<open>Creating a project from a template\<close>

lemma update_fresh: "k \<notin> set (map fst m) \<Longrightarrow> AList.update k v m = m @ [(k, v)]"
  by (induction m) auto

lemma freshTaskIds_Suc:
  assumes "freshTaskIds rt s (uuidCalls s) (Suc n)"
  shows "randomUUID rt (uuidCalls s) \<notin> set (map fst (tasks s))"
    and "freshTaskIds rt (fst (createTask rt s t)) (uuidCalls (fst (createTask rt s t))) n"
proof -
  define ks where "ks = map (randomUUID rt) [Suc (uuidCalls s) ..< Suc (uuidCalls s) + n]"
  have up: "map (randomUUID rt) [uuidCalls s ..< uuidCalls s + Suc n]
      = randomUUID rt (uuidCalls s) # ks"
    by (simp add: ks_def upt_rec)
  from assms have f: "distinct (randomUUID rt (uuidCalls s) # ks)"
      "list_all (\<lambda>k. k \<notin> set (map fst (tasks s))) (randomUUID rt (uuidCalls s) # ks)"
    unfolding freshTaskIds_def up by blast+
  from f(2) show "randomUUID rt (uuidCalls s) \<notin> set (map fst (tasks s))"
    by simp
  have keys: "set (map fst (tasks (fst (createTask rt s t))))
      = insert (randomUUID rt (uuidCalls s)) (set (map fst (tasks s)))"
    by (simp add: createTask_def Let_def Map_set_def dom_update)
  have calls: "uuidCalls (fst (createTask rt s t)) = Suc (uuidCalls s)"
    by (simp add: createTask_def Let_def)
  from f have "distinct ks
      \<and> list_all (\<lambda>k. k \<notin> insert (randomUUID rt (uuidCalls s)) (set (map fst (tasks s)))) ks"
    by (auto simp: list_all_iff)
  then show "freshTaskIds rt (fst (createTask rt s t)) (uuidCalls (fst (createTask rt s t))) n"
    unfolding freshTaskIds_def calls keys ks_def .
qed

lemma createTask_appends:
  assumes "randomUUID rt (uuidCalls s) \<notin> set (map fst (tasks s))"
  shows "fst (createTask rt s t) =
     s\<lparr>tasks := tasks s @ [(randomUUID rt (uuidCalls s),
                             t(''id'' \<mapsto> JStr (randomUUID rt (uuidCalls s)),
                               ''createdAt'' \<mapsto> JDate (currentTime rt (dateCalls s))))],
       uuidCalls := Suc (uuidCalls s), dateCalls := Suc (dateCalls s)\<rparr>"
  using assms by (simp add: createTask_def Let_def Map_set_def update_fresh)

lemma createTemplateTasks_appends:
  assumes "freshTaskIds rt s (uuidCalls s) (length template)"
  shows "createTemplateTasks rt s pid template =
     s\<lparr>tasks := tasks s @ expectedTasks rt (uuidCalls s) (dateCalls s) pid template,
       uuidCalls := uuidCalls s + length template,
       dateCalls := dateCalls s + length template\<rparr>"
  using assms
proof (induction template arbitrary: s)
  case Nil
  then show ?case by simp
next
  case (Cons entry rest)
  from Cons.prems have f: "freshTaskIds rt s (uuidCalls s) (Suc (length rest))" by simp
  note a = createTask_appends [OF freshTaskIds_Suc(1) [OF f], of "templateTask pid entry"]
  note b = Cons.IH [OF freshTaskIds_Suc(2) [OF f, of "templateTask pid entry"]]
  show ?case
    by (simp add: b) (simp add: a)
qed

lemma expectedTasks_length: "length (expectedTasks rt u d pid template) = length template"
  by (induction template arbitrary: u d) simp_all

lemma expectedTasks_fields:
  "map (\<lambda>t. (getProp t ''title'', getProp t ''section''))
     (Map_values (expectedTasks rt u d pid template))
   = map (\<lambda>e. (JStr (tmplTitle e), JStr (tmplSection e))) template"
  by (induction template arbitrary: u d) (simp_all add: Map_values_def templateTask_def getProp_def)

lemma expectedTasks_fixed:
  "list_all (\<lambda>t. getProp t ''projectId'' = JStr pid \<and> getProp t ''status'' = JStr ''To Do''
       \<and> getProp t ''assignee'' = JStr [] \<and> t ''dueDate'' = None)
     (Map_values (expectedTasks rt u d pid template))"
  by (induction template arbitrary: u d) (simp_all add: Map_values_def templateTask_def getProp_def)

lemma lookupTemplate_simps:
  "lookupTemplate (JStr ''Wedding'') = Template weddingTemplate"
  "map_of projectTemplates ty = None \<Longrightarrow> lookupTemplate (JStr ty) \<noteq> Template template"
  by (simp_all add: lookupTemplate_def projectTemplates_def)

lemma weddingTemplate_length: "length weddingTemplate = 13"
  by (simp add: weddingTemplate_def)

lemma createProject_Wedding:
  assumes ty: "insertProject ''type'' = Some (JStr ''Wedding'')"
    and fresh: "freshTaskIds rt s (Suc (uuidCalls s)) 13"
  shows "createProject rt s insertProject =
     (s\<lparr>projects := Map_set (projects s) (randomUUID rt (uuidCalls s))
                        (insertProject(''id'' \<mapsto> JStr (randomUUID rt (uuidCalls s)),
                                       ''createdAt'' \<mapsto> JDate (currentTime rt (dateCalls s)))),
        tasks := tasks s @ expectedTasks rt (Suc (uuidCalls s)) (Suc (dateCalls s))
                             (randomUUID rt (uuidCalls s)) weddingTemplate,
        uuidCalls := uuidCalls s + 14, dateCalls := dateCalls s + 14\<rparr>,
      Inr (insertProject(''id'' \<mapsto> JStr (randomUUID rt (uuidCalls s)),
                         ''createdAt'' \<mapsto> JDate (currentTime rt (dateCalls s)))))"
proof -
  let ?id = "randomUUID rt (uuidCalls s)"
  let ?project = "insertProject(''id'' \<mapsto> JStr ?id,
                                ''createdAt'' \<mapsto> JDate (currentTime rt (dateCalls s)))"
  let ?s1 = "s\<lparr>projects := Map_set (projects s) ?id ?project,
               uuidCalls := Suc (uuidCalls s), dateCalls := Suc (dateCalls s)\<rparr>"
  from fresh have "freshTaskIds rt ?s1 (uuidCalls ?s1) (length weddingTemplate)"
    by (simp add: freshTaskIds_def weddingTemplate_length)
  note a = createTemplateTasks_appends [OF this, of ?id]
  have t: "getProp insertProject ''type'' = JStr ''Wedding''"
    using ty by (simp add: getProp_def)
  show ?thesis
    using a
    by (simp add: createProject_def Let_def t lookupTemplate_simps(1) weddingTemplate_length)
qed

lemma createProject_no_template:
  assumes "insertProject ''type'' = Some (JStr ty)"
    and "ty = ''Blank'' \<or> map_of projectTemplates ty = None"
  shows "tasks (fst (createProject rt s insertProject)) = tasks s"
proof -
  have t: "getProp insertProject ''type'' = JStr ty"
    using assms(1) by (simp add: getProp_def)
  show ?thesis
  proof (cases "ty = ''Blank''")
    case True
    then show ?thesis by (simp add: createProject_def Let_def t)
  next
    case False
    with assms(2) have "map_of projectTemplates ty = None" by simp
    then show ?thesis
      by (simp add: createProject_def Let_def t lookupTemplate_def)
  qed
qed

text \<open>
  C3. Creating a project of type "Wedding", when the thirteen UUIDs drawn for its tasks
  are fresh, returns the project and appends exactly 13 tasks to the task listing, one
  per template entry and in template order (titles and sections are those of the Wedding
  skeleton), each with projectId equal to the new project's id, status "To Do", an empty
  assignee and no dueDate. Creating a project of type "Blank", or of a type string that
  is no key of the template table, leaves the task collection as it was.
\<close>

theorem template_instantiation:
  assumes "insertProject ''type'' = Some (JStr ty)"
    and "createProject rt s insertProject = (s', result)"
  shows "(ty = ''Wedding'' \<and> freshTaskIds rt s (Suc (uuidCalls s)) 13 \<longrightarrow>
            result = Inr (insertProject(''id'' \<mapsto> JStr (randomUUID rt (uuidCalls s)),
                                       ''createdAt'' \<mapsto> JDate (currentTime rt (dateCalls s))))
            \<and> (\<exists>newTasks.
                  getTasks s' = getTasks s @ newTasks
                  \<and> length newTasks = 13
                  \<and> map (\<lambda>t. (getProp t ''title'', getProp t ''section'')) newTasks
                      = map (\<lambda>e. (JStr (tmplTitle e), JStr (tmplSection e))) weddingTemplate
                  \<and> list_all (\<lambda>t. getProp t ''projectId'' = JStr (randomUUID rt (uuidCalls s))
                                 \<and> getProp t ''status'' = JStr ''To Do''
                                 \<and> getProp t ''assignee'' = JStr []
                                 \<and> t ''dueDate'' = None) newTasks))
    \<and> (ty = ''Blank'' \<longrightarrow> getTasks s' = getTasks s)
    \<and> (map_of projectTemplates ty = None \<longrightarrow> getTasks s' = getTasks s)"
proof (intro conjI impI)
  assume w: "ty = ''Wedding'' \<and> freshTaskIds rt s (Suc (uuidCalls s)) 13"
  let ?new = "Map_values (expectedTasks rt (Suc (uuidCalls s)) (Suc (dateCalls s))
                (randomUUID rt (uuidCalls s)) weddingTemplate)"
  from w assms(1) have ty: "insertProject ''type'' = Some (JStr ''Wedding'')" by simp
  from w have fresh: "freshTaskIds rt s (Suc (uuidCalls s)) 13" by simp
  note c = createProject_Wedding [where insertProject = insertProject, OF ty fresh]
  from c assms(2) show "result = Inr (insertProject(''id'' \<mapsto> JStr (randomUUID rt (uuidCalls s)),
                                       ''createdAt'' \<mapsto> JDate (currentTime rt (dateCalls s))))"
    by simp
  from c assms(2) have "getTasks s' = getTasks s @ ?new"
    by (auto simp: getTasks_def Map_values_def)
  moreover have "length ?new = 13"
    by (simp add: Map_values_def expectedTasks_length weddingTemplate_length)
  ultimately show "\<exists>newTasks.
                  getTasks s' = getTasks s @ newTasks
                  \<and> length newTasks = 13
                  \<and> map (\<lambda>t. (getProp t ''title'', getProp t ''section'')) newTasks
                      = map (\<lambda>e. (JStr (tmplTitle e), JStr (tmplSection e))) weddingTemplate
                  \<and> list_all (\<lambda>t. getProp t ''projectId'' = JStr (randomUUID rt (uuidCalls s))
                                 \<and> getProp t ''status'' = JStr ''To Do''
                                 \<and> getProp t ''assignee'' = JStr []
                                 \<and> t ''dueDate'' = None) newTasks"
    using expectedTasks_fields expectedTasks_fixed by blast
next
  assume "ty = ''Blank''"
  with createProject_no_template [where insertProject = insertProject and rt = rt and s = s,
      OF assms(1)] assms(2)
  show "getTasks s' = getTasks s" by (simp add: getTasks_def)
next
  assume "map_of projectTemplates ty = None"
  with createProject_no_template [where insertProject = insertProject and rt = rt and s = s,
      OF assms(1)] assms(2)
  show "getTasks s' = getTasks s" by (simp add: getTasks_def)
qed

lemma exampleRuntime_inj: "inj (randomUUID exampleRuntime)"
proof (rule injI)
  fix a b assume "randomUUID exampleRuntime a = randomUUID exampleRuntime b"
  then have "length (replicate (Suc a) CHR ''u'') = length (replicate (Suc b) CHR ''u'')"
    by (simp add: exampleRuntime_def)
  then show "a = b" by simp
qed

lemma exampleRuntime_uuid_length: "length (randomUUID exampleRuntime k) = Suc k"
  by (simp add: exampleRuntime_def)

lemma distinct_map_upt: "inj f \<Longrightarrow> distinct (map f [a ..< b])"
  by (auto simp: distinct_map inj_on_def dest: injD)

lemma exampleStore_fresh: "freshTaskIds exampleRuntime exampleStore (Suc (uuidCalls exampleStore)) 13"
proof -
  let ?a = "Suc (uuidCalls exampleStore)"
  have d: "distinct (map (randomUUID exampleRuntime) [?a ..< ?a + 13])"
    using exampleRuntime_inj by (rule distinct_map_upt)
  have nk: "randomUUID exampleRuntime k \<notin> set (map fst (tasks exampleStore))"
    if "?a \<le> k" for k
  proof
    assume "randomUUID exampleRuntime k \<in> set (map fst (tasks exampleStore))"
    then have "length (randomUUID exampleRuntime k) \<in> {3, 4}"
      by (auto simp: exampleStore_value)
    with that show False
      by (simp add: exampleRuntime_uuid_length exampleStore_value)
  qed
  have "list_all (\<lambda>k. k \<notin> set (map fst (tasks exampleStore)))
      (map (randomUUID exampleRuntime) [?a ..< ?a + 13])"
    unfolding list_all_iff
  proof
    fix k assume "k \<in> set (map (randomUUID exampleRuntime) [?a ..< ?a + 13])"
    then obtain j where "?a \<le> j" and "k = randomUUID exampleRuntime j"
      by auto
    with nk show "k \<notin> set (map fst (tasks exampleStore))"
      by blast
  qed
  with d show ?thesis
    unfolding freshTaskIds_def by (rule conjI)
qed

lemma createProject_inherited_throws:
  assumes "insertProject ''type'' = Some (JStr ty)" and "ty \<in> set objectPrototypeKeys"
  shows "snd (createProject rt s insertProject) = Inl TypeError"
    and "getProject (fst (createProject rt s insertProject)) (randomUUID rt (uuidCalls s)) \<noteq> None"
proof -
  have t: "getProp insertProject ''type'' = JStr ty"
    using assms(1) by (simp add: getProp_def)
  from assms(2) have l: "lookupTemplate (JStr ty) = Inherited" and b: "ty \<noteq> ''Blank''"
    and e: "ty \<noteq> []"
    by (auto simp: lookupTemplate_def objectPrototypeKeys_def projectTemplates_def)
  from b e show "snd (createProject rt s insertProject) = Inl TypeError"
    by (simp add: createProject_def Let_def t l)
  from b e show
    "getProject (fst (createProject rt s insertProject)) (randomUUID rt (uuidCalls s)) \<noteq> None"
    by (simp add: createProject_def Let_def t l getProject_def Map_get_set_same)
qed

theorem template_instantiation_witness:
  "freshTaskIds exampleRuntime exampleStore (Suc (uuidCalls exampleStore)) 13
   \<and> length (getTasks exampleStore) = 2
   \<and> length (getTasks (fst (createProject exampleRuntime exampleStore
                 [''name'' \<mapsto> JStr ''Smith'', ''type'' \<mapsto> JStr ''Wedding'']))) = 15
   \<and> getTasks (fst (createProject exampleRuntime exampleStore
                 [''name'' \<mapsto> JStr ''Smith'', ''type'' \<mapsto> JStr ''Blank''])) = getTasks exampleStore
   \<and> getTasks (fst (createProject exampleRuntime exampleStore
                 [''name'' \<mapsto> JStr ''Smith'', ''type'' \<mapsto> JStr ''Fashion''])) = getTasks exampleStore
   \<and> getTasks (fst (createProject exampleRuntime exampleStore
                 [''name'' \<mapsto> JStr ''Smith'', ''type'' \<mapsto> JStr ''constructor'']))
       = getTasks exampleStore"
proof -
  have n: "length (getTasks exampleStore) = 2"
    by (simp add: exampleStore_value getTasks_def Map_values_def)
  have w: "length (getTasks (fst (createProject exampleRuntime exampleStore
                 [''name'' \<mapsto> JStr ''Smith'', ''type'' \<mapsto> JStr ''Wedding'']))) = 15"
    using template_instantiation [where ty = "''Wedding''" and rt = exampleRuntime
        and s = exampleStore
        and insertProject = "[''name'' \<mapsto> JStr ''Smith'', ''type'' \<mapsto> JStr ''Wedding'']",
        OF _ surjective_pairing] exampleStore_fresh n
    by auto
  have b: "getTasks (fst (createProject exampleRuntime exampleStore
                 [''name'' \<mapsto> JStr ''Smith'', ''type'' \<mapsto> JStr ''Blank''])) = getTasks exampleStore"
    using template_instantiation [where ty = "''Blank''" and rt = exampleRuntime
        and s = exampleStore
        and insertProject = "[''name'' \<mapsto> JStr ''Smith'', ''type'' \<mapsto> JStr ''Blank'']",
        OF _ surjective_pairing]
    by simp
  have f: "getTasks (fst (createProject exampleRuntime exampleStore
                 [''name'' \<mapsto> JStr ''Smith'', ''type'' \<mapsto> JStr ''Fashion''])) = getTasks exampleStore"
    using template_instantiation [where ty = "''Fashion''" and rt = exampleRuntime
        and s = exampleStore
        and insertProject = "[''name'' \<mapsto> JStr ''Smith'', ''type'' \<mapsto> JStr ''Fashion'']",
        OF _ surjective_pairing]
    by (simp add: projectTemplates_def)
  have c: "getTasks (fst (createProject exampleRuntime exampleStore
                 [''name'' \<mapsto> JStr ''Smith'', ''type'' \<mapsto> JStr ''constructor'']))
       = getTasks exampleStore"
    using template_instantiation [where ty = "''constructor''" and rt = exampleRuntime
        and s = exampleStore
        and insertProject = "[''name'' \<mapsto> JStr ''Smith'', ''type'' \<mapsto> JStr ''constructor'']",
        OF _ surjective_pairing]
    by (simp add: projectTemplates_def)
  from exampleStore_fresh n w b f c show ?thesis by (intro conjI)
qed

subsection \<open>Identifiers\<close>

lemma stored_collection: "stored k s = Map_values (collection k s)"
  by (cases k) (simp_all add: stored_def collection_def getProjects_def getTasks_def
      getContacts_def getBudgetItems_def getCalendarEvents_def)

lemma keyedById_collection: "wellKeyed s \<Longrightarrow> keyedById (collection k s)"
  by (cases k) (simp_all add: wellKeyed_def collection_def)

lemma storedIds_keys:
  assumes "wellKeyed s"
  shows "storedIds k s = map JStr (map fst (collection k s))"
proof -
  have "keyedById (collection k s)"
    using assms by (rule keyedById_collection)
  then have "getProp r ''id'' = JStr key" if "(key, r) \<in> set (collection k s)" for key r
    using that by (rule keyedById_entry)
  then show ?thesis
    by (auto simp: storedIds_def stored_collection Map_values_def)
qed

lemma storedIds_distinct: "wellKeyed s \<Longrightarrow> distinct (storedIds k s)"
  using keyedById_collection [of s k]
  by (simp add: storedIds_keys keyedById_def distinct_map inj_on_def)

lemma keys_trans:
  assumes "A' \<subseteq> A \<union> f ` {a ..< b}" and "A'' \<subseteq> A' \<union> f ` {b ..< c}"
    and "a \<le> b" and "b \<le> (c::nat)"
  shows "A'' \<subseteq> A \<union> f ` {a ..< c}"
proof
  fix x assume "x \<in> A''"
  with assms(2) have "x \<in> A' \<or> x \<in> f ` {b ..< c}"
    by (simp add: subset_iff)
  with assms(1) have "x \<in> A \<or> x \<in> f ` {a ..< b} \<or> x \<in> f ` {b ..< c}"
    by (auto simp only: subset_iff Un_iff)
  moreover have "x \<in> f ` {a ..< c}" if "x \<in> f ` {a ..< b}"
  proof -
    from that obtain j where "a \<le> j" "j < b" "x = f j" by (auto simp only: image_iff atLeastLessThan_iff)
    with assms(4) have "j \<in> {a ..< c}" by simp
    with \<open>x = f j\<close> show ?thesis by (rule image_eqI)
  qed
  moreover have "x \<in> f ` {a ..< c}" if "x \<in> f ` {b ..< c}"
  proof -
    from that obtain j where "b \<le> j" "j < c" "x = f j" by (auto simp only: image_iff atLeastLessThan_iff)
    with assms(3) have "j \<in> {a ..< c}" by simp
    with \<open>x = f j\<close> show ?thesis by (rule image_eqI)
  qed
  ultimately show "x \<in> A \<union> f ` {a ..< c}"
    by (auto simp only: Un_iff)
qed

lemma uuidCalls_createTemplateTasks:
  "uuidCalls (createTemplateTasks rt s pid template) = uuidCalls s + length template"
  by (induction template arbitrary: s) (simp_all add: createTask_def Let_def)

lemma uuidCalls_createProject:
  "uuidCalls (fst (createProject rt s p)) > uuidCalls s"
  by (simp add: createProject_def Let_def uuidCalls_createTemplateTasks split: templateLookup.split)

lemma uuidCalls_create:
  "uuidCalls (fst (createTask rt s d)) = Suc (uuidCalls s)"
  "uuidCalls (fst (createContact rt s d)) = Suc (uuidCalls s)"
  "uuidCalls (fst (createBudgetItem rt s d)) = Suc (uuidCalls s)"
  "uuidCalls (fst (createCalendarEvent rt s d)) = Suc (uuidCalls s)"
  by (simp_all add: createTask_def createContact_def createBudgetItem_def
      createCalendarEvent_def Let_def)

lemma uuidCalls_update:
  "uuidCalls (fst (updateProject s i d)) = uuidCalls s"
  "uuidCalls (fst (updateTask s i d)) = uuidCalls s"
  "uuidCalls (fst (updateContact s i d)) = uuidCalls s"
  "uuidCalls (fst (updateBudgetItem s i d)) = uuidCalls s"
  "uuidCalls (fst (updateCalendarEvent s i d)) = uuidCalls s"
  by (simp_all add: updateProject_def updateTask_def updateContact_def updateBudgetItem_def
      updateCalendarEvent_def Let_def split: option.split)

lemma uuidCalls_patch:
  "uuidCalls (fst (patchProject rt s i body)) = uuidCalls s"
  "uuidCalls (fst (patchTask rt s i body)) = uuidCalls s"
  "uuidCalls (fst (patchContact s i body)) = uuidCalls s"
  "uuidCalls (fst (patchBudgetItem s i body)) = uuidCalls s"
  "uuidCalls (fst (patchCalendarEvent rt s i body)) = uuidCalls s"
  by (simp_all add: patchProject_def patchTask_def patchContact_def patchBudgetItem_def
      patchCalendarEvent_def fst_respond uuidCalls_update split: option.split)

lemma uuidCalls_delete:
  "uuidCalls (fst (deleteProject s i)) = uuidCalls s"
  "uuidCalls (fst (deleteTask s i)) = uuidCalls s"
  "uuidCalls (fst (deleteContact s i)) = uuidCalls s"
  "uuidCalls (fst (deleteBudgetItem s i)) = uuidCalls s"
  "uuidCalls (fst (deleteCalendarEvent s i)) = uuidCalls s"
  by (simp_all add: deleteProject_def deleteTask_def deleteContact_def deleteBudgetItem_def
      deleteCalendarEvent_def Let_def split: prod.split)

lemma keys_create:
  "set (map fst (collection k (fst (createTask rt s d))))
     \<subseteq> set (map fst (collection k s)) \<union> randomUUID rt ` {uuidCalls s ..< Suc (uuidCalls s)}"
  "set (map fst (collection k (fst (createContact rt s d))))
     \<subseteq> set (map fst (collection k s)) \<union> randomUUID rt ` {uuidCalls s ..< Suc (uuidCalls s)}"
  "set (map fst (collection k (fst (createBudgetItem rt s d))))
     \<subseteq> set (map fst (collection k s)) \<union> randomUUID rt ` {uuidCalls s ..< Suc (uuidCalls s)}"
  "set (map fst (collection k (fst (createCalendarEvent rt s d))))
     \<subseteq> set (map fst (collection k s)) \<union> randomUUID rt ` {uuidCalls s ..< Suc (uuidCalls s)}"
  by (cases k; force simp: collection_def createTask_def createContact_def createBudgetItem_def
      createCalendarEvent_def Let_def Map_set_def dom_update)+

lemma keys_createTemplateTasks:
  "set (map fst (collection k (createTemplateTasks rt s pid template)))
     \<subseteq> set (map fst (collection k s))
       \<union> randomUUID rt ` {uuidCalls s ..< uuidCalls s + length template}"
proof (induction template arbitrary: s)
  case Nil
  show ?case by simp
next
  case (Cons entry rest)
  let ?s1 = "fst (createTask rt s (templateTask pid entry))"
  have a: "set (map fst (collection k ?s1))
     \<subseteq> set (map fst (collection k s)) \<union> randomUUID rt ` {uuidCalls s ..< Suc (uuidCalls s)}"
    by (rule keys_create(1))
  have b: "set (map fst (collection k (createTemplateTasks rt ?s1 pid rest)))
     \<subseteq> set (map fst (collection k ?s1))
       \<union> randomUUID rt ` {Suc (uuidCalls s) ..< Suc (uuidCalls s) + length rest}"
    using Cons.IH [of ?s1] by (simp add: uuidCalls_create)
  have "set (map fst (collection k (createTemplateTasks rt ?s1 pid rest)))
     \<subseteq> set (map fst (collection k s))
       \<union> randomUUID rt ` {uuidCalls s ..< Suc (uuidCalls s) + length rest}"
    using a b by (rule keys_trans) simp_all
  then show ?case by simp
qed

lemma keys_createProject:
  "set (map fst (collection k (fst (createProject rt s p))))
     \<subseteq> set (map fst (collection k s))
       \<union> randomUUID rt ` {uuidCalls s ..< uuidCalls (fst (createProject rt s p))}"
proof -
  let ?id = "randomUUID rt (uuidCalls s)"
  let ?project = "p(''id'' \<mapsto> JStr ?id, ''createdAt'' \<mapsto> JDate (currentTime rt (dateCalls s)))"
  let ?s1 = "s\<lparr>projects := Map_set (projects s) ?id ?project,
               uuidCalls := Suc (uuidCalls s), dateCalls := Suc (dateCalls s)\<rparr>"
  have 1: "set (map fst (collection k ?s1))
      \<subseteq> set (map fst (collection k s)) \<union> randomUUID rt ` {uuidCalls s ..< Suc (uuidCalls s)}"
    by (cases k) (auto simp: collection_def Map_set_def dom_update)
  have "set (map fst (collection k (createTemplateTasks rt ?s1 ?id template)))
      \<subseteq> set (map fst (collection k ?s1))
        \<union> randomUUID rt ` {Suc (uuidCalls s) ..< Suc (uuidCalls s) + length template}"
    for template
    using keys_createTemplateTasks [of k rt ?s1 ?id template] by simp
  with 1 have 2: "set (map fst (collection k (createTemplateTasks rt ?s1 ?id template)))
      \<subseteq> set (map fst (collection k s))
        \<union> randomUUID rt ` {uuidCalls s ..< Suc (uuidCalls s) + length template}" for template
    by (rule keys_trans) simp_all
  show ?thesis
    using 1 2
    by (simp add: createProject_def Let_def uuidCalls_createTemplateTasks
        split: templateLookup.split)
qed

lemma keys_update:
  "map fst (collection k (fst (updateProject s i d))) = map fst (collection k s)"
  "map fst (collection k (fst (updateTask s i d))) = map fst (collection k s)"
  "map fst (collection k (fst (updateContact s i d))) = map fst (collection k s)"
  "map fst (collection k (fst (updateBudgetItem s i d))) = map fst (collection k s)"
  "map fst (collection k (fst (updateCalendarEvent s i d))) = map fst (collection k s)"
  by (cases k; force simp: collection_def updateProject_def updateTask_def updateContact_def
      updateBudgetItem_def updateCalendarEvent_def Let_def Map_set_keys Map_get_has
      split: option.split)+

lemma keys_patch:
  "map fst (collection k (fst (patchProject rt s i body))) = map fst (collection k s)"
  "map fst (collection k (fst (patchTask rt s i body))) = map fst (collection k s)"
  "map fst (collection k (fst (patchContact s i body))) = map fst (collection k s)"
  "map fst (collection k (fst (patchBudgetItem s i body))) = map fst (collection k s)"
  "map fst (collection k (fst (patchCalendarEvent rt s i body))) = map fst (collection k s)"
  by (simp_all add: patchProject_def patchTask_def patchContact_def patchBudgetItem_def
      patchCalendarEvent_def fst_respond keys_update split: option.split)

lemma keys_sweep: "set (map fst (sweep m i)) \<subseteq> set (map fst m)"
  by (auto simp: sweep_def Let_def foldl_delete_value)

lemma keys_Map_delete: "set (map fst (snd (Map_delete m i))) \<subseteq> set (map fst m)"
  by (auto simp: Map_delete_def AList.delete_eq)

lemma deleteProject_fields:
  "projects (fst (deleteProject s i)) = snd (Map_delete (projects s) i)"
  "tasks (fst (deleteProject s i)) = (if Map_has (projects s) i then sweep (tasks s) i else tasks s)"
  "contacts (fst (deleteProject s i))
     = (if Map_has (projects s) i then sweep (contacts s) i else contacts s)"
  "budgetItems (fst (deleteProject s i))
     = (if Map_has (projects s) i then sweep (budgetItems s) i else budgetItems s)"
  "calendarEvents (fst (deleteProject s i))
     = (if Map_has (projects s) i then sweep (calendarEvents s) i else calendarEvents s)"
  by (simp_all add: deleteProject_def Let_def Map_delete_def)

lemma keys_deleteProject:
  "set (map fst (collection k (fst (deleteProject s i)))) \<subseteq> set (map fst (collection k s))"
proof (cases k)
  case KProject
  then show ?thesis
    using keys_Map_delete [of "projects s" i] by (simp add: collection_def deleteProject_fields)
next
  case KTask
  then show ?thesis
    using keys_sweep [of "tasks s" i] by (simp add: collection_def deleteProject_fields)
next
  case KContact
  then show ?thesis
    using keys_sweep [of "contacts s" i] by (simp add: collection_def deleteProject_fields)
next
  case KBudgetItem
  then show ?thesis
    using keys_sweep [of "budgetItems s" i] by (simp add: collection_def deleteProject_fields)
next
  case KCalendarEvent
  then show ?thesis
    using keys_sweep [of "calendarEvents s" i] by (simp add: collection_def deleteProject_fields)
qed

lemma keys_deleteTask:
  "set (map fst (collection k (fst (deleteTask s i)))) \<subseteq> set (map fst (collection k s))"
  using keys_Map_delete [of "tasks s" i]
  by (cases k) (simp_all add: collection_def deleteTask_def case_prod_unfold Let_def)

lemma keys_deleteContact:
  "set (map fst (collection k (fst (deleteContact s i)))) \<subseteq> set (map fst (collection k s))"
  using keys_Map_delete [of "contacts s" i]
  by (cases k) (simp_all add: collection_def deleteContact_def case_prod_unfold Let_def)

lemma keys_deleteBudgetItem:
  "set (map fst (collection k (fst (deleteBudgetItem s i)))) \<subseteq> set (map fst (collection k s))"
  using keys_Map_delete [of "budgetItems s" i]
  by (cases k) (simp_all add: collection_def deleteBudgetItem_def case_prod_unfold Let_def)

lemma keys_deleteCalendarEvent:
  "set (map fst (collection k (fst (deleteCalendarEvent s i)))) \<subseteq> set (map fst (collection k s))"
  using keys_Map_delete [of "calendarEvents s" i]
  by (cases k) (simp_all add: collection_def deleteCalendarEvent_def case_prod_unfold Let_def)

lemmas keys_delete = keys_deleteProject keys_deleteTask keys_deleteContact keys_deleteBudgetItem
  keys_deleteCalendarEvent

lemma handle_uuidCalls: "uuidCalls s \<le> uuidCalls (handle rt s r)"
proof (cases r)
  case (Post k data)
  then show ?thesis
    using uuidCalls_createProject [of s rt data]
    by (cases k) (simp_all add: uuidCalls_create)
next
  case (Patch k i body)
  then show ?thesis by (cases k) (simp_all add: uuidCalls_patch)
next
  case (Delete k i)
  then show ?thesis by (cases k) (simp_all add: uuidCalls_delete)
qed

lemma handle_keys:
  "set (map fst (collection k (handle rt s r)))
     \<subseteq> set (map fst (collection k s)) \<union> randomUUID rt ` {uuidCalls s ..< uuidCalls (handle rt s r)}"
proof (cases r)
  case (Post k' data)
  then show ?thesis
    using keys_createProject [of k rt s data] keys_create [of k rt s data]
    by (cases k') (simp_all add: uuidCalls_create)
next
  case (Patch k' i body)
  then show ?thesis by (cases k') (simp_all add: keys_patch)
next
  case (Delete k' i)
  then show ?thesis
    using keys_delete [of k s i]
    by (cases k') (auto simp: uuidCalls_delete)
qed

lemma reachable_handle: "reachable rt s \<Longrightarrow> reachable rt (handle rt s r)"
proof (cases r)
  case (Post k data)
  assume "reachable rt s"
  with Post show ?thesis by (cases k) (simp_all add: reachable.intros)
next
  case (Patch k i body)
  assume "reachable rt s"
  with Patch show ?thesis by (cases k) (simp_all add: reachable.intros)
next
  case (Delete k i)
  assume "reachable rt s"
  with Delete show ?thesis by (cases k) (simp_all add: reachable.intros)
qed

lemma drawn_step:
  assumes "set (map fst (collection k s)) \<subseteq> randomUUID rt ` {..< uuidCalls s}"
  shows "set (map fst (collection k (handle rt s r)))
     \<subseteq> randomUUID rt ` {..< uuidCalls (handle rt s r)}"
proof
  fix x assume "x \<in> set (map fst (collection k (handle rt s r)))"
  with handle_keys [of k rt s r]
  have "x \<in> set (map fst (collection k s))
      \<or> x \<in> randomUUID rt ` {uuidCalls s ..< uuidCalls (handle rt s r)}"
    by blast
  then show "x \<in> randomUUID rt ` {..< uuidCalls (handle rt s r)}"
  proof
    assume "x \<in> set (map fst (collection k s))"
    with assms have "x \<in> randomUUID rt ` {..< uuidCalls s}" by blast
    then obtain j where "j < uuidCalls s" and x: "x = randomUUID rt j" by blast
    with handle_uuidCalls [of s rt r] have "j \<in> {..< uuidCalls (handle rt s r)}" by simp
    with x show ?thesis by blast
  next
    assume "x \<in> randomUUID rt ` {uuidCalls s ..< uuidCalls (handle rt s r)}"
    then obtain j where "j < uuidCalls (handle rt s r)" and x: "x = randomUUID rt j" by auto
    then have "j \<in> {..< uuidCalls (handle rt s r)}" by simp
    with x show ?thesis by blast
  qed
qed

lemma reachable_drawn:
  "reachable rt s \<Longrightarrow> set (map fst (collection k s)) \<subseteq> randomUUID rt ` {..< uuidCalls s}"
proof (induction rule: reachable.induct)
  case init
  show ?case by (cases k) (simp_all add: collection_def newMemStorage_def)
next
  case (createP s p)
  then show ?case using drawn_step [of k s rt "Post KProject p"] by simp
next
  case (createT s t)
  then show ?case using drawn_step [of k s rt "Post KTask t"] by simp
next
  case (createC s c)
  then show ?case using drawn_step [of k s rt "Post KContact c"] by simp
next
  case (createB s b)
  then show ?case using drawn_step [of k s rt "Post KBudgetItem b"] by simp
next
  case (createE s e)
  then show ?case using drawn_step [of k s rt "Post KCalendarEvent e"] by simp
next
  case (deleteP s i)
  then show ?case using drawn_step [of k s rt "Delete KProject i"] by simp
next
  case (deleteT s i)
  then show ?case using drawn_step [of k s rt "Delete KTask i"] by simp
next
  case (deleteC s i)
  then show ?case using drawn_step [of k s rt "Delete KContact i"] by simp
next
  case (deleteB s i)
  then show ?case using drawn_step [of k s rt "Delete KBudgetItem i"] by simp
next
  case (deleteE s i)
  then show ?case using drawn_step [of k s rt "Delete KCalendarEvent i"] by simp
next
  case (patchP s i body)
  then show ?case using drawn_step [of k s rt "Patch KProject i body"] by simp
next
  case (patchT s i body)
  then show ?case using drawn_step [of k s rt "Patch KTask i body"] by simp
next
  case (patchC s i body)
  then show ?case using drawn_step [of k s rt "Patch KContact i body"] by simp
next
  case (patchB s i body)
  then show ?case using drawn_step [of k s rt "Patch KBudgetItem i body"] by simp
next
  case (patchE s i body)
  then show ?case using drawn_step [of k s rt "Patch KCalendarEvent i body"] by simp
qed

lemma fresh_uuid:
  assumes "inj (randomUUID rt)" and "reachable rt s" and "uuidCalls s \<le> j"
  shows "randomUUID rt j \<notin> set (map fst (collection k s))"
proof
  assume "randomUUID rt j \<in> set (map fst (collection k s))"
  with reachable_drawn [OF assms(2), of k] obtain j' where
    "j' < uuidCalls s" and "randomUUID rt j = randomUUID rt j'"
    by auto
  with assms(1,3) show False by (auto dest: injD)
qed

lemma created_drawn_later:
  assumes "inj (randomUUID rt)" and "reachable rt s"
  shows "distinct (created rt k s rs)
    \<and> set (created rt k s rs) \<subseteq> (\<lambda>j. JStr (randomUUID rt j)) ` {uuidCalls s ..}"
  using assms(2)
proof (induction rs arbitrary: s)
  case Nil
  show ?case by simp
next
  case (Cons r rs)
  let ?s' = "handle rt s r"
  let ?head = "filter (\<lambda>i. i \<notin> set (storedIds k s)) (storedIds k ?s')"
  have r': "reachable rt ?s'"
    using Cons.prems by (rule reachable_handle)
  have w: "wellKeyed s" "wellKeyed ?s'"
    using Cons.prems r' by (simp_all add: reachable_wellKeyed)
  have le: "uuidCalls s \<le> uuidCalls ?s'"
    by (rule handle_uuidCalls)
  have head: "\<exists>j. uuidCalls s \<le> j \<and> j < uuidCalls ?s' \<and> x = JStr (randomUUID rt j)"
    if "x \<in> set ?head" for x
  proof -
    from that have "x \<in> JStr ` set (map fst (collection k ?s'))"
      and "x \<notin> JStr ` set (map fst (collection k s))"
      by (simp_all add: storedIds_keys w image_image)
    then obtain key where key: "key \<in> set (map fst (collection k ?s'))"
      "key \<notin> set (map fst (collection k s))" and x: "x = JStr key"
      by blast
    with handle_keys [of k rt s r]
    have "key \<in> randomUUID rt ` {uuidCalls s ..< uuidCalls ?s'}"
      by blast
    then obtain j where "uuidCalls s \<le> j" "j < uuidCalls ?s'" "key = randomUUID rt j"
      by auto
    with x show ?thesis by blast
  qed
  have tail: "\<exists>j. uuidCalls ?s' \<le> j \<and> x = JStr (randomUUID rt j)"
    if "x \<in> set (created rt k ?s' rs)" for x
    using Cons.IH [OF r'] that by auto
  have d1: "distinct ?head"
    using storedIds_distinct [OF w(2), of k] by simp
  have d2: "distinct (created rt k ?s' rs)"
    using Cons.IH [OF r'] by simp
  have disj: "set ?head \<inter> set (created rt k ?s' rs) = {}"
  proof (rule ccontr)
    assume "set ?head \<inter> set (created rt k ?s' rs) \<noteq> {}"
    then obtain x where a: "x \<in> set ?head" and b: "x \<in> set (created rt k ?s' rs)"
      by blast
    from head [OF a] obtain j where j: "j < uuidCalls ?s'" "x = JStr (randomUUID rt j)"
      by blast
    from tail [OF b] obtain j' where j': "uuidCalls ?s' \<le> j'" "x = JStr (randomUUID rt j')"
      by blast
    from j j' assms(1) show False by (auto dest: injD)
  qed
  have sub: "x \<in> (\<lambda>j. JStr (randomUUID rt j)) ` {uuidCalls s ..}"
    if "x \<in> set ?head \<union> set (created rt k ?s' rs)" for x
  proof -
    from that head tail le obtain j where "uuidCalls s \<le> j" and "x = JStr (randomUUID rt j)"
      by (metis Un_iff le_trans)
    then show ?thesis by auto
  qed
  from d1 d2 disj sub show ?case
    by (auto simp del: filter_set)
qed

lemma update_same_ids:
  assumes "map_of m i = Some r" and "getProp v ''id'' = getProp r ''id''"
  shows "map (\<lambda>r. getProp r ''id'') (Map_values (Map_set m i v))
     = map (\<lambda>r. getProp r ''id'') (Map_values m)"
  using assms by (induction m) (auto simp: Map_values_def Map_set_def)

lemma spread_id: "d ''id'' = None \<Longrightarrow> getProp (spread r d) ''id'' = getProp r ''id''"
  by (simp add: spread_def getProp_def map_add_def)

lemma storedIds_update:
  assumes "d ''id'' = None"
  shows "storedIds k (fst (updateProject s i d)) = storedIds k s"
    and "storedIds k (fst (updateTask s i d)) = storedIds k s"
    and "storedIds k (fst (updateContact s i d)) = storedIds k s"
    and "storedIds k (fst (updateBudgetItem s i d)) = storedIds k s"
    and "storedIds k (fst (updateCalendarEvent s i d)) = storedIds k s"
  using assms
  by (cases k; force simp: storedIds_def stored_collection collection_def updateProject_def
      updateTask_def updateContact_def updateBudgetItem_def updateCalendarEvent_def Let_def
      Map_get_def update_same_ids spread_id split: option.split)+

lemma storedIds_patch:
  "storedIds k (handle rt s (Patch k' i body)) = storedIds k s"
proof (cases k')
  case KProject
  have "d ''id'' = None"
    if "parse updateProjectSchema (body(''shootDate'' \<mapsto> coerceDate rt body ''shootDate'')) = Some d"
    for d
    using that by (rule parse_keys) (simp add: updateProjectSchema_keys)
  with KProject show ?thesis
    by (simp add: patchProject_def fst_respond storedIds_update split: option.split)
next
  case KTask
  have "d ''id'' = None"
    if "parse updateTaskSchema (body(''dueDate'' \<mapsto> coerceDate rt body ''dueDate'')) = Some d"
    for d
    using that by (rule parse_keys) (simp add: updateTaskSchema_keys)
  with KTask show ?thesis
    by (simp add: patchTask_def fst_respond storedIds_update split: option.split)
next
  case KContact
  have "d ''id'' = None" if "parse updateContactSchema body = Some d" for d
    using that by (rule parse_keys) (simp add: updateContactSchema_keys)
  with KContact show ?thesis
    by (simp add: patchContact_def fst_respond storedIds_update split: option.split)
next
  case KBudgetItem
  have "d ''id'' = None" if "parse updateBudgetItemSchema body = Some d" for d
    using that by (rule parse_keys) (simp add: updateBudgetItemSchema_keys)
  with KBudgetItem show ?thesis
    by (simp add: patchBudgetItem_def fst_respond storedIds_update split: option.split)
next
  case KCalendarEvent
  have "d ''id'' = None"
    if "parse updateCalendarEventSchema
          (body(''startDate'' \<mapsto> coerceDate rt body ''startDate'',
                ''endDate'' \<mapsto> coerceDate rt body ''endDate'')) = Some d"
    for d
    using that by (rule parse_keys) (simp add: updateCalendarEventSchema_keys)
  with KCalendarEvent show ?thesis
    by (simp add: patchCalendarEvent_def fst_respond storedIds_update split: option.split)
qed

lemma storedIds_delete:
  assumes "reachable rt s"
  shows "set (storedIds k (handle rt s (Delete k' i))) \<subseteq> set (storedIds k s)"
proof -
  have "wellKeyed s" "wellKeyed (handle rt s (Delete k' i))"
    using assms reachable_handle [OF assms, of "Delete k' i"] by (simp_all add: reachable_wellKeyed)
  moreover have "set (map fst (collection k (handle rt s (Delete k' i))))
      \<subseteq> set (map fst (collection k s))"
    using keys_delete [of k s i] by (cases k') simp_all
  ultimately show ?thesis
    by (auto simp: storedIds_keys)
qed

lemma storedIds_append:
  "map (\<lambda>r. getProp r ''id'') (Map_values (m @ n))
     = map (\<lambda>r. getProp r ''id'') (Map_values m) @ map (\<lambda>r. getProp r ''id'') (Map_values n)"
  by (simp add: Map_values_def)

lemma storedIds_post:
  assumes "inj (randomUUID rt)" and "reachable rt s" and "k' \<noteq> KProject"
  shows "storedIds k (handle rt s (Post k' data))
     = storedIds k s @ (if k = k' then [JStr (randomUUID rt (uuidCalls s))] else [])"
proof -
  have f: "randomUUID rt (uuidCalls s) \<notin> set (map fst (collection j s))" for j
    using assms(1,2) by (rule fresh_uuid) simp
  from f [of KTask] f [of KContact] f [of KBudgetItem] f [of KCalendarEvent] assms(3)
  show ?thesis
    by (cases k'; cases k)
      (simp_all add: storedIds_def stored_collection collection_def createTask_def
        createContact_def createBudgetItem_def createCalendarEvent_def Let_def Map_set_def
        update_fresh Map_values_def getProp_def)
qed

lemma expectedTasks_ids:
  "map (\<lambda>r. getProp r ''id'') (Map_values (expectedTasks rt u d pid template))
     = map (\<lambda>j. JStr (randomUUID rt j)) [u ..< u + length template]"
proof (induction template arbitrary: u d)
  case Nil
  show ?case by (simp add: Map_values_def)
next
  case (Cons entry rest)
  have "[u ..< u + length (entry # rest)] = u # [Suc u ..< Suc u + length rest]"
    by (simp add: upt_rec)
  with Cons.IH [of "Suc u" "Suc d"] show ?case
    by (simp add: Map_values_def getProp_def)
qed

lemma storedIds_post_project:
  assumes "inj (randomUUID rt)" and "reachable rt s"
  shows "storedIds k (handle rt s (Post KProject data))
     = storedIds k s
       @ (if k = KProject then [JStr (randomUUID rt (uuidCalls s))]
          else if k = KTask
          then map (\<lambda>j. JStr (randomUUID rt j))
                 [Suc (uuidCalls s) ..< uuidCalls (handle rt s (Post KProject data))]
          else [])"
proof -
  let ?id = "randomUUID rt (uuidCalls s)"
  let ?project = "data(''id'' \<mapsto> JStr ?id, ''createdAt'' \<mapsto> JDate (currentTime rt (dateCalls s)))"
  let ?s1 = "s\<lparr>projects := Map_set (projects s) ?id ?project,
               uuidCalls := Suc (uuidCalls s), dateCalls := Suc (dateCalls s)\<rparr>"
  have f: "randomUUID rt j \<notin> set (map fst (collection k' s))" if "uuidCalls s \<le> j" for j k'
    using assms that by (rule fresh_uuid)
  have p: "projects ?s1 = projects s @ [(?id, ?project)]"
    using f [of "uuidCalls s" KProject] by (simp add: collection_def Map_set_def update_fresh)
  have s1: "storedIds k ?s1 = storedIds k s @ (if k = KProject then [JStr ?id] else [])"
    by (cases k) (simp_all add: storedIds_def stored_collection collection_def p Map_values_def
        getProp_def)
  have tpl: "createTemplateTasks rt ?s1 ?id template =
      ?s1\<lparr>tasks := tasks ?s1 @ expectedTasks rt (uuidCalls ?s1) (dateCalls ?s1) ?id template,
          uuidCalls := uuidCalls ?s1 + length template,
          dateCalls := dateCalls ?s1 + length template\<rparr>" for template
  proof (rule createTemplateTasks_appends)
    have d: "distinct (map (randomUUID rt) [uuidCalls ?s1 ..< uuidCalls ?s1 + length template])"
      using assms(1) by (rule distinct_map_upt)
    have "key \<notin> set (map fst (tasks ?s1))"
      if "key \<in> set (map (randomUUID rt) [uuidCalls ?s1 ..< uuidCalls ?s1 + length template])"
      for key
    proof -
      from that
      have "key \<in> randomUUID rt ` {uuidCalls ?s1 ..< uuidCalls ?s1 + length template}"
        by (simp only: set_map set_upt)
      then obtain j where j: "j \<in> {uuidCalls ?s1 ..< uuidCalls ?s1 + length template}"
        and key: "key = randomUUID rt j"
        by (rule imageE)
      from j have "uuidCalls s \<le> j" by simp
      from f [OF this, of KTask] key show ?thesis
        by (simp add: collection_def)
    qed
    with d show "freshTaskIds rt ?s1 (uuidCalls ?s1) (length template)"
      unfolding freshTaskIds_def list_all_iff by blast
  qed
  have t: "storedIds k (createTemplateTasks rt ?s1 ?id template)
      = storedIds k s
        @ (if k = KProject then [JStr ?id]
           else if k = KTask
           then map (\<lambda>j. JStr (randomUUID rt j))
                  [Suc (uuidCalls s) ..< Suc (uuidCalls s) + length template]
           else [])" for template
    unfolding tpl [of template]
    using s1 expectedTasks_ids [of rt "Suc (uuidCalls s)" "Suc (dateCalls s)" ?id template]
    by (cases k) (simp_all add: storedIds_def stored_collection collection_def Map_values_def)
  have "fst (createProject rt s data) = ?s1
      \<or> (\<exists>template. fst (createProject rt s data) = createTemplateTasks rt ?s1 ?id template)"
    by (auto simp: createProject_def Let_def split: templateLookup.split)
  then show ?thesis
  proof (elim disjE exE)
    assume e: "fst (createProject rt s data) = ?s1"
    show ?thesis
      unfolding handle.simps e using s1 by (cases k) simp_all
  next
    fix template
    assume e: "fst (createProject rt s data) = createTemplateTasks rt ?s1 ?id template"
    have u: "uuidCalls (createTemplateTasks rt ?s1 ?id template)
        = Suc (uuidCalls s) + length template"
      by (simp add: uuidCalls_createTemplateTasks)
    show ?thesis
      unfolding handle.simps e u by (rule t)
  qed
qed

lemma uuidCalls_Wedding:
  assumes "data ''type'' = Some (JStr ''Wedding'')"
  shows "uuidCalls (handle rt s (Post KProject data)) = uuidCalls s + 14"
proof -
  have "getProp data ''type'' = JStr ''Wedding''"
    using assms by (simp add: getProp_def)
  then show ?thesis
    by (simp add: createProject_def Let_def lookupTemplate_simps(1) uuidCalls_createTemplateTasks
        weddingTemplate_length)
qed

lemma uuidCalls_handle_other:
  "uuidCalls (handle rt s (Patch k' i body)) = uuidCalls s"
  "uuidCalls (handle rt s (Delete k' i)) = uuidCalls s"
  "k' \<noteq> KProject \<Longrightarrow> uuidCalls (handle rt s (Post k' data)) = Suc (uuidCalls s)"
  by (cases k'; simp add: uuidCalls_patch uuidCalls_delete uuidCalls_create)+

lemma later_not_stored:
  assumes "inj (randomUUID rt)" and "reachable rt s" and "uuidCalls s \<le> j"
  shows "JStr (randomUUID rt j) \<notin> set (storedIds k s)"
  using fresh_uuid [OF assms, of k] reachable_wellKeyed [OF assms(2)]
  by (auto simp: storedIds_keys)

lemma stored_drawn:
  assumes "reachable rt s"
  shows "set (storedIds k s) \<subseteq> (\<lambda>j. JStr (randomUUID rt j)) ` {..< uuidCalls s}"
proof
  fix x assume "x \<in> set (storedIds k s)"
  then obtain key where key: "key \<in> set (map fst (collection k s))" and x: "x = JStr key"
    using reachable_wellKeyed [OF assms] by (auto simp: storedIds_keys)
  from key reachable_drawn [OF assms, of k] have "key \<in> randomUUID rt ` {..< uuidCalls s}"
    by blast
  then obtain j where "j \<in> {..< uuidCalls s}" and "key = randomUUID rt j"
    by (rule imageE)
  with x show "x \<in> (\<lambda>j. JStr (randomUUID rt j)) ` {..< uuidCalls s}"
    by blast
qed

lemma stored_keyed:
  assumes "reachable rt s" and "Map_get (collection k s) i = Some r"
  shows "getProp r ''id'' = JStr i"
  using keyedById_collection [OF reachable_wellKeyed [OF assms(1)], of k]
    Map_get_entry [OF assms(2)]
  by (rule keyedById_entry)

lemma filter_fresh:
  assumes "set new \<inter> set old = {}"
  shows "filter (\<lambda>i. i \<notin> set old) (old @ new) = new"
proof -
  have "filter (\<lambda>i. i \<notin> set old) old = []"
    by (simp add: filter_empty_conv)
  moreover have "filter (\<lambda>i. i \<notin> set old) new = new"
    using assms by (auto simp: filter_id_conv)
  ultimately show ?thesis by simp
qed

lemma filter_stale:
  assumes "set new \<subseteq> set old"
  shows "filter (\<lambda>i. i \<notin> set old) new = []"
  using assms by (auto simp: filter_empty_conv)

lemma created_post:
  assumes "inj (randomUUID rt)" and "reachable rt s" and "k' \<noteq> KProject"
  shows "created rt k s (Post k' data # rs)
     = (if k = k' then [JStr (randomUUID rt (uuidCalls s))] else [])
       @ created rt k (handle rt s (Post k' data)) rs"
proof -
  let ?new = "if k = k' then [JStr (randomUUID rt (uuidCalls s))] else []"
  have "set ?new \<inter> set (storedIds k s) = {}"
    using later_not_stored [OF assms(1,2), of "uuidCalls s" k] by auto
  then have "filter (\<lambda>i. i \<notin> set (storedIds k s)) (storedIds k s @ ?new) = ?new"
    by (rule filter_fresh)
  then show ?thesis
    unfolding created.simps storedIds_post [OF assms] by (simp only: append_same_eq)
qed

lemma created_post_project:
  assumes "inj (randomUUID rt)" and "reachable rt s"
  shows "created rt k s (Post KProject data # rs)
     = (if k = KProject then [JStr (randomUUID rt (uuidCalls s))]
        else if k = KTask
        then map (\<lambda>j. JStr (randomUUID rt j))
               [Suc (uuidCalls s) ..< uuidCalls (handle rt s (Post KProject data))]
        else [])
       @ created rt k (handle rt s (Post KProject data)) rs"
proof -
  let ?new = "if k = KProject then [JStr (randomUUID rt (uuidCalls s))]
        else if k = KTask
        then map (\<lambda>j. JStr (randomUUID rt j))
               [Suc (uuidCalls s) ..< uuidCalls (handle rt s (Post KProject data))]
        else []"
  have "x \<notin> set (storedIds k s)" if "x \<in> set ?new" for x
  proof -
    show ?thesis
    proof (cases "k = KProject")
      case True
      with that have "x = JStr (randomUUID rt (uuidCalls s))" by simp
      with later_not_stored [OF assms, of "uuidCalls s" k] show ?thesis by simp
    next
      case False
      with that have "x \<in> (\<lambda>j. JStr (randomUUID rt j))
          ` {Suc (uuidCalls s) ..< uuidCalls (handle rt s (Post KProject data))}"
        by (cases "k = KTask") (simp_all only: if_False if_True set_map set_upt list.set empty_iff simp_thms)
      then obtain j where "j \<in> {Suc (uuidCalls s) ..< uuidCalls (handle rt s (Post KProject data))}"
        and x: "x = JStr (randomUUID rt j)"
        by (rule imageE)
      then have "uuidCalls s \<le> j" by simp
      with later_not_stored [OF assms, of j k] x show ?thesis by simp
    qed
  qed
  then have "set ?new \<inter> set (storedIds k s) = {}"
    by blast
  then have "filter (\<lambda>i. i \<notin> set (storedIds k s)) (storedIds k s @ ?new) = ?new"
    by (rule filter_fresh)
  then show ?thesis
    unfolding created.simps storedIds_post_project [OF assms] by (simp only: append_same_eq)
qed

lemma created_patch:
  "created rt k s (Patch k' i body # rs) = created rt k (handle rt s (Patch k' i body)) rs"
  unfolding created.simps storedIds_patch by (simp add: filter_empty_conv)

lemma created_delete:
  assumes "reachable rt s"
  shows "created rt k s (Delete k' i # rs) = created rt k (handle rt s (Delete k' i)) rs"
  unfolding created.simps using filter_stale [OF storedIds_delete [OF assms, of k k' i]] by simp

lemma created_returned:
  "getProp (snd (createTask rt s data)) ''id'' = JStr (randomUUID rt (uuidCalls s))"
  "getProp (snd (createContact rt s data)) ''id'' = JStr (randomUUID rt (uuidCalls s))"
  "getProp (snd (createBudgetItem rt s data)) ''id'' = JStr (randomUUID rt (uuidCalls s))"
  "getProp (snd (createCalendarEvent rt s data)) ''id'' = JStr (randomUUID rt (uuidCalls s))"
  by (simp_all add: createTask_def createContact_def createBudgetItem_def
      createCalendarEvent_def Let_def getProp_def)

lemma createProject_returned:
  "snd (createProject rt s p) = Inr r \<Longrightarrow> getProp r ''id'' = JStr (randomUUID rt (uuidCalls s))"
  by (auto simp: createProject_def Let_def getProp_def split: templateLookup.splits if_splits)

lemma exampleStore_ids: "storedIds KTask exampleStore = [JStr ''uuu'', JStr ''uuuu'']"
  by (simp add: storedIds_def stored_def getTasks_def Map_values_def exampleStore_value
      getProp_def)

text \<open>
  C9 as written does not hold of the store. \<^verbatim>\<open>updateTask\<close> applies an \<^verbatim>\<open>id\<close> key of
  its payload: after \<^verbatim>\<open>updateTask("uuu", {id: "uuuu"})\<close> on the example store, the task
  created with id \<open>uuu\<close> has the id \<open>uuuu\<close>, and two stored tasks have the same id. And
  the ids are whatever \<^verbatim>\<open>randomUUID()\<close> returns: with a runtime that returns the same
  value twice, two creations of tasks return the same id, and the second record replaces
  the first.
\<close>

theorem store_reassigns_and_repeats_ids:
  "map (\<lambda>t. getProp t ''id'') (getTasks exampleStore) = [JStr ''uuu'', JStr ''uuuu'']
   \<and> map (\<lambda>t. getProp t ''id'')
        (getTasks (fst (updateTask exampleStore ''uuu'' [''id'' \<mapsto> JStr ''uuuu''])))
       = [JStr ''uuuu'', JStr ''uuuu'']
   \<and> \<not> distinct (map (\<lambda>t. getProp t ''id'')
        (getTasks (fst (updateTask exampleStore ''uuu'' [''id'' \<mapsto> JStr ''uuuu'']))))
   \<and> getProp (snd (createTask repeatingRuntime newMemStorage [''title'' \<mapsto> JStr ''One''])) ''id''
       = JStr ''x''
   \<and> getProp (snd (createTask repeatingRuntime
                      (fst (createTask repeatingRuntime newMemStorage [''title'' \<mapsto> JStr ''One'']))
                      [''title'' \<mapsto> JStr ''Two''])) ''id''
       = JStr ''x''
   \<and> map (\<lambda>t. getProp t ''title'')
        (getTasks (fst (createTask repeatingRuntime
                      (fst (createTask repeatingRuntime newMemStorage [''title'' \<mapsto> JStr ''One'']))
                      [''title'' \<mapsto> JStr ''Two''])))
       = [JStr ''Two'']"
  by (simp add: getTasks_def Map_values_def exampleStore_value getProp_def updateTask_def
      Map_get_def Map_set_def spread_def Let_def createTask_def repeatingRuntime_def
      newMemStorage_def)

text \<open>
  C9, amended. Provided \<^verbatim>\<open>randomUUID()\<close> never returns the same value twice, and in
  every state that the server reaches through its route handlers (POST, PATCH, DELETE):
  every stored record has the id it is stored under, the ids stored in one entity kind
  are pairwise distinct, and each was drawn from \<^verbatim>\<open>randomUUID()\<close> before. For every
  sequence of requests from such a state, the ids that the sequence brings into one
  entity kind are pairwise distinct and each is a UUID drawn after the sequence began,
  so none was given out before, neither to a stored record nor to one since deleted.
  They are exactly these: a POST of a task, contact, budget item or calendar event adds
  one record to its kind, with the next UUID as id, which is the id of the returned
  record; a POST of a project adds one project with the next UUID, and one task for each
  further UUID that the call draws (thirteen for type "Wedding"); a PATCH changes no
  stored id, whatever its body names, and a DELETE adds none. The store by itself checks
  nothing: its update applies an \<^verbatim>\<open>id\<close> key, and it stores whatever \<^verbatim>\<open>randomUUID()\<close>
  returns.
\<close>

theorem ids_distinct_never_reused:
  assumes "inj (randomUUID rt)" and "reachable rt s"
  shows "(\<forall>i r. Map_get (collection k s) i = Some r \<longrightarrow> getProp r ''id'' = JStr i)
   \<and> distinct (storedIds k s)
   \<and> set (storedIds k s) \<subseteq> (\<lambda>j. JStr (randomUUID rt j)) ` {..< uuidCalls s}
   \<and> distinct (created rt k s rs)
   \<and> set (created rt k s rs) \<subseteq> (\<lambda>j. JStr (randomUUID rt j)) ` {uuidCalls s ..}
   \<and> (\<forall>j < uuidCalls s. JStr (randomUUID rt j) \<notin> set (created rt k s rs))
   \<and> (k' \<noteq> KProject \<longrightarrow>
        storedIds k (handle rt s (Post k' data))
          = storedIds k s @ (if k = k' then [JStr (randomUUID rt (uuidCalls s))] else [])
        \<and> uuidCalls (handle rt s (Post k' data)) = Suc (uuidCalls s)
        \<and> created rt k s (Post k' data # rs)
          = (if k = k' then [JStr (randomUUID rt (uuidCalls s))] else [])
            @ created rt k (handle rt s (Post k' data)) rs)
   \<and> storedIds k (handle rt s (Post KProject data))
       = storedIds k s
         @ (if k = KProject then [JStr (randomUUID rt (uuidCalls s))]
            else if k = KTask
            then map (\<lambda>j. JStr (randomUUID rt j))
                   [Suc (uuidCalls s) ..< uuidCalls (handle rt s (Post KProject data))]
            else [])
   \<and> created rt k s (Post KProject data # rs)
       = (if k = KProject then [JStr (randomUUID rt (uuidCalls s))]
          else if k = KTask
          then map (\<lambda>j. JStr (randomUUID rt j))
                 [Suc (uuidCalls s) ..< uuidCalls (handle rt s (Post KProject data))]
          else [])
         @ created rt k (handle rt s (Post KProject data)) rs
   \<and> uuidCalls s < uuidCalls (handle rt s (Post KProject data))
   \<and> (data ''type'' = Some (JStr ''Wedding'') \<longrightarrow>
        uuidCalls (handle rt s (Post KProject data)) = uuidCalls s + 14)
   \<and> storedIds k (handle rt s (Patch k' i body)) = storedIds k s
   \<and> uuidCalls (handle rt s (Patch k' i body)) = uuidCalls s
   \<and> created rt k s (Patch k' i body # rs) = created rt k (handle rt s (Patch k' i body)) rs
   \<and> set (storedIds k (handle rt s (Delete k' i))) \<subseteq> set (storedIds k s)
   \<and> uuidCalls (handle rt s (Delete k' i)) = uuidCalls s
   \<and> created rt k s (Delete k' i # rs) = created rt k (handle rt s (Delete k' i)) rs
   \<and> getProp (snd (createTask rt s data)) ''id'' = JStr (randomUUID rt (uuidCalls s))
   \<and> getProp (snd (createContact rt s data)) ''id'' = JStr (randomUUID rt (uuidCalls s))
   \<and> getProp (snd (createBudgetItem rt s data)) ''id'' = JStr (randomUUID rt (uuidCalls s))
   \<and> getProp (snd (createCalendarEvent rt s data)) ''id'' = JStr (randomUUID rt (uuidCalls s))
   \<and> (\<forall>r. snd (createProject rt s data) = Inr r \<longrightarrow>
         getProp r ''id'' = JStr (randomUUID rt (uuidCalls s)))"
proof -
  have c1: "\<forall>i r. Map_get (collection k s) i = Some r \<longrightarrow> getProp r ''id'' = JStr i"
    using stored_keyed [OF assms(2)] by blast
  have c2: "distinct (storedIds k s)"
    using reachable_wellKeyed [OF assms(2)] by (rule storedIds_distinct)
  have c3: "set (storedIds k s) \<subseteq> (\<lambda>j. JStr (randomUUID rt j)) ` {..< uuidCalls s}"
    using assms(2) by (rule stored_drawn)
  have c4: "distinct (created rt k s rs)"
    and c5: "set (created rt k s rs) \<subseteq> (\<lambda>j. JStr (randomUUID rt j)) ` {uuidCalls s ..}"
    using created_drawn_later [OF assms, of k rs] by simp_all
  have c6: "\<forall>j < uuidCalls s. JStr (randomUUID rt j) \<notin> set (created rt k s rs)"
  proof (intro allI impI notI)
    fix j assume j: "j < uuidCalls s" and "JStr (randomUUID rt j) \<in> set (created rt k s rs)"
    with c5 have "JStr (randomUUID rt j) \<in> (\<lambda>j. JStr (randomUUID rt j)) ` {uuidCalls s ..}"
      by blast
    then obtain j' where "uuidCalls s \<le> j'" and "randomUUID rt j = randomUUID rt j'"
      by auto
    with j assms(1) show False by (auto dest: injD)
  qed
  have c7: "k' \<noteq> KProject \<longrightarrow>
        storedIds k (handle rt s (Post k' data))
          = storedIds k s @ (if k = k' then [JStr (randomUUID rt (uuidCalls s))] else [])
        \<and> uuidCalls (handle rt s (Post k' data)) = Suc (uuidCalls s)
        \<and> created rt k s (Post k' data # rs)
          = (if k = k' then [JStr (randomUUID rt (uuidCalls s))] else [])
            @ created rt k (handle rt s (Post k' data)) rs"
    using storedIds_post [OF assms, of k' k data] uuidCalls_handle_other(3) [of k' rt s data]
      created_post [OF assms, of k' k data rs]
    by blast
  have c8: "uuidCalls s < uuidCalls (handle rt s (Post KProject data))"
    using uuidCalls_createProject [of s rt data] by simp
  have c9: "data ''type'' = Some (JStr ''Wedding'') \<longrightarrow>
        uuidCalls (handle rt s (Post KProject data)) = uuidCalls s + 14"
    using uuidCalls_Wedding [of data rt s] by blast
  have c10: "\<forall>r. snd (createProject rt s data) = Inr r \<longrightarrow>
         getProp r ''id'' = JStr (randomUUID rt (uuidCalls s))"
    using createProject_returned [of rt s data] by blast
  have c11: "set (storedIds k (handle rt s (Delete k' i))) \<subseteq> set (storedIds k s)"
    using assms(2) by (rule storedIds_delete)
  show ?thesis
    using c1 c2 c3 c4 c5 c6 c7 c8 c9 c10 c11
      storedIds_post_project [OF assms, of k data] created_post_project [OF assms, of k data rs]
      storedIds_patch [of k rt s k' i body] uuidCalls_handle_other(1) [of rt s k' i body]
      created_patch [of rt k s k' i body rs]
      uuidCalls_handle_other(2) [of rt s k' i] created_delete [OF assms(2), of k k' i rs]
      created_returned [of rt s data]
    by (intro conjI) assumption+
qed

theorem ids_distinct_never_reused_witness:
  "inj (randomUUID exampleRuntime) \<and> reachable exampleRuntime exampleStore
   \<and> storedIds KTask exampleStore = [JStr ''uuu'', JStr ''uuuu'']
   \<and> created exampleRuntime KTask exampleStore exampleRequests
       = map (\<lambda>j. JStr (randomUUID exampleRuntime j)) [5 ..< 18]
         @ [JStr (randomUUID exampleRuntime 18)]
   \<and> length (created exampleRuntime KTask exampleStore exampleRequests) = 14
   \<and> distinct (created exampleRuntime KTask exampleStore exampleRequests)
   \<and> JStr ''uuu'' \<notin> set (created exampleRuntime KTask exampleStore exampleRequests)"
proof -
  define w where "w = [''name'' \<mapsto> JStr ''Smith wedding'', ''type'' \<mapsto> JStr ''Wedding'']"
  define b where "b = [''id'' \<mapsto> JStr ''u'', ''title'' \<mapsto> JStr ''Edited'']"
  define t where "t = [''projectId'' \<mapsto> JStr ''uu'', ''title'' \<mapsto> JStr ''Deliver'']"
  define s1 where "s1 = handle exampleRuntime exampleStore (Post KProject w)"
  define s2 where "s2 = handle exampleRuntime s1 (Delete KTask ''uuu'')"
  define s3 where "s3 = handle exampleRuntime s2 (Patch KTask ''uuuu'' b)"
  note inj = exampleRuntime_inj
  note r0 = exampleStore_reachable
  have r1: "reachable exampleRuntime s1"
    unfolding s1_def using r0 by (rule reachable_handle)
  have r2: "reachable exampleRuntime s2"
    unfolding s2_def using r1 by (rule reachable_handle)
  have r3: "reachable exampleRuntime s3"
    unfolding s3_def using r2 by (rule reachable_handle)
  have u0: "uuidCalls exampleStore = 4"
    by (simp add: exampleStore_value)
  have u1: "uuidCalls s1 = 18"
    unfolding s1_def using uuidCalls_Wedding [of w exampleRuntime exampleStore]
    by (simp add: w_def u0)
  have u3: "uuidCalls s3 = 18"
    unfolding s3_def s2_def uuidCalls_handle_other s1_def [symmetric] by (rule u1)
  have e1: "created exampleRuntime KTask exampleStore (Post KProject w # rs) =
      map (\<lambda>j. JStr (randomUUID exampleRuntime j)) [5 ..< 18] @ created exampleRuntime KTask s1 rs"
    for rs
    unfolding created_post_project [OF inj r0] s1_def [symmetric] u0 u1 by simp
  have e2: "created exampleRuntime KTask s1 (Delete KTask ''uuu'' # rs)
      = created exampleRuntime KTask s2 rs" for rs
    unfolding created_delete [OF r1] s2_def [symmetric] ..
  have e3: "created exampleRuntime KTask s2 (Patch KTask ''uuuu'' b # rs)
      = created exampleRuntime KTask s3 rs" for rs
    unfolding created_patch s3_def [symmetric] ..
  have e4: "created exampleRuntime KTask s3 [Post KTask t] = [JStr (randomUUID exampleRuntime 18)]"
  proof -
    have "KTask \<noteq> KProject" by simp
    note created_post [OF inj r3 this, of KTask t "[]"]
    then show ?thesis
      unfolding u3 created.simps(1) by simp
  qed
  have c: "created exampleRuntime KTask exampleStore exampleRequests
       = map (\<lambda>j. JStr (randomUUID exampleRuntime j)) [5 ..< 18]
         @ [JStr (randomUUID exampleRuntime 18)]"
    unfolding exampleRequests_def w_def [symmetric] b_def [symmetric] t_def [symmetric]
      e1 e2 e3 e4 ..
  have l: "length (created exampleRuntime KTask exampleStore exampleRequests) = 14"
    unfolding c by simp
  note T = ids_distinct_never_reused [OF inj r0, where k = KTask and rs = exampleRequests]
  have d: "distinct (created exampleRuntime KTask exampleStore exampleRequests)"
    by (rule T [THEN conjunct2, THEN conjunct2, THEN conjunct2, THEN conjunct1])
  have "\<forall>j < uuidCalls exampleStore.
      JStr (randomUUID exampleRuntime j) \<notin> set (created exampleRuntime KTask exampleStore exampleRequests)"
    by (rule T [THEN conjunct2, THEN conjunct2, THEN conjunct2, THEN conjunct2, THEN conjunct2,
          THEN conjunct1])
  then have "JStr (randomUUID exampleRuntime 2)
      \<notin> set (created exampleRuntime KTask exampleStore exampleRequests)"
    by (simp add: u0)
  then have n: "JStr ''uuu'' \<notin> set (created exampleRuntime KTask exampleStore exampleRequests)"
    by (simp add: exampleRuntime_def numeral_eq_Suc)
  from inj r0 exampleStore_ids c l d n show ?thesis
    by (intro conjI) assumption+
qed

subsection \<open>The calendar's timeline\<close>

lemma set_map_filter: "set (List.map_filter f xs) = {y. \<exists>x\<in>set xs. f x = Some y}"
  by (induction xs) (auto simp: List.map_filter_simps split: option.splits)

lemma map_filter_concat:
  "List.map_filter f xs = concat (map (\<lambda>x. case f x of None \<Rightarrow> [] | Some y \<Rightarrow> [y]) xs)"
  by (induction xs) (auto simp: List.map_filter_simps split: option.splits)

lemma taskDeadline_Some:
  "taskDeadline sod date t = Some x \<longleftrightarrow>
     (\<exists>d. task_dueDate t = Some d \<and> sod d = sod date
        \<and> x = \<lparr>item_id = task_id t, item_type = ''Deadline'', item_title = task_title t,
               item_startDate = d, item_projectId = task_projectId t,
               item_endDate = None, item_description = None, item_location = None\<rparr>)"
  by (auto simp: taskDeadline_def isSameDay_def split: option.splits)

lemma photoShoot_Some:
  "photoShoot sod date p = Some x \<longleftrightarrow>
     (\<exists>d. project_shootDate p = Some d \<and> sod d = sod date
        \<and> x = \<lparr>item_id = project_id p, item_type = ''Photoshoot'', item_title = project_name p,
               item_startDate = d, item_projectId = project_id p,
               item_endDate = None, item_description = None, item_location = None\<rparr>)"
  by (auto simp: photoShoot_def isSameDay_def split: option.splits)

lemma getAllEventsForDate_list:
  "getAllEventsForDate sod allEvents allTasks allProjects date =
     map (\<lambda>e. \<lparr>item_id = ev_id e, item_type = ev_type e, item_title = ev_title e,
                 item_startDate = ev_startDate e, item_projectId = ev_projectId e,
                 item_endDate = ev_endDate e, item_description = ev_description e,
                 item_location = ev_location e\<rparr>)
       (filter (\<lambda>e. sod (ev_startDate e) = sod date) allEvents)
     @ concat (map (\<lambda>t. case task_dueDate t of
                           None \<Rightarrow> []
                         | Some d \<Rightarrow>
                             if sod d = sod date
                             then [\<lparr>item_id = task_id t, item_type = ''Deadline'',
                                    item_title = task_title t, item_startDate = d,
                                    item_projectId = task_projectId t, item_endDate = None,
                                    item_description = None, item_location = None\<rparr>]
                             else []) allTasks)
     @ concat (map (\<lambda>p. case project_shootDate p of
                           None \<Rightarrow> []
                         | Some d \<Rightarrow>
                             if sod d = sod date
                             then [\<lparr>item_id = project_id p, item_type = ''Photoshoot'',
                                    item_title = project_name p, item_startDate = d,
                                    item_projectId = project_id p, item_endDate = None,
                                    item_description = None, item_location = None\<rparr>]
                             else []) allProjects)"
proof -
  have e: "map eventItem (filter (\<lambda>event. isSameDay sod (ev_startDate event) date) allEvents)
      = map (\<lambda>e. \<lparr>item_id = ev_id e, item_type = ev_type e, item_title = ev_title e,
                 item_startDate = ev_startDate e, item_projectId = ev_projectId e,
                 item_endDate = ev_endDate e, item_description = ev_description e,
                 item_location = ev_location e\<rparr>)
          (filter (\<lambda>e. sod (ev_startDate e) = sod date) allEvents)"
    by (simp add: isSameDay_def eventItem_def)
  have t: "(\<lambda>t. case taskDeadline sod date t of None \<Rightarrow> [] | Some y \<Rightarrow> [y])
      = (\<lambda>t. case task_dueDate t of
                           None \<Rightarrow> []
                         | Some d \<Rightarrow>
                             if sod d = sod date
                             then [\<lparr>item_id = task_id t, item_type = ''Deadline'',
                                    item_title = task_title t, item_startDate = d,
                                    item_projectId = task_projectId t, item_endDate = None,
                                    item_description = None, item_location = None\<rparr>]
                             else [])"
    by (rule ext) (simp add: taskDeadline_def isSameDay_def split: option.split)
  have p: "(\<lambda>p. case photoShoot sod date p of None \<Rightarrow> [] | Some y \<Rightarrow> [y])
      = (\<lambda>p. case project_shootDate p of
                           None \<Rightarrow> []
                         | Some d \<Rightarrow>
                             if sod d = sod date
                             then [\<lparr>item_id = project_id p, item_type = ''Photoshoot'',
                                    item_title = project_name p, item_startDate = d,
                                    item_projectId = project_id p, item_endDate = None,
                                    item_description = None, item_location = None\<rparr>]
                             else [])"
    by (rule ext) (simp add: photoShoot_def isSameDay_def split: option.split)
  show ?thesis
    unfolding getAllEventsForDate_def Let_def map_filter_concat e t p ..
qed

lemma getAllEventsForDate_set:
  "x \<in> set (getAllEventsForDate sod allEvents allTasks allProjects date) \<longleftrightarrow>
     (\<exists>e\<in>set allEvents. sod (ev_startDate e) = sod date
          \<and> x = \<lparr>item_id = ev_id e, item_type = ev_type e, item_title = ev_title e,
                 item_startDate = ev_startDate e, item_projectId = ev_projectId e,
                 item_endDate = ev_endDate e, item_description = ev_description e,
                 item_location = ev_location e\<rparr>)
     \<or> (\<exists>t\<in>set allTasks. \<exists>d. task_dueDate t = Some d \<and> sod d = sod date
          \<and> x = \<lparr>item_id = task_id t, item_type = ''Deadline'', item_title = task_title t,
                 item_startDate = d, item_projectId = task_projectId t,
                 item_endDate = None, item_description = None, item_location = None\<rparr>)
     \<or> (\<exists>p\<in>set allProjects. \<exists>d. project_shootDate p = Some d \<and> sod d = sod date
          \<and> x = \<lparr>item_id = project_id p, item_type = ''Photoshoot'',
                 item_title = project_name p, item_startDate = d,
                 item_projectId = project_id p,
                 item_endDate = None, item_description = None, item_location = None\<rparr>)"
  unfolding getAllEventsForDate_def Let_def set_append set_map_filter Un_iff mem_Collect_eq
    taskDeadline_Some photoShoot_Some
  by (auto simp: isSameDay_def eventItem_def)

lemma example_day:
  "renderDayView (\<lambda>t. t - t mod 86400000)
     [\<lparr>ev_id = ''e1'', ev_projectId = ''p1'', ev_title = ''Client call'', ev_type = ''Meeting'',
       ev_startDate = 1748764800000, ev_endDate = Some 1748768400000,
       ev_description = Some ''Kickoff'', ev_location = None\<rparr>,
      \<lparr>ev_id = ''e2'', ev_projectId = ''p1'', ev_title = ''Review'', ev_type = ''Meeting'',
       ev_startDate = 1748851200000, ev_endDate = None, ev_description = None,
       ev_location = None\<rparr>]
     [\<lparr>task_id = ''t1'', task_projectId = ''p1'', task_title = ''Deliver final gallery'',
       task_section = ''Post-Production'', task_status = ''Completed'', task_assignee = None,
       task_dueDate = Some 1748818800000, task_createdAt = 0\<rparr>,
      \<lparr>task_id = ''t2'', task_projectId = ''p1'', task_title = ''Cull images'',
       task_section = ''Post-Production'', task_status = ''To Do'', task_assignee = None,
       task_dueDate = None, task_createdAt = 0\<rparr>,
      \<lparr>task_id = ''t3'', task_projectId = ''p1'', task_title = ''Pack equipment'',
       task_section = ''Shoot Day'', task_status = ''To Do'', task_assignee = None,
       task_dueDate = Some 1748732400000, task_createdAt = 0\<rparr>]
     [\<lparr>project_id = ''p1'', project_name = ''Smith wedding'', project_type = ''Wedding'',
       project_status = ''Planning'', project_clientName = None,
       project_shootDate = Some 1748772000000, project_budget = Some 5000,
       project_description = None, project_createdAt = 0\<rparr>,
      \<lparr>project_id = ''p2'', project_name = ''Portraits'', project_type = ''Portrait'',
       project_status = ''Planning'', project_clientName = None,
       project_shootDate = None, project_budget = None,
       project_description = None, project_createdAt = 0\<rparr>]
     1748779200000
   = [\<lparr>item_id = ''e1'', item_type = ''Meeting'', item_title = ''Client call'',
       item_startDate = 1748764800000, item_projectId = ''p1'',
       item_endDate = Some 1748768400000, item_description = Some ''Kickoff'',
       item_location = None\<rparr>,
      \<lparr>item_id = ''p1'', item_type = ''Photoshoot'', item_title = ''Smith wedding'',
       item_startDate = 1748772000000, item_projectId = ''p1'',
       item_endDate = None, item_description = None, item_location = None\<rparr>,
      \<lparr>item_id = ''t1'', item_type = ''Deadline'', item_title = ''Deliver final gallery'',
       item_startDate = 1748818800000, item_projectId = ''p1'',
       item_endDate = None, item_description = None, item_location = None\<rparr>]"
  by (simp add: renderDayView_def getAllEventsForDate_list)

text \<open>
  C4. For a given date, the aggregation is the concatenation of: every calendar event
  whose startDate is on the date's calendar day, as an item with the event's own id,
  type, title, startDate, projectId, endDate, description and location; for every task
  with a dueDate on that day, whatever its status, a "Deadline" item with the task's id,
  title, dueDate (as startDate) and projectId; for every project with a shootDate on that
  day a "Photoshoot" item with the project's id, name and shootDate. Two instants are on
  the same calendar day when they have the same start of day. The day view shows the same
  items sorted ascending by startDate, items of equal startDate in the aggregation's
  order. In the example (browser in UTC, epoch milliseconds; day view of 2025-06-01):
  an event at 08:00, a shootDate at 10:00 and the dueDate at 23:00 of a completed task, all
  on 2025-06-01, are shown in the order event, photoshoot, deadline; an event on
  2025-06-02, a task due on 2025-05-31, a task without dueDate and a project without
  shootDate are not shown.
\<close>

theorem timeline_merge:
  "getAllEventsForDate sod allEvents allTasks allProjects date =
     map (\<lambda>e. \<lparr>item_id = ev_id e, item_type = ev_type e, item_title = ev_title e,
                 item_startDate = ev_startDate e, item_projectId = ev_projectId e,
                 item_endDate = ev_endDate e, item_description = ev_description e,
                 item_location = ev_location e\<rparr>)
       (filter (\<lambda>e. sod (ev_startDate e) = sod date) allEvents)
     @ concat (map (\<lambda>t. case task_dueDate t of
                           None \<Rightarrow> []
                         | Some d \<Rightarrow>
                             if sod d = sod date
                             then [\<lparr>item_id = task_id t, item_type = ''Deadline'',
                                    item_title = task_title t, item_startDate = d,
                                    item_projectId = task_projectId t, item_endDate = None,
                                    item_description = None, item_location = None\<rparr>]
                             else []) allTasks)
     @ concat (map (\<lambda>p. case project_shootDate p of
                           None \<Rightarrow> []
                         | Some d \<Rightarrow>
                             if sod d = sod date
                             then [\<lparr>item_id = project_id p, item_type = ''Photoshoot'',
                                    item_title = project_name p, item_startDate = d,
                                    item_projectId = project_id p, item_endDate = None,
                                    item_description = None, item_location = None\<rparr>]
                             else []) allProjects)
   \<and> (x \<in> set (getAllEventsForDate sod allEvents allTasks allProjects date) \<longleftrightarrow>
     (\<exists>e\<in>set allEvents. sod (ev_startDate e) = sod date
          \<and> x = \<lparr>item_id = ev_id e, item_type = ev_type e, item_title = ev_title e,
                 item_startDate = ev_startDate e, item_projectId = ev_projectId e,
                 item_endDate = ev_endDate e, item_description = ev_description e,
                 item_location = ev_location e\<rparr>)
     \<or> (\<exists>t\<in>set allTasks. \<exists>d. task_dueDate t = Some d \<and> sod d = sod date
          \<and> x = \<lparr>item_id = task_id t, item_type = ''Deadline'', item_title = task_title t,
                 item_startDate = d, item_projectId = task_projectId t,
                 item_endDate = None, item_description = None, item_location = None\<rparr>)
     \<or> (\<exists>p\<in>set allProjects. \<exists>d. project_shootDate p = Some d \<and> sod d = sod date
          \<and> x = \<lparr>item_id = project_id p, item_type = ''Photoshoot'',
                 item_title = project_name p, item_startDate = d,
                 item_projectId = project_id p,
                 item_endDate = None, item_description = None, item_location = None\<rparr>))
   \<and> mset (renderDayView sod allEvents allTasks allProjects date)
       = mset (getAllEventsForDate sod allEvents allTasks allProjects date)
   \<and> sorted (map item_startDate (renderDayView sod allEvents allTasks allProjects date))
   \<and> filter (\<lambda>y. item_startDate y = k) (renderDayView sod allEvents allTasks allProjects date)
       = filter (\<lambda>y. item_startDate y = k)
           (getAllEventsForDate sod allEvents allTasks allProjects date)
   \<and> renderDayView (\<lambda>t. t - t mod 86400000)
     [\<lparr>ev_id = ''e1'', ev_projectId = ''p1'', ev_title = ''Client call'', ev_type = ''Meeting'',
       ev_startDate = 1748764800000, ev_endDate = Some 1748768400000,
       ev_description = Some ''Kickoff'', ev_location = None\<rparr>,
      \<lparr>ev_id = ''e2'', ev_projectId = ''p1'', ev_title = ''Review'', ev_type = ''Meeting'',
       ev_startDate = 1748851200000, ev_endDate = None, ev_description = None,
       ev_location = None\<rparr>]
     [\<lparr>task_id = ''t1'', task_projectId = ''p1'', task_title = ''Deliver final gallery'',
       task_section = ''Post-Production'', task_status = ''Completed'', task_assignee = None,
       task_dueDate = Some 1748818800000, task_createdAt = 0\<rparr>,
      \<lparr>task_id = ''t2'', task_projectId = ''p1'', task_title = ''Cull images'',
       task_section = ''Post-Production'', task_status = ''To Do'', task_assignee = None,
       task_dueDate = None, task_createdAt = 0\<rparr>,
      \<lparr>task_id = ''t3'', task_projectId = ''p1'', task_title = ''Pack equipment'',
       task_section = ''Shoot Day'', task_status = ''To Do'', task_assignee = None,
       task_dueDate = Some 1748732400000, task_createdAt = 0\<rparr>]
     [\<lparr>project_id = ''p1'', project_name = ''Smith wedding'', project_type = ''Wedding'',
       project_status = ''Planning'', project_clientName = None,
       project_shootDate = Some 1748772000000, project_budget = Some 5000,
       project_description = None, project_createdAt = 0\<rparr>,
      \<lparr>project_id = ''p2'', project_name = ''Portraits'', project_type = ''Portrait'',
       project_status = ''Planning'', project_clientName = None,
       project_shootDate = None, project_budget = None,
       project_description = None, project_createdAt = 0\<rparr>]
     1748779200000
   = [\<lparr>item_id = ''e1'', item_type = ''Meeting'', item_title = ''Client call'',
       item_startDate = 1748764800000, item_projectId = ''p1'',
       item_endDate = Some 1748768400000, item_description = Some ''Kickoff'',
       item_location = None\<rparr>,
      \<lparr>item_id = ''p1'', item_type = ''Photoshoot'', item_title = ''Smith wedding'',
       item_startDate = 1748772000000, item_projectId = ''p1'',
       item_endDate = None, item_description = None, item_location = None\<rparr>,
      \<lparr>item_id = ''t1'', item_type = ''Deadline'', item_title = ''Deliver final gallery'',
       item_startDate = 1748818800000, item_projectId = ''p1'',
       item_endDate = None, item_description = None, item_location = None\<rparr>]"
  using getAllEventsForDate_list [of sod allEvents allTasks allProjects date]
    getAllEventsForDate_set [of x sod allEvents allTasks allProjects date]
    example_day
  by (simp add: renderDayView_def sort_key_stable)

theorem timeline_merge_witness:
  "getAllEventsForDate (\<lambda>t. t - t mod 86400000)
     [\<lparr>ev_id = ''e1'', ev_projectId = ''p1'', ev_title = ''Client call'', ev_type = ''Meeting'',
       ev_startDate = 1748764800000, ev_endDate = Some 1748768400000,
       ev_description = Some ''Kickoff'', ev_location = None\<rparr>,
      \<lparr>ev_id = ''e2'', ev_projectId = ''p1'', ev_title = ''Review'', ev_type = ''Meeting'',
       ev_startDate = 1748851200000, ev_endDate = None, ev_description = None,
       ev_location = None\<rparr>]
     [\<lparr>task_id = ''t3'', task_projectId = ''p1'', task_title = ''Pack equipment'',
       task_section = ''Shoot Day'', task_status = ''To Do'', task_assignee = None,
       task_dueDate = Some 1748732400000, task_createdAt = 0\<rparr>,
      \<lparr>task_id = ''t1'', task_projectId = ''p1'', task_title = ''Deliver final gallery'',
       task_section = ''Post-Production'', task_status = ''Completed'', task_assignee = None,
       task_dueDate = Some 1748818800000, task_createdAt = 0\<rparr>]
     [\<lparr>project_id = ''p1'', project_name = ''Smith wedding'', project_type = ''Wedding'',
       project_status = ''Planning'', project_clientName = None,
       project_shootDate = Some 1748772000000, project_budget = Some 5000,
       project_description = None, project_createdAt = 0\<rparr>]
     1748779200000
   = [\<lparr>item_id = ''e1'', item_type = ''Meeting'', item_title = ''Client call'',
       item_startDate = 1748764800000, item_projectId = ''p1'',
       item_endDate = Some 1748768400000, item_description = Some ''Kickoff'',
       item_location = None\<rparr>,
      \<lparr>item_id = ''t1'', item_type = ''Deadline'', item_title = ''Deliver final gallery'',
       item_startDate = 1748818800000, item_projectId = ''p1'',
       item_endDate = None, item_description = None, item_location = None\<rparr>,
      \<lparr>item_id = ''p1'', item_type = ''Photoshoot'', item_title = ''Smith wedding'',
       item_startDate = 1748772000000, item_projectId = ''p1'',
       item_endDate = None, item_description = None, item_location = None\<rparr>]"
  using timeline_merge [where sod = "\<lambda>t. t - t mod 86400000"
      and allEvents = "[\<lparr>ev_id = ''e1'', ev_projectId = ''p1'', ev_title = ''Client call'',
         ev_type = ''Meeting'', ev_startDate = 1748764800000, ev_endDate = Some 1748768400000,
         ev_description = Some ''Kickoff'', ev_location = None\<rparr>,
        \<lparr>ev_id = ''e2'', ev_projectId = ''p1'', ev_title = ''Review'', ev_type = ''Meeting'',
         ev_startDate = 1748851200000, ev_endDate = None, ev_description = None,
         ev_location = None\<rparr>]"
      and allTasks = "[\<lparr>task_id = ''t3'', task_projectId = ''p1'',
         task_title = ''Pack equipment'', task_section = ''Shoot Day'', task_status = ''To Do'',
         task_assignee = None, task_dueDate = Some 1748732400000, task_createdAt = 0\<rparr>,
        \<lparr>task_id = ''t1'', task_projectId = ''p1'', task_title = ''Deliver final gallery'',
         task_section = ''Post-Production'', task_status = ''Completed'', task_assignee = None,
         task_dueDate = Some 1748818800000, task_createdAt = 0\<rparr>]"
      and allProjects = "[\<lparr>project_id = ''p1'', project_name = ''Smith wedding'',
         project_type = ''Wedding'', project_status = ''Planning'', project_clientName = None,
         project_shootDate = Some 1748772000000, project_budget = Some 5000,
         project_description = None, project_createdAt = 0\<rparr>]"
      and date = 1748779200000, THEN conjunct1]
  by simp


end
